theory Spec2Isabelle
  imports Complex_Main
begin

section \<open>Python values\<close>

text \<open>
  The engine stores what the ability providers return without checking its shape
  (\<^verbatim>\<open>Dict[str, Any]\<close>, and a pydantic model that does not validate on assignment), so
  the values that a stage leaves in the ticket state are arbitrary JSON-like values; the
  state is validated against its schema when the graph hands it to the next node or to a
  branch function. Python \<^verbatim>\<open>int\<close> is \<open>int\<close>; a \<^verbatim>\<open>float\<close> is taken as the rational it
  denotes.
\<close>

datatype json =
    JNull
  | JBool bool
  | JInt int
  | JFloat rat
  | JStr string
  | JList "json list"
  | JDict "(json \<times> json) list"

text \<open>
  \<open>dict\<close> is a \<^verbatim>\<open>Dict[str, Any]\<close>, the response of a provider; \<open>pydict\<close> is any Python
  dictionary of such values, in insertion order. \<open>obj\<close> is a \<open>dict\<close> as a value.
\<close>

type_synonym dict = "(string \<times> json) list"

type_synonym pydict = "(json \<times> json) list"

definition obj :: "dict \<Rightarrow> json" where
  "obj d = JDict (map (\<lambda>(k, v). (JStr k, v)) d)"

text \<open>
  An exception, an instance of \<^verbatim>\<open>Exception\<close> (what \<^verbatim>\<open>except Exception\<close> catches), is its
  class name and its message; \<^verbatim>\<open>str(e)\<close> is the message.
\<close>

datatype exn = Exn (exn_class: string) (exn_msg: string)

definition quoted :: "string \<Rightarrow> string" where
  "quoted s = [CHR 0x27] @ s @ [CHR 0x27]"

definition type_name :: "json \<Rightarrow> string" where
  "type_name v =
     (case v of JNull \<Rightarrow> ''NoneType'' | JBool _ \<Rightarrow> ''bool'' | JInt _ \<Rightarrow> ''int''
      | JFloat _ \<Rightarrow> ''float'' | JStr _ \<Rightarrow> ''str'' | JList _ \<Rightarrow> ''list''
      | JDict _ \<Rightarrow> ''dict'')"

text \<open>\<^verbatim>\<open>d.get(k, default)\<close> on a dictionary.\<close>

definition dict_get :: "dict \<Rightarrow> string \<Rightarrow> json \<Rightarrow> json" where
  "dict_get d k dflt = (case map_of d k of None \<Rightarrow> dflt | Some v \<Rightarrow> v)"

text \<open>Truth value of a Python object, as \<^verbatim>\<open>if x:\<close> and \<^verbatim>\<open>not x\<close> take it.\<close>

definition truthy :: "json \<Rightarrow> bool" where
  "truthy v =
     (case v of JNull \<Rightarrow> False | JBool b \<Rightarrow> b | JInt i \<Rightarrow> i \<noteq> 0 | JFloat r \<Rightarrow> r \<noteq> 0
      | JStr s \<Rightarrow> s \<noteq> [] | JList xs \<Rightarrow> xs \<noteq> [] | JDict kvs \<Rightarrow> kvs \<noteq> [])"

text \<open>
  The numeric value of an object that Python compares with an \<^verbatim>\<open>int\<close>: numbers, and
  \<^verbatim>\<open>bool\<close> as 0 or 1. Everything else makes \<^verbatim>\<open><\<close> and \<^verbatim>\<open>>=\<close> raise TypeError.
\<close>

definition num_value :: "json \<Rightarrow> rat option" where
  "num_value v =
     (case v of JBool b \<Rightarrow> Some (if b then 1 else 0) | JInt i \<Rightarrow> Some (of_int i)
      | JFloat r \<Rightarrow> Some r | _ \<Rightarrow> None)"

definition py_lt :: "json \<Rightarrow> int \<Rightarrow> exn + bool" where
  "py_lt v n =
     (case num_value v of
        Some r \<Rightarrow> Inr (r < of_int n)
      | None \<Rightarrow> Inl (Exn ''TypeError''
          (quoted ''<'' @ '' not supported between instances of '' @ quoted (type_name v)
           @ '' and '' @ quoted ''int'')))"

definition py_ge :: "json \<Rightarrow> int \<Rightarrow> exn + bool" where
  "py_ge v n =
     (case num_value v of
        Some r \<Rightarrow> Inr (r \<ge> of_int n)
      | None \<Rightarrow> Inl (Exn ''TypeError''
          (quoted ''>='' @ '' not supported between instances of '' @ quoted (type_name v)
           @ '' and '' @ quoted ''int'')))"

text \<open>\<^verbatim>\<open>len(x)\<close>.\<close>

definition py_len :: "json \<Rightarrow> exn + nat" where
  "py_len v =
     (case v of JStr s \<Rightarrow> Inr (length s) | JList xs \<Rightarrow> Inr (length xs)
      | JDict kvs \<Rightarrow> Inr (length kvs)
      | _ \<Rightarrow> Inl (Exn ''TypeError'' (''object of type '' @ quoted (type_name v) @ '' has no len()'')))"

subsection \<open>Strings\<close>

text \<open>
  Strings are ASCII text: \<^verbatim>\<open>upper\<close>, \<^verbatim>\<open>lower\<close> and \<^verbatim>\<open>strip\<close> act on the ASCII letters
  and the ASCII white space and leave every other character alone.
\<close>

definition upper_char :: "char \<Rightarrow> char" where
  "upper_char c =
     (if 97 \<le> (of_char c :: nat) \<and> (of_char c :: nat) \<le> 122
      then char_of ((of_char c :: nat) - 32) else c)"

definition lower_char :: "char \<Rightarrow> char" where
  "lower_char c =
     (if 65 \<le> (of_char c :: nat) \<and> (of_char c :: nat) \<le> 90
      then char_of ((of_char c :: nat) + 32) else c)"

definition str_upper :: "string \<Rightarrow> string" where
  "str_upper s = map upper_char s"

definition str_lower :: "string \<Rightarrow> string" where
  "str_lower s = map lower_char s"

definition is_space :: "char \<Rightarrow> bool" where
  "is_space c =
     ((9 \<le> (of_char c :: nat) \<and> (of_char c :: nat) \<le> 13)
      \<or> (28 \<le> (of_char c :: nat) \<and> (of_char c :: nat) \<le> 32))"

definition str_strip :: "string \<Rightarrow> string" where
  "str_strip s = rev (dropWhile is_space (rev (dropWhile is_space s)))"

text \<open>\<^verbatim>\<open>sub in s\<close> for strings.\<close>

fun str_contains :: "string \<Rightarrow> string \<Rightarrow> bool" where
  "str_contains sub [] = (sub = [])"
| "str_contains sub (c # cs) = (take (length sub) (c # cs) = sub \<or> str_contains sub cs)"

text \<open>\<^verbatim>\<open>str(n)\<close> for an \<^verbatim>\<open>int\<close>.\<close>

definition digit_char :: "nat \<Rightarrow> char" where
  "digit_char d = char_of (48 + d)"

fun nat_digits :: "nat \<Rightarrow> string" where
  "nat_digits n = (if n < 10 then [digit_char n] else nat_digits (n div 10) @ [digit_char (n mod 10)])"

definition str_int :: "int \<Rightarrow> string" where
  "str_int i = (if i < 0 then CHR ''-'' # nat_digits (nat (- i)) else nat_digits (nat i))"

subsection \<open>Dictionaries and sequences\<close>

text \<open>
  Keys of a Python dictionary are compared with \<^verbatim>\<open>==\<close>, under which \<^verbatim>\<open>True\<close>, \<^verbatim>\<open>1\<close> and
  \<^verbatim>\<open>1.0\<close> are one key; lists and dictionaries are not hashable. \<^verbatim>\<open>d[k] = v\<close> keeps the
  place (and the key object) of a key that is already there.
\<close>

definition key_norm :: "json \<Rightarrow> json" where
  "key_norm k =
     (case k of JBool b \<Rightarrow> JFloat (if b then 1 else 0) | JInt i \<Rightarrow> JFloat (of_int i)
      | _ \<Rightarrow> k)"

definition hashable :: "json \<Rightarrow> bool" where
  "hashable k = (case k of JList _ \<Rightarrow> False | JDict _ \<Rightarrow> False | _ \<Rightarrow> True)"

definition unhashable :: "json \<Rightarrow> exn" where
  "unhashable k = Exn ''TypeError'' (''unhashable type: '' @ quoted (type_name k))"

fun pydict_set :: "pydict \<Rightarrow> json \<Rightarrow> json \<Rightarrow> pydict" where
  "pydict_set [] k v = [(k, v)]"
| "pydict_set ((k', v') # rest) k v =
     (if key_norm k' = key_norm k then (k', v) # rest else (k', v') # pydict_set rest k v)"

text \<open>
  \<^verbatim>\<open>x[k]\<close> with a string \<open>k\<close>. The message for a string \<open>x\<close> is that of Python 3.10;
  later versions add the type of the index to it.
\<close>

definition py_subscript :: "json \<Rightarrow> string \<Rightarrow> exn + json" where
  "py_subscript x k =
     (case x of
        JDict kvs \<Rightarrow>
          (case map_of kvs (JStr k) of
             None \<Rightarrow> Inl (Exn ''KeyError'' (quoted k))
           | Some v \<Rightarrow> Inr v)
      | JStr _ \<Rightarrow> Inl (Exn ''TypeError'' ''string indices must be integers'')
      | JList _ \<Rightarrow> Inl (Exn ''TypeError'' ''list indices must be integers or slices, not str'')
      | _ \<Rightarrow> Inl (Exn ''TypeError'' (quoted (type_name x) @ '' object is not subscriptable'')))"

text \<open>The elements that iterating over an object yields; \<open>None\<close> when it is not iterable.\<close>

definition py_iter :: "json \<Rightarrow> json list option" where
  "py_iter x =
     (case x of JList xs \<Rightarrow> Some xs | JStr s \<Rightarrow> Some (map (\<lambda>c. JStr [c]) s)
      | JDict kvs \<Rightarrow> Some (map fst kvs) | _ \<Rightarrow> None)"

definition not_iterable :: "json \<Rightarrow> exn" where
  "not_iterable x = Exn ''TypeError'' (quoted (type_name x) @ '' object is not iterable'')"

text \<open>
  \<^verbatim>\<open>d.update(other)\<close>. A dictionary is merged key by key. Any other object is iterated
  as a sequence of key/value pairs, each element itself a sequence of length 2; the
  pairs before a bad element stay in \<open>d\<close> when the call raises.
\<close>

fun update_pairs :: "pydict \<Rightarrow> nat \<Rightarrow> json list \<Rightarrow> pydict \<times> exn option" where
  "update_pairs d i [] = (d, None)"
| "update_pairs d i (x # xs) =
     (case py_iter x of
        None \<Rightarrow> (d, Some (Exn ''TypeError''
          (''cannot convert dictionary update sequence element #'' @ str_int (int i)
           @ '' to a sequence'')))
      | Some [k, v] \<Rightarrow>
          (if hashable k then update_pairs (pydict_set d k v) (Suc i) xs
           else (d, Some (unhashable k)))
      | Some ys \<Rightarrow> (d, Some (Exn ''ValueError''
          (''dictionary update sequence element #'' @ str_int (int i) @ '' has length ''
           @ str_int (int (length ys)) @ ''; 2 is required''))))"

definition dict_update :: "pydict \<Rightarrow> json \<Rightarrow> pydict \<times> exn option" where
  "dict_update d other =
     (case other of
        JDict kvs \<Rightarrow> (fold (\<lambda>(k, v) acc. pydict_set acc k v) kvs d, None)
      | _ \<Rightarrow>
          (case py_iter other of
             None \<Rightarrow> (d, Some (not_iterable other))
           | Some xs \<Rightarrow> update_pairs d 0 xs))"

text \<open>
  \<^verbatim>\<open>r.get(k, default)\<close> where \<open>r\<close> is the \<^verbatim>\<open>result\<close> of an ability execution: a dictionary,
  or \<^verbatim>\<open>None\<close> after a provider error, on which the attribute lookup raises.
\<close>

definition opt_get :: "dict option \<Rightarrow> string \<Rightarrow> json \<Rightarrow> exn + json" where
  "opt_get r k dflt =
     (case r of
        None \<Rightarrow> Inl (Exn ''AttributeError'' (quoted ''NoneType'' @ '' object has no attribute '' @ quoted ''get''))
      | Some d \<Rightarrow> Inr (dict_get d k dflt))"

section \<open>Data model (models.py)\<close>

datatype Priority = LOW | MEDIUM | HIGH | CRITICAL

datatype Status = PENDING | RESOLVED | ESCALATED | CLOSED

datatype StageMode =
  ENTRY_ONLY | DETERMINISTIC | NON_DETERMINISTIC | HUMAN_INTERACTION | OUTPUT_ONLY

definition priority_value :: "Priority \<Rightarrow> string" where
  "priority_value p =
     (case p of LOW \<Rightarrow> ''low'' | MEDIUM \<Rightarrow> ''medium'' | HIGH \<Rightarrow> ''high''
      | CRITICAL \<Rightarrow> ''critical'')"

record InputPayload =
  customer_name :: string
  email :: string
  query :: string
  priority :: Priority
  ticket_id :: string

text \<open>
  \<^verbatim>\<open>input_payload.dict()\<close> is the only payload the engine sends to a provider. Its five
  keys are always present and their values are strings (\<^verbatim>\<open>Priority\<close> is a \<^verbatim>\<open>str\<close>
  enumeration), so \<^verbatim>\<open>payload.get(k, default)\<close> is a string.
\<close>

definition payload_get :: "InputPayload \<Rightarrow> string \<Rightarrow> string \<Rightarrow> string" where
  "payload_get p k dflt =
     (if k = ''customer_name'' then customer_name p
      else if k = ''email'' then email p
      else if k = ''query'' then query p
      else if k = ''priority'' then priority_value (priority p)
      else if k = ''ticket_id'' then ticket_id p
      else dflt)"

text \<open>
  Wall-clock readings (\<^verbatim>\<open>execution_time\<close>, \<^verbatim>\<open>start_time\<close>, \<^verbatim>\<open>created_at\<close>, ...) and the
  emoji of a stage are left out of the records; of \<^verbatim>\<open>end_time\<close> the model keeps whether
  it has been set (\<open>ended\<close>).
\<close>

record AbilityExecution =
  ability_name :: string
  server_used :: string
  status :: string
  result :: "dict option"
  error :: "string option"

record StageLog =
  stage_name :: string
  stage_id :: nat
  mode :: StageMode
  abilities_executed :: "AbilityExecution list"
  ended :: bool
  success :: bool
  log_error :: "string option"

section \<open>Ability providers (mcp\_client.py)\<close>

text \<open>
  An \<^verbatim>\<open>MCPClient\<close> holds the server name, its configuration and an HTTP client; of the
  HTTP client the model keeps how often \<^verbatim>\<open>aclose\<close> has been called on it.
\<close>

record MCPClient =
  server_name :: string
  url :: string
  api_key :: string
  aclose_calls :: nat

definition MCPClient_init :: "string \<Rightarrow> string \<times> string \<Rightarrow> MCPClient" where
  "MCPClient_init name config =
     \<lparr>server_name = name, url = fst config, api_key = snd config, aclose_calls = 0\<rparr>"

definition not_found :: dict where
  "not_found = [(''status'', JStr ''ability_not_found''), (''result'', JNull)]"

definition atlas_responses :: "InputPayload \<Rightarrow> (string \<times> dict) list" where
  "atlas_responses payload =
   [(''extract_entities'',
       [(''entities'', obj [(''product'', JStr ''User Account''),
                              (''issue_type'', JStr ''Authentication''),
                              (''urgency'', JStr ''High''),
                              (''account_id'', JStr ''user_12345'')])]),
    (''enrich_records'',
       [(''sla_info'', obj [(''response_time'', JStr ''2 hours''),
                              (''resolution_time'', JStr ''24 hours'')]),
        (''historical_tickets'', JList
           [obj [(''ticket_id'', JStr ''T-001''), (''issue'', JStr ''Password reset''),
                   (''resolved'', JBool True)],
            obj [(''ticket_id'', JStr ''T-002''), (''issue'', JStr ''Account locked''),
                   (''resolved'', JBool True)]])]),
    (''clarify_question'',
       [(''question'',
           JStr (''Have you tried using the '' @ [CHR 0x27] @ ''Forgot Password''
                 @ [CHR 0x27] @ '' feature on the login page?''))]),
    (''extract_answer'',
       [(''answer'',
           JStr (''Yes, I tried the forgot password feature but I'' @ [CHR 0x27]
                 @ ''m not receiving the reset email.''))]),
    (''knowledge_base_search'',
       [(''results'', JList
           [obj [(''title'', JStr ''Email delivery issues''),
                   (''content'', JStr (''Check spam folder, verify email address, contact ''
                      @ ''support if no email received within 10 minutes'')),
                   (''relevance'', JFloat (95 / 100))],
            obj [(''title'', JStr ''Password reset troubleshooting''),
                   (''content'', JStr (''Common issues include blocked emails, incorrect ''
                      @ ''email address, or account lockout'')),
                   (''relevance'', JFloat (89 / 100))]])]),
    (''escalation_decision'',
       [(''escalate'', JBool False),
        (''reason'', JStr ''Standard troubleshooting available'')]),
    (''update_ticket'',
       [(''ticket_updated'', JBool True), (''new_status'', JStr ''In Progress'')]),
    (''close_ticket'',
       [(''ticket_closed'', JBool True), (''closure_reason'', JStr ''Resolved'')]),
    (''execute_api_calls'',
       [(''api_calls'', JList
           [obj [(''api'', JStr ''reset_password_email''), (''status'', JStr ''triggered''),
                   (''response'', JStr ''Email sent'')],
            obj [(''api'', JStr ''unlock_account''), (''status'', JStr ''success''),
                   (''response'', JStr ''Account unlocked'')]])]),
    (''trigger_notifications'',
       [(''notifications'', JList
           [obj [(''type'', JStr ''email''),
                   (''recipient'', JStr (payload_get payload ''email'' [])),
                   (''status'', JStr ''sent'')],
            obj [(''type'', JStr ''sms''),
                   (''recipient'', JStr (payload_get payload ''phone'' [])),
                   (''status'', JStr ''sent'')]])])]"

definition atlas_ability_response :: "string \<Rightarrow> InputPayload \<Rightarrow> dict" where
  "atlas_ability_response name payload =
     (case map_of (atlas_responses payload) name of None \<Rightarrow> not_found | Some r \<Rightarrow> r)"

text \<open>
  The COMMON table is built anew on every call and reads the clock for the
  \<^verbatim>\<open>timestamp\<close> of \<^verbatim>\<open>normalize_fields\<close>; \<open>now\<close> is that reading in ISO format.
\<close>

definition join_lines :: "string list \<Rightarrow> string" where
  "join_lines ls = (case ls of [] \<Rightarrow> [] | l # rest \<Rightarrow> foldl (\<lambda>acc x. acc @ [CHR 0x0A] @ x) l rest)"

definition response_text :: "InputPayload \<Rightarrow> string" where
  "response_text payload = join_lines
    [''Dear '' @ payload_get payload ''customer_name'' ''Customer'' @ '','',
     [],
     ''Thank you for contacting our support team regarding your login issue.'',
     [],
     ''I understand you'' @ [CHR 0x27] @ ''re having trouble accessing your account due to ''
       @ ''password authentication issues. Based on our investigation, I'' @ [CHR 0x27]
       @ ''ve taken the following steps to resolve this:'',
     [],
     ''1. Unlocked your account (it appears to have been temporarily locked due to ''
       @ ''multiple failed login attempts)'',
     ''2. Sent a new password reset email to your registered address'',
     ''3. Verified that our email system is functioning properly'',
     [],
     ''Please check your inbox (and spam folder) for the password reset email. If you don''
       @ [CHR 0x27] @ ''t receive it within 10 minutes, please reply to this ticket and we''
       @ [CHR 0x27] @ ''ll explore alternative solutions.'',
     [],
     ''For immediate assistance with urgent transactions, you can also call our priority ''
       @ ''support line at 1-800-SUPPORT.'',
     [],
     ''Best regards,'',
     ''Langie - Customer Support Agent'',
     ''Ticket ID: '' @ payload_get payload ''ticket_id'' ''Unknown'']"

definition common_responses :: "string \<Rightarrow> InputPayload \<Rightarrow> (string \<times> dict) list" where
  "common_responses now payload =
   [(''parse_request_text'',
       [(''structured_data'', obj
           [(''issue_category'', JStr ''Authentication''),
            (''priority_level'', JStr ''High''),
            (''keywords'', JList [JStr ''login'', JStr ''password'', JStr ''incorrect'',
                                  JStr ''urgent'', JStr ''transaction'']),
            (''sentiment'', JStr ''frustrated'')])]),
    (''normalize_fields'',
       [(''normalized'', obj
           [(''email'', JStr (str_strip (str_lower (payload_get payload ''email'' [])))),
            (''priority'', JStr (str_upper (payload_get payload ''priority'' []))),
            (''timestamp'', JStr now)])]),
    (''add_flags_calculations'',
       [(''flags'', obj [(''high_priority'', JBool True), (''sla_risk'', JBool False),
                           (''escalation_score'', JInt 25)])]),
    (''solution_evaluation'',
       [(''solutions'', JList
           [obj [(''solution'', JStr ''Send password reset email''), (''score'', JInt 85)],
            obj [(''solution'', JStr ''Unlock account manually''), (''score'', JInt 92)],
            obj [(''solution'', JStr ''Escalate to security team''), (''score'', JInt 40)]]),
        (''best_score'', JInt 92)]),
    (''response_generation'', [(''response'', JStr (response_text payload))])]"

definition common_ability_response :: "string \<Rightarrow> string \<Rightarrow> InputPayload \<Rightarrow> dict" where
  "common_ability_response now name payload =
     (case map_of (common_responses now payload) name of None \<Rightarrow> not_found | Some r \<Rightarrow> r)"

text \<open>
  What a server answers to a call: a response dictionary, or an exception (a timeout, a
  transport failure, a malformed response). \<^verbatim>\<open>_simulate_server_call\<close> is the answer of
  the repository's simulated servers, which the source marks as the place of the real
  HTTP call; the client and the engine are modelled over any such answer function.
\<close>

type_synonym server_call = "string \<Rightarrow> string \<Rightarrow> InputPayload \<Rightarrow> exn + dict"

definition simulate_server_call :: "string \<Rightarrow> server_call" where
  "simulate_server_call now server name payload =
     (if server = ''ATLAS'' then Inr (atlas_ability_response name payload)
      else if server = ''COMMON'' then Inr (common_ability_response now name payload)
      else Inr [(''status'', JStr ''unknown_server''), (''result'', JNull)])"

text \<open>\<^verbatim>\<open>MCPClient.execute_ability\<close>: the whole call is inside \<^verbatim>\<open>try\<close>.\<close>

definition MCPClient_execute_ability ::
  "server_call \<Rightarrow> MCPClient \<Rightarrow> string \<Rightarrow> InputPayload \<Rightarrow> AbilityExecution" where
  "MCPClient_execute_ability call self name payload =
     (case call (server_name self) name payload of
        Inr response \<Rightarrow>
          \<lparr>ability_name = name, server_used = server_name self, status = ''success'',
           result = Some response, error = None\<rparr>
      | Inl e \<Rightarrow>
          \<lparr>ability_name = name, server_used = server_name self, status = ''error'',
           result = None, error = Some (exn_msg e)\<rparr>)"

record MCPManager =
  clients :: "(string \<times> MCPClient) list"

definition MCPManager_init :: "string \<times> string \<Rightarrow> string \<times> string \<Rightarrow> MCPManager" where
  "MCPManager_init atlas_config common_config =
     \<lparr>clients = [(''ATLAS'', MCPClient_init ''ATLAS'' atlas_config),
                 (''COMMON'', MCPClient_init ''COMMON'' common_config)]\<rparr>"

definition MCPManager_execute_ability ::
  "server_call \<Rightarrow> MCPManager \<Rightarrow> string \<Rightarrow> string \<Rightarrow> InputPayload \<Rightarrow> AbilityExecution" where
  "MCPManager_execute_ability call self server name payload =
     (case map_of (clients self) server of
        None \<Rightarrow>
          \<lparr>ability_name = name, server_used = server, status = ''error'',
           result = None, error = Some (''Unknown server: '' @ server)\<rparr>
      | Some client \<Rightarrow> MCPClient_execute_ability call client name payload)"

text \<open>\<^verbatim>\<open>MCPManager.close\<close>: one \<^verbatim>\<open>aclose\<close> on the HTTP client of every registered client.\<close>

definition MCPManager_close :: "MCPManager \<Rightarrow> MCPManager" where
  "MCPManager_close self =
     self\<lparr>clients := map (\<lambda>(k, c). (k, c\<lparr>aclose_calls := Suc (aclose_calls c)\<rparr>)) (clients self)\<rparr>"

section \<open>Ticket state and output (models.py)\<close>

text \<open>
  Fields that the engine assigns from provider responses hold whatever the provider
  sent, so they are values of type \<open>json\<close>; \<^verbatim>\<open>None\<close> is \<open>JNull\<close>.
\<close>

record CustomerSupportState =
  input_payload :: InputPayload
  current_stage :: nat
  processing_complete :: bool
  extracted_entities :: pydict
  normalized_fields :: pydict
  enriched_data :: pydict
  knowledge_base_results :: json
  solution_scores :: pydict
  escalation_needed :: json
  escalation_reason :: json
  confidence_score :: json
  clarification_requested :: bool
  clarification_question :: json
  human_response :: json
  generated_response :: json
  api_calls_executed :: json
  notifications_sent :: json
  ticket_status :: Status
  stage_logs :: "StageLog list"

definition CustomerSupportState_init :: "InputPayload \<Rightarrow> CustomerSupportState" where
  "CustomerSupportState_init p =
     \<lparr>input_payload = p, current_stage = 1, processing_complete = False,
      extracted_entities = [], normalized_fields = [], enriched_data = [],
      knowledge_base_results = JList [], solution_scores = [],
      escalation_needed = JBool False, escalation_reason = JNull,
      confidence_score = JFloat 0, clarification_requested = False,
      clarification_question = JNull, human_response = JNull, generated_response = JNull,
      api_calls_executed = JList [], notifications_sent = JList [],
      ticket_status = PENDING, stage_logs = []\<rparr>"

record OutputPayload =
  out_ticket_id :: string
  out_status :: Status
  response :: "string option"
  out_confidence_score :: rat
  out_escalation_reason :: "string option"
  out_stage_logs :: "StageLog list"
  final_payload :: CustomerSupportState
  agent_name :: string
  agent_version :: string

subsection \<open>The dictionary form of the records\<close>

definition status_value :: "Status \<Rightarrow> string" where
  "status_value s =
     (case s of PENDING \<Rightarrow> ''pending'' | RESOLVED \<Rightarrow> ''resolved''
      | ESCALATED \<Rightarrow> ''escalated'' | CLOSED \<Rightarrow> ''closed'')"

definition mode_value :: "StageMode \<Rightarrow> string" where
  "mode_value m =
     (case m of ENTRY_ONLY \<Rightarrow> ''entry_only'' | DETERMINISTIC \<Rightarrow> ''deterministic''
      | NON_DETERMINISTIC \<Rightarrow> ''non_deterministic''
      | HUMAN_INTERACTION \<Rightarrow> ''human_interaction'' | OUTPUT_ONLY \<Rightarrow> ''output_only'')"

definition opt_str_json :: "string option \<Rightarrow> json" where
  "opt_str_json x = (case x of None \<Rightarrow> JNull | Some s \<Rightarrow> JStr s)"

definition InputPayload_dict :: "InputPayload \<Rightarrow> dict" where
  "InputPayload_dict p =
     [(''customer_name'', JStr (customer_name p)), (''email'', JStr (email p)),
      (''query'', JStr (query p)), (''priority'', JStr (priority_value (priority p))),
      (''ticket_id'', JStr (ticket_id p))]"

definition AbilityExecution_dict :: "AbilityExecution \<Rightarrow> dict" where
  "AbilityExecution_dict x =
     [(''ability_name'', JStr (ability_name x)), (''server_used'', JStr (server_used x)),
      (''status'', JStr (status x)),
      (''result'', (case result x of None \<Rightarrow> JNull | Some d \<Rightarrow> obj d)),
      (''error'', opt_str_json (error x))]"

definition StageLog_dict :: "StageLog \<Rightarrow> dict" where
  "StageLog_dict l =
     [(''stage_name'', JStr (stage_name l)), (''stage_id'', JInt (int (stage_id l))),
      (''mode'', JStr (mode_value (mode l))),
      (''abilities_executed'', JList (map (obj \<circ> AbilityExecution_dict) (abilities_executed l))),
      (''success'', JBool (success l)), (''error'', opt_str_json (log_error l))]"

definition CustomerSupportState_dict :: "CustomerSupportState \<Rightarrow> dict" where
  "CustomerSupportState_dict s =
     [(''input_payload'', obj (InputPayload_dict (input_payload s))),
      (''current_stage'', JInt (int (current_stage s))),
      (''processing_complete'', JBool (processing_complete s)),
      (''extracted_entities'', JDict (extracted_entities s)),
      (''normalized_fields'', JDict (normalized_fields s)),
      (''enriched_data'', JDict (enriched_data s)),
      (''knowledge_base_results'', knowledge_base_results s),
      (''solution_scores'', JDict (solution_scores s)),
      (''escalation_needed'', escalation_needed s),
      (''escalation_reason'', escalation_reason s),
      (''confidence_score'', confidence_score s),
      (''clarification_requested'', JBool (clarification_requested s)),
      (''clarification_question'', clarification_question s),
      (''human_response'', human_response s),
      (''generated_response'', generated_response s),
      (''api_calls_executed'', api_calls_executed s),
      (''notifications_sent'', notifications_sent s),
      (''ticket_status'', JStr (status_value (ticket_status s))),
      (''stage_logs'', JList (map (obj \<circ> StageLog_dict) (stage_logs s)))]"

section \<open>The workflow engine (langgraph\_agent.py)\<close>

text \<open>
  What the engine gets from outside. \<open>provider\<close> is what the servers answer;
  \<open>llm\<close> is the chat model, which returns the content of its reply or raises, and
  whose prompt is kept as the data it is formatted from. \<open>float_repr\<close> is \<^verbatim>\<open>str\<close> on a
  \<^verbatim>\<open>float\<close>. \<open>lax_float\<close> and \<open>lax_str\<close> are the conversions of pydantic for a \<^verbatim>\<open>float\<close>
  field given a \<^verbatim>\<open>bool\<close>, a \<^verbatim>\<open>str\<close> or an \<^verbatim>\<open>int\<close> too large to be a \<^verbatim>\<open>float\<close> exactly,
  and for a \<^verbatim>\<open>str\<close> field given a number.
\<close>

datatype prompt =
    AskPrompt string string Priority pydict
  | DecidePrompt string string Priority pydict nat

record env =
  provider :: server_call
  llm :: "prompt \<Rightarrow> exn + string"
  float_repr :: "rat \<Rightarrow> string"
  lax_float :: "json \<Rightarrow> rat option"
  lax_str :: "json \<Rightarrow> string option"

subsection \<open>Stage logs\<close>

definition log_stage_start ::
  "CustomerSupportState \<Rightarrow> string \<Rightarrow> nat \<Rightarrow> StageMode \<Rightarrow> StageLog \<times> CustomerSupportState" where
  "log_stage_start state name sid m =
     (let stage_log = \<lparr>stage_name = name, stage_id = sid, mode = m, abilities_executed = [],
                        ended = False, success = True, log_error = None\<rparr>
      in (stage_log, state\<lparr>stage_logs := stage_logs state @ [stage_log], current_stage := sid\<rparr>))"

text \<open>
  The log that \<^verbatim>\<open>_log_stage_start\<close> returns is the object it appended to
  \<^verbatim>\<open>state.stage_logs\<close>: what a stage does to its log shows in the last entry of the list.
  \<open>sync_log\<close> writes the log of the running stage there.
\<close>

definition sync_log :: "CustomerSupportState \<Rightarrow> StageLog \<Rightarrow> CustomerSupportState" where
  "sync_log state stage_log = state\<lparr>stage_logs := butlast (stage_logs state) @ [stage_log]\<rparr>"

definition log_stage_complete ::
  "CustomerSupportState \<Rightarrow> StageLog \<Rightarrow> bool \<Rightarrow> string option \<Rightarrow> CustomerSupportState" where
  "log_stage_complete state stage_log ok err =
     sync_log state
       (stage_log\<lparr>ended := True, success := ok,
                  log_error := (case err of
                                  Some e \<Rightarrow> if e \<noteq> [] then Some e else log_error stage_log
                                | None \<Rightarrow> log_error stage_log)\<rparr>)"

subsection \<open>Abilities\<close>

definition execute_internal_ability :: "string \<Rightarrow> CustomerSupportState \<Rightarrow> dict" where
  "execute_internal_ability name state =
     (if name = ''accept_payload'' then
        [(''status'', JStr ''payload_accepted''),
         (''ticket_id'', JStr (ticket_id (input_payload state)))]
      else if name = ''store_answer'' then [(''status'', JStr ''answer_stored'')]
      else if name = ''store_data'' then [(''status'', JStr ''data_stored'')]
      else if name = ''update_payload'' then [(''status'', JStr ''payload_updated'')]
      else if name = ''output_payload'' then
        [(''status'', JStr ''payload_output''),
         (''final_payload'', obj (CustomerSupportState_dict state))]
      else [(''status'', JStr ''unknown_internal_ability'')])"

text \<open>\<^verbatim>\<open>results[name] = result\<close>.\<close>

fun results_set ::
  "(string \<times> dict option) list \<Rightarrow> string \<Rightarrow> dict option \<Rightarrow> (string \<times> dict option) list" where
  "results_set [] k v = [(k, v)]"
| "results_set ((k', v') # rest) k v =
     (if k' = k then (k', v) # rest else (k', v') # results_set rest k v)"

text \<open>
  \<^verbatim>\<open>_execute_abilities\<close>: an ability is a pair of its name and its server. The loop
  carries the results and the log of the stage.
\<close>

fun execute_abilities_loop ::
  "env \<Rightarrow> MCPManager \<Rightarrow> CustomerSupportState \<Rightarrow> (string \<times> string) list
   \<Rightarrow> (string \<times> dict option) list \<times> StageLog \<Rightarrow> (string \<times> dict option) list \<times> StageLog" where
  "execute_abilities_loop ev mgr state [] (results, stage_log) = (results, stage_log)"
| "execute_abilities_loop ev mgr state ((name, server) # rest) (results, stage_log) =
     (if server = ''internal'' then
        (let r = execute_internal_ability name (sync_log state stage_log)
         in execute_abilities_loop ev mgr state rest (results_set results name (Some r), stage_log))
      else
        (let execution = MCPManager_execute_ability (provider ev) mgr server name (input_payload state);
             stage_log = stage_log\<lparr>abilities_executed := abilities_executed stage_log @ [execution]\<rparr>
         in execute_abilities_loop ev mgr state rest
              (results_set results name (result execution), stage_log)))"

definition execute_abilities ::
  "env \<Rightarrow> MCPManager \<Rightarrow> CustomerSupportState \<Rightarrow> StageLog \<Rightarrow> (string \<times> string) list
   \<Rightarrow> (string \<times> dict option) list \<times> StageLog" where
  "execute_abilities ev mgr state stage_log abilities =
     execute_abilities_loop ev mgr state abilities ([], stage_log)"

subsection \<open>Stages\<close>

text \<open>
  Every stage function has one shape: \<^verbatim>\<open>_log_stage_start\<close>, then a \<^verbatim>\<open>try\<close> block that
  ends in \<^verbatim>\<open>_log_stage_complete(state, stage_log)\<close>, then
  \<^verbatim>\<open>except Exception as e: self._log_stage_complete(state, stage_log, success=False, error=str(e))\<close>,
  then \<^verbatim>\<open>return state\<close>. \<open>run_stage\<close> is that shape. The body is the \<^verbatim>\<open>try\<close> block
  before its last line: it returns the state and the log as they are when it ends or
  raises, and the exception if it raised. Most bodies run their abilities and then
  apply the results to the state; that second part is the \<open>_apply\<close> function of the stage.
\<close>

type_synonym stage_body =
  "CustomerSupportState \<Rightarrow> StageLog \<Rightarrow> CustomerSupportState \<times> StageLog \<times> exn option"

definition run_stage ::
  "string \<Rightarrow> nat \<Rightarrow> StageMode \<Rightarrow> stage_body \<Rightarrow> CustomerSupportState \<Rightarrow> CustomerSupportState" where
  "run_stage name sid m body state =
     (let (stage_log, state) = log_stage_start state name sid m
      in case body state stage_log of
           (state, stage_log, None) \<Rightarrow> log_stage_complete state stage_log True None
         | (state, stage_log, Some e) \<Rightarrow>
             log_stage_complete state stage_log False (Some (exn_msg e)))"

text \<open>Statements in sequence: the next one runs unless the one before raised.\<close>

definition and_then ::
  "CustomerSupportState \<times> exn option \<Rightarrow> (CustomerSupportState \<Rightarrow> CustomerSupportState \<times> exn option)
   \<Rightarrow> CustomerSupportState \<times> exn option" where
  "and_then r f = (case r of (state, None) \<Rightarrow> f state | (state, Some e) \<Rightarrow> (state, Some e))"

definition intake_body :: "env \<Rightarrow> MCPManager \<Rightarrow> stage_body" where
  "intake_body ev mgr state stage_log =
     (let (results, stage_log) =
            execute_abilities ev mgr state stage_log [(''accept_payload'', ''internal'')]
      in (state, stage_log, None))"

definition stage_01_intake ::
  "env \<Rightarrow> MCPManager \<Rightarrow> CustomerSupportState \<Rightarrow> CustomerSupportState" where
  "stage_01_intake ev mgr = run_stage ''INTAKE'' 1 ENTRY_ONLY (intake_body ev mgr)"

text \<open>
  \<^verbatim>\<open>if name in results: state.extracted_entities.update(results[name].get(key, {}))\<close>
\<close>

definition update_entities ::
  "(string \<times> dict option) list \<Rightarrow> string \<Rightarrow> string \<Rightarrow> CustomerSupportState
   \<Rightarrow> CustomerSupportState \<times> exn option" where
  "update_entities results name key state =
     (case map_of results name of
        None \<Rightarrow> (state, None)
      | Some r \<Rightarrow>
          (case opt_get r key (JDict []) of
             Inl e \<Rightarrow> (state, Some e)
           | Inr v \<Rightarrow>
               (let (d, err) = dict_update (extracted_entities state) v
                in (state\<lparr>extracted_entities := d\<rparr>, err))))"

definition understand_apply ::
  "(string \<times> dict option) list \<Rightarrow> CustomerSupportState \<Rightarrow> CustomerSupportState \<times> exn option" where
  "understand_apply results state =
     and_then (update_entities results ''parse_request_text'' ''structured_data'' state)
       (update_entities results ''extract_entities'' ''entities'')"

definition understand_body :: "env \<Rightarrow> MCPManager \<Rightarrow> stage_body" where
  "understand_body ev mgr state stage_log =
     (let (results, stage_log) =
            execute_abilities ev mgr state stage_log
              [(''parse_request_text'', ''COMMON''), (''extract_entities'', ''ATLAS'')];
          (state, err) = understand_apply results state
      in (state, stage_log, err))"

definition stage_02_understand ::
  "env \<Rightarrow> MCPManager \<Rightarrow> CustomerSupportState \<Rightarrow> CustomerSupportState" where
  "stage_02_understand ev mgr = run_stage ''UNDERSTAND'' 2 DETERMINISTIC (understand_body ev mgr)"

text \<open>The body of \<^verbatim>\<open>for ability, result in results.items()\<close> in PREPARE.\<close>

definition prepare_item ::
  "string \<Rightarrow> dict option \<Rightarrow> CustomerSupportState \<Rightarrow> CustomerSupportState \<times> exn option" where
  "prepare_item ability r state =
     (if ability = ''normalize_fields'' then
        (case opt_get r ''normalized'' (JDict []) of
           Inl e \<Rightarrow> (state, Some e)
         | Inr v \<Rightarrow>
             (let (d, err) = dict_update (normalized_fields state) v
              in (state\<lparr>normalized_fields := d\<rparr>, err)))
      else if ability = ''enrich_records'' then
        (let (d, err) = dict_update (enriched_data state)
                          (case r of None \<Rightarrow> JNull | Some x \<Rightarrow> obj x)
         in (state\<lparr>enriched_data := d\<rparr>, err))
      else if ability = ''add_flags_calculations'' then
        (case opt_get r ''flags'' (JDict []) of
           Inl e \<Rightarrow> (state, Some e)
         | Inr v \<Rightarrow>
             (let (d, err) = dict_update (enriched_data state) v
              in (state\<lparr>enriched_data := d\<rparr>, err)))
      else (state, None))"

fun prepare_loop ::
  "(string \<times> dict option) list \<Rightarrow> CustomerSupportState \<Rightarrow> CustomerSupportState \<times> exn option" where
  "prepare_loop [] state = (state, None)"
| "prepare_loop ((ability, r) # rest) state =
     and_then (prepare_item ability r state) (prepare_loop rest)"

definition prepare_body :: "env \<Rightarrow> MCPManager \<Rightarrow> stage_body" where
  "prepare_body ev mgr state stage_log =
     (let (results, stage_log) =
            execute_abilities ev mgr state stage_log
              [(''normalize_fields'', ''COMMON''), (''enrich_records'', ''ATLAS''),
               (''add_flags_calculations'', ''COMMON'')];
          (state, err) = prepare_loop results state
      in (state, stage_log, err))"

definition stage_03_prepare ::
  "env \<Rightarrow> MCPManager \<Rightarrow> CustomerSupportState \<Rightarrow> CustomerSupportState" where
  "stage_03_prepare ev mgr = run_stage ''PREPARE'' 3 DETERMINISTIC (prepare_body ev mgr)"

text \<open>
  ASK: \<^verbatim>\<open>clarification_requested\<close> is set before the question is read from the result,
  so it stays set when that read raises.
\<close>

definition ask_body :: "env \<Rightarrow> MCPManager \<Rightarrow> stage_body" where
  "ask_body ev mgr state stage_log =
     (case llm ev (AskPrompt (customer_name (input_payload state)) (query (input_payload state))
                     (priority (input_payload state)) (extracted_entities state)) of
        Inl e \<Rightarrow> (state, stage_log, Some e)
      | Inr content \<Rightarrow>
          (let clarification_needed = str_contains ''YES'' (str_upper content)
           in if clarification_needed then
                (let (results, stage_log) =
                       execute_abilities ev mgr state stage_log [(''clarify_question'', ''ATLAS'')];
                     state = state\<lparr>clarification_requested := True\<rparr>
                 in case opt_get (case map_of results ''clarify_question'' of
                                    None \<Rightarrow> Some [] | Some r \<Rightarrow> r) ''question'' (JStr []) of
                      Inl e \<Rightarrow> (state, stage_log, Some e)
                    | Inr q \<Rightarrow> (state\<lparr>clarification_question := q\<rparr>, stage_log, None))
              else (state, stage_log, None)))"

definition stage_04_ask ::
  "env \<Rightarrow> MCPManager \<Rightarrow> CustomerSupportState \<Rightarrow> CustomerSupportState" where
  "stage_04_ask ev mgr = run_stage ''ASK'' 4 HUMAN_INTERACTION (ask_body ev mgr)"

definition wait_apply ::
  "(string \<times> dict option) list \<Rightarrow> CustomerSupportState \<Rightarrow> CustomerSupportState \<times> exn option" where
  "wait_apply results state =
     (case map_of results ''extract_answer'' of
        None \<Rightarrow> (state, None)
      | Some r \<Rightarrow>
          (case opt_get r ''answer'' (JStr []) of
             Inl e \<Rightarrow> (state, Some e)
           | Inr a \<Rightarrow> (state\<lparr>human_response := a\<rparr>, None)))"

definition wait_body :: "env \<Rightarrow> MCPManager \<Rightarrow> stage_body" where
  "wait_body ev mgr state stage_log =
     (let (results, stage_log) =
            execute_abilities ev mgr state stage_log
              [(''extract_answer'', ''ATLAS''), (''store_answer'', ''internal'')];
          (state, err) = wait_apply results state
      in (state, stage_log, err))"

definition stage_05_wait ::
  "env \<Rightarrow> MCPManager \<Rightarrow> CustomerSupportState \<Rightarrow> CustomerSupportState" where
  "stage_05_wait ev mgr = run_stage ''WAIT'' 5 DETERMINISTIC (wait_body ev mgr)"

definition retrieve_apply ::
  "(string \<times> dict option) list \<Rightarrow> CustomerSupportState \<Rightarrow> CustomerSupportState \<times> exn option" where
  "retrieve_apply results state =
     (case map_of results ''knowledge_base_search'' of
        None \<Rightarrow> (state, None)
      | Some r \<Rightarrow>
          (case opt_get r ''results'' (JList []) of
             Inl e \<Rightarrow> (state, Some e)
           | Inr kb \<Rightarrow> (state\<lparr>knowledge_base_results := kb\<rparr>, None)))"

definition retrieve_body :: "env \<Rightarrow> MCPManager \<Rightarrow> stage_body" where
  "retrieve_body ev mgr state stage_log =
     (let (results, stage_log) =
            execute_abilities ev mgr state stage_log
              [(''knowledge_base_search'', ''ATLAS''), (''store_data'', ''internal'')];
          (state, err) = retrieve_apply results state
      in (state, stage_log, err))"

definition stage_06_retrieve ::
  "env \<Rightarrow> MCPManager \<Rightarrow> CustomerSupportState \<Rightarrow> CustomerSupportState" where
  "stage_06_retrieve ev mgr = run_stage ''RETRIEVE'' 6 DETERMINISTIC (retrieve_body ev mgr)"

text \<open>\<^verbatim>\<open>{sol["solution"]: sol["score"] for sol in solutions}\<close>\<close>

fun build_scores :: "pydict \<Rightarrow> json list \<Rightarrow> exn + pydict" where
  "build_scores acc [] = Inr acc"
| "build_scores acc (sol # rest) =
     (case py_subscript sol ''solution'' of
        Inl e \<Rightarrow> Inl e
      | Inr k \<Rightarrow>
          (case py_subscript sol ''score'' of
             Inl e \<Rightarrow> Inl e
           | Inr v \<Rightarrow>
               (if hashable k then build_scores (pydict_set acc k v) rest
                else Inl (unhashable k))))"

definition scores_of :: "json \<Rightarrow> exn + pydict" where
  "scores_of solutions =
     (case py_iter solutions of
        None \<Rightarrow> Inl (not_iterable solutions)
      | Some sols \<Rightarrow> build_scores [] sols)"

text \<open>\<^verbatim>\<open>str\<close> of the score in the f-string; only a number gets there.\<close>

definition format_score :: "env \<Rightarrow> json \<Rightarrow> string" where
  "format_score ev v =
     (case v of JBool b \<Rightarrow> (if b then ''True'' else ''False'') | JInt i \<Rightarrow> str_int i
      | JFloat r \<Rightarrow> float_repr ev r | JNull \<Rightarrow> ''None'' | JStr s \<Rightarrow> s | _ \<Rightarrow> [])"

definition decide_solutions ::
  "(string \<times> dict option) list \<Rightarrow> CustomerSupportState \<Rightarrow> CustomerSupportState \<times> exn option" where
  "decide_solutions results state =
     (case map_of results ''solution_evaluation'' of
        None \<Rightarrow> (state, None)
      | Some r \<Rightarrow>
          (case opt_get r ''solutions'' (JList []) of
             Inl e \<Rightarrow> (state, Some e)
           | Inr solutions \<Rightarrow>
               (case scores_of solutions of
                  Inl e \<Rightarrow> (state, Some e)
                | Inr scores \<Rightarrow>
                    (let state = state\<lparr>solution_scores := scores\<rparr>
                     in case opt_get r ''best_score'' (JInt 0) of
                          Inl e \<Rightarrow> (state, Some e)
                        | Inr best \<Rightarrow> (state\<lparr>confidence_score := best\<rparr>, None)))))"

definition decide_escalation ::
  "(string \<times> dict option) list \<Rightarrow> CustomerSupportState \<Rightarrow> CustomerSupportState \<times> exn option" where
  "decide_escalation results state =
     (case map_of results ''escalation_decision'' of
        None \<Rightarrow> (state, None)
      | Some r \<Rightarrow>
          (case opt_get r ''escalate'' (JBool False) of
             Inl e \<Rightarrow> (state, Some e)
           | Inr esc \<Rightarrow>
               (let state = state\<lparr>escalation_needed := esc\<rparr>
                in case opt_get r ''reason'' (JStr []) of
                     Inl e \<Rightarrow> (state, Some e)
                   | Inr reason \<Rightarrow> (state\<lparr>escalation_reason := reason\<rparr>, None))))"

text \<open>\<^verbatim>\<open># Apply escalation rule: escalate if confidence score < 90\<close>\<close>

definition escalation_rule ::
  "env \<Rightarrow> CustomerSupportState \<Rightarrow> CustomerSupportState \<times> exn option" where
  "escalation_rule ev state =
     (case py_lt (confidence_score state) 90 of
        Inl e \<Rightarrow> (state, Some e)
      | Inr low \<Rightarrow>
          (if low then
             (state\<lparr>escalation_needed := JBool True,
                    escalation_reason :=
                      JStr (''Low confidence score: '' @ format_score ev (confidence_score state)),
                    ticket_status := ESCALATED\<rparr>, None)
           else (state, None)))"

definition decide_apply ::
  "env \<Rightarrow> (string \<times> dict option) list \<Rightarrow> CustomerSupportState
   \<Rightarrow> CustomerSupportState \<times> exn option" where
  "decide_apply ev results state =
     and_then (and_then (decide_solutions results state) (decide_escalation results))
       (escalation_rule ev)"

definition decide_body :: "env \<Rightarrow> MCPManager \<Rightarrow> stage_body" where
  "decide_body ev mgr state stage_log =
     (case py_len (knowledge_base_results state) of
        Inl e \<Rightarrow> (state, stage_log, Some e)
      | Inr n \<Rightarrow>
          (case llm ev (DecidePrompt (customer_name (input_payload state))
                          (query (input_payload state)) (priority (input_payload state))
                          (extracted_entities state) n) of
             Inl e \<Rightarrow> (state, stage_log, Some e)
           | Inr llm_response \<Rightarrow>
               (let (results, stage_log) =
                      execute_abilities ev mgr state stage_log
                        [(''solution_evaluation'', ''COMMON''), (''escalation_decision'', ''ATLAS''),
                         (''update_payload'', ''internal'')];
                    (state, err) = decide_apply ev results state
                in (state, stage_log, err))))"

definition stage_07_decide ::
  "env \<Rightarrow> MCPManager \<Rightarrow> CustomerSupportState \<Rightarrow> CustomerSupportState" where
  "stage_07_decide ev mgr = run_stage ''DECIDE'' 7 NON_DETERMINISTIC (decide_body ev mgr)"

text \<open>\<^verbatim>\<open>if state.confidence_score >= 90 and not state.escalation_needed:\<close>\<close>

definition update_apply :: "CustomerSupportState \<Rightarrow> CustomerSupportState \<times> exn option" where
  "update_apply state =
     (case py_ge (confidence_score state) 90 of
        Inl e \<Rightarrow> (state, Some e)
      | Inr high \<Rightarrow>
          (if high \<and> \<not> truthy (escalation_needed state)
           then (state\<lparr>ticket_status := RESOLVED\<rparr>, None)
           else (state, None)))"

definition update_body :: "env \<Rightarrow> MCPManager \<Rightarrow> stage_body" where
  "update_body ev mgr state stage_log =
     (let (results, stage_log) =
            execute_abilities ev mgr state stage_log
              [(''update_ticket'', ''ATLAS''), (''close_ticket'', ''ATLAS'')];
          (state, err) = update_apply state
      in (state, stage_log, err))"

definition stage_08_update ::
  "env \<Rightarrow> MCPManager \<Rightarrow> CustomerSupportState \<Rightarrow> CustomerSupportState" where
  "stage_08_update ev mgr = run_stage ''UPDATE'' 8 DETERMINISTIC (update_body ev mgr)"

definition create_apply ::
  "(string \<times> dict option) list \<Rightarrow> CustomerSupportState \<Rightarrow> CustomerSupportState \<times> exn option" where
  "create_apply results state =
     (case map_of results ''response_generation'' of
        None \<Rightarrow> (state, None)
      | Some r \<Rightarrow>
          (case opt_get r ''response'' (JStr []) of
             Inl e \<Rightarrow> (state, Some e)
           | Inr text \<Rightarrow> (state\<lparr>generated_response := text\<rparr>, None)))"

definition create_body :: "env \<Rightarrow> MCPManager \<Rightarrow> stage_body" where
  "create_body ev mgr state stage_log =
     (let (results, stage_log) =
            execute_abilities ev mgr state stage_log [(''response_generation'', ''COMMON'')];
          (state, err) = create_apply results state
      in (state, stage_log, err))"

definition stage_09_create ::
  "env \<Rightarrow> MCPManager \<Rightarrow> CustomerSupportState \<Rightarrow> CustomerSupportState" where
  "stage_09_create ev mgr = run_stage ''CREATE'' 9 DETERMINISTIC (create_body ev mgr)"

definition do_api_calls ::
  "(string \<times> dict option) list \<Rightarrow> CustomerSupportState \<Rightarrow> CustomerSupportState \<times> exn option" where
  "do_api_calls results state =
     (case map_of results ''execute_api_calls'' of
        None \<Rightarrow> (state, None)
      | Some r \<Rightarrow>
          (case opt_get r ''api_calls'' (JList []) of
             Inl e \<Rightarrow> (state, Some e)
           | Inr calls \<Rightarrow> (state\<lparr>api_calls_executed := calls\<rparr>, None)))"

definition do_notifications ::
  "(string \<times> dict option) list \<Rightarrow> CustomerSupportState \<Rightarrow> CustomerSupportState \<times> exn option" where
  "do_notifications results state =
     (case map_of results ''trigger_notifications'' of
        None \<Rightarrow> (state, None)
      | Some r \<Rightarrow>
          (case opt_get r ''notifications'' (JList []) of
             Inl e \<Rightarrow> (state, Some e)
           | Inr ns \<Rightarrow> (state\<lparr>notifications_sent := ns\<rparr>, None)))"

definition do_apply ::
  "(string \<times> dict option) list \<Rightarrow> CustomerSupportState \<Rightarrow> CustomerSupportState \<times> exn option" where
  "do_apply results state = and_then (do_api_calls results state) (do_notifications results)"

definition do_body :: "env \<Rightarrow> MCPManager \<Rightarrow> stage_body" where
  "do_body ev mgr state stage_log =
     (let (results, stage_log) =
            execute_abilities ev mgr state stage_log
              [(''execute_api_calls'', ''ATLAS''), (''trigger_notifications'', ''ATLAS'')];
          (state, err) = do_apply results state
      in (state, stage_log, err))"

definition stage_10_do ::
  "env \<Rightarrow> MCPManager \<Rightarrow> CustomerSupportState \<Rightarrow> CustomerSupportState" where
  "stage_10_do ev mgr = run_stage ''DO'' 10 DETERMINISTIC (do_body ev mgr)"

definition complete_body :: "env \<Rightarrow> MCPManager \<Rightarrow> stage_body" where
  "complete_body ev mgr state stage_log =
     (let (results, stage_log) =
            execute_abilities ev mgr state stage_log [(''output_payload'', ''internal'')]
      in (state\<lparr>processing_complete := True\<rparr>, stage_log, None))"

definition stage_11_complete ::
  "env \<Rightarrow> MCPManager \<Rightarrow> CustomerSupportState \<Rightarrow> CustomerSupportState" where
  "stage_11_complete ev mgr = run_stage ''COMPLETE'' 11 OUTPUT_ONLY (complete_body ev mgr)"

subsection \<open>The state schema\<close>

text \<open>
  The graph is built over the pydantic model: \<^verbatim>\<open>StateGraph(CustomerSupportState)\<close>. A stage
  assigns to the fields of the state without validation, but the compiled graph builds
  the state that a node or a branch function receives anew from the values the nodes
  have written, and that construction validates every field against its declared type
  (pydantic 2, which \<^verbatim>\<open>config.py\<close> requires): a value is converted to the type of the
  field where pydantic can do so, and refused with a validation error where it cannot.

  \<^verbatim>\<open>bool\<close> takes a \<^verbatim>\<open>bool\<close>, the numbers 0 and 1, and the strings that spell a truth
  value. \<^verbatim>\<open>float\<close> takes a number; an \<^verbatim>\<open>int\<close> of magnitude up to \<open>2 ^ 53\<close> is the
  \<^verbatim>\<open>float\<close> of the same value, and what becomes of a larger one, of a \<^verbatim>\<open>bool\<close> and of a
  string is the conversion \<open>lax_float\<close> of the environment. \<^verbatim>\<open>Optional[str]\<close> takes
  \<^verbatim>\<open>None\<close> and a string; what becomes of a number is the conversion \<open>lax_str\<close>. A list,
  a dictionary, and \<^verbatim>\<open>None\<close> for a \<^verbatim>\<open>bool\<close> or a \<^verbatim>\<open>float\<close>, are refused.
\<close>

definition validate_bool :: "json \<Rightarrow> bool option" where
  "validate_bool v =
     (case v of
        JBool b \<Rightarrow> Some b
      | JInt i \<Rightarrow> (if i = 0 then Some False else if i = 1 then Some True else None)
      | JFloat r \<Rightarrow> (if r = 0 then Some False else if r = 1 then Some True else None)
      | JStr s \<Rightarrow>
          (if str_lower s \<in> set [''0'', ''off'', ''f'', ''false'', ''n'', ''no''] then Some False
           else if str_lower s \<in> set [''1'', ''on'', ''t'', ''true'', ''y'', ''yes''] then Some True
           else None)
      | _ \<Rightarrow> None)"

definition validate_optional_str :: "env \<Rightarrow> json \<Rightarrow> string option option" where
  "validate_optional_str ev v =
     (case v of
        JNull \<Rightarrow> Some None
      | JStr s \<Rightarrow> Some (Some s)
      | JList _ \<Rightarrow> None
      | JDict _ \<Rightarrow> None
      | _ \<Rightarrow> (case lax_str ev v of None \<Rightarrow> None | Some s \<Rightarrow> Some (Some s)))"

definition validate_float :: "env \<Rightarrow> json \<Rightarrow> rat option" where
  "validate_float ev v =
     (case v of
        JInt i \<Rightarrow> (if \<bar>i\<bar> \<le> 2 ^ 53 then Some (of_int i) else lax_float ev v)
      | JFloat r \<Rightarrow> Some r
      | JBool _ \<Rightarrow> lax_float ev v
      | JStr _ \<Rightarrow> lax_float ev v
      | _ \<Rightarrow> None)"

text \<open>
  \<^verbatim>\<open>Dict[str, Any]\<close>: a dictionary whose keys are strings; the values are kept as they
  are. \<^verbatim>\<open>Dict[str, float]\<close> validates the values as well. \<^verbatim>\<open>List[Dict[str, Any]]\<close>: a
  list of such dictionaries.
\<close>

definition validate_key :: "env \<Rightarrow> json \<Rightarrow> string option" where
  "validate_key ev k =
     (case k of
        JStr s \<Rightarrow> Some s
      | JNull \<Rightarrow> None
      | JList _ \<Rightarrow> None
      | JDict _ \<Rightarrow> None
      | _ \<Rightarrow> lax_str ev k)"

fun validate_items :: "env \<Rightarrow> pydict \<Rightarrow> pydict \<Rightarrow> pydict option" where
  "validate_items ev acc [] = Some acc"
| "validate_items ev acc ((k, v) # rest) =
     (case validate_key ev k of
        None \<Rightarrow> None
      | Some s \<Rightarrow> validate_items ev (pydict_set acc (JStr s) v) rest)"

definition validate_str_dict :: "env \<Rightarrow> pydict \<Rightarrow> pydict option" where
  "validate_str_dict ev d = validate_items ev [] d"

fun validate_float_items :: "env \<Rightarrow> pydict \<Rightarrow> pydict \<Rightarrow> pydict option" where
  "validate_float_items ev acc [] = Some acc"
| "validate_float_items ev acc ((k, v) # rest) =
     (case (validate_key ev k, validate_float ev v) of
        (Some s, Some r) \<Rightarrow> validate_float_items ev (pydict_set acc (JStr s) (JFloat r)) rest
      | _ \<Rightarrow> None)"

definition validate_float_dict :: "env \<Rightarrow> pydict \<Rightarrow> pydict option" where
  "validate_float_dict ev d = validate_float_items ev [] d"

fun validate_dicts :: "env \<Rightarrow> json list \<Rightarrow> json list option" where
  "validate_dicts ev [] = Some []"
| "validate_dicts ev (x # xs) =
     (case x of
        JDict d \<Rightarrow>
          (case (validate_str_dict ev d, validate_dicts ev xs) of
             (Some d', Some rest) \<Rightarrow> Some (JDict d' # rest)
           | _ \<Rightarrow> None)
      | _ \<Rightarrow> None)"

definition validate_dict_list :: "env \<Rightarrow> json \<Rightarrow> json option" where
  "validate_dict_list ev v =
     (case v of
        JList xs \<Rightarrow> (case validate_dicts ev xs of None \<Rightarrow> None | Some ys \<Rightarrow> Some (JList ys))
      | _ \<Rightarrow> None)"

text \<open>
  The state as the schema reads it, or the validation error. The input payload, the
  stage logs and the fields that the stages assign with values of their own type are
  model instances and values of the declared types already.
\<close>

definition CustomerSupportState_validate ::
  "env \<Rightarrow> CustomerSupportState \<Rightarrow> exn + CustomerSupportState" where
  "CustomerSupportState_validate ev s =
     (let entities = validate_str_dict ev (extracted_entities s);
          normalized = validate_str_dict ev (normalized_fields s);
          enriched = validate_str_dict ev (enriched_data s);
          kb = validate_dict_list ev (knowledge_base_results s);
          scores = validate_float_dict ev (solution_scores s);
          needed = validate_bool (escalation_needed s);
          reason = validate_optional_str ev (escalation_reason s);
          score = validate_float ev (confidence_score s);
          question = validate_optional_str ev (clarification_question s);
          answer = validate_optional_str ev (human_response s);
          reply = validate_optional_str ev (generated_response s);
          calls = validate_dict_list ev (api_calls_executed s);
          sent = validate_dict_list ev (notifications_sent s)
      in if entities \<noteq> None \<and> normalized \<noteq> None \<and> enriched \<noteq> None \<and> kb \<noteq> None
            \<and> scores \<noteq> None \<and> needed \<noteq> None \<and> reason \<noteq> None \<and> score \<noteq> None
            \<and> question \<noteq> None \<and> answer \<noteq> None \<and> reply \<noteq> None \<and> calls \<noteq> None
            \<and> sent \<noteq> None
         then Inr (s\<lparr>extracted_entities := the entities, normalized_fields := the normalized,
                     enriched_data := the enriched, knowledge_base_results := the kb,
                     solution_scores := the scores, escalation_needed := JBool (the needed),
                     escalation_reason := opt_str_json (the reason),
                     confidence_score := JFloat (the score),
                     clarification_question := opt_str_json (the question),
                     human_response := opt_str_json (the answer),
                     generated_response := opt_str_json (the reply),
                     api_calls_executed := the calls, notifications_sent := the sent\<rparr>)
         else Inl (Exn ''ValidationError'' ''validation error for CustomerSupportState''))"

subsection \<open>The graph\<close>

definition should_wait :: "CustomerSupportState \<Rightarrow> string" where
  "should_wait state =
     (if clarification_requested state \<and> \<not> truthy (human_response state)
      then ''wait'' else ''retrieve'')"

definition should_escalate :: "CustomerSupportState \<Rightarrow> string" where
  "should_escalate state = (if truthy (escalation_needed state) then ''escalate'' else ''continue'')"

text \<open>
  \<^verbatim>\<open>_build_workflow\<close>: the nodes with their stage functions, the entry point, the edges and
  the two conditional edges. \<open>next_node\<close> is the edge out of a node, for the state that
  the branch function of a conditional edge is given.
\<close>

datatype node =
  intake | understand | prepare | ask | wait | retrieve | decide | update | create | do
  | complete | END

definition node_function ::
  "env \<Rightarrow> MCPManager \<Rightarrow> node \<Rightarrow> CustomerSupportState \<Rightarrow> CustomerSupportState" where
  "node_function ev mgr n =
     (case n of
        intake \<Rightarrow> stage_01_intake ev mgr | understand \<Rightarrow> stage_02_understand ev mgr
      | prepare \<Rightarrow> stage_03_prepare ev mgr | ask \<Rightarrow> stage_04_ask ev mgr
      | wait \<Rightarrow> stage_05_wait ev mgr | retrieve \<Rightarrow> stage_06_retrieve ev mgr
      | decide \<Rightarrow> stage_07_decide ev mgr | update \<Rightarrow> stage_08_update ev mgr
      | create \<Rightarrow> stage_09_create ev mgr | do \<Rightarrow> stage_10_do ev mgr
      | complete \<Rightarrow> stage_11_complete ev mgr | END \<Rightarrow> (\<lambda>state. state))"

definition next_node :: "node \<Rightarrow> CustomerSupportState \<Rightarrow> node" where
  "next_node n state =
     (case n of
        intake \<Rightarrow> understand
      | understand \<Rightarrow> prepare
      | prepare \<Rightarrow> ask
      | ask \<Rightarrow> (if should_wait state = ''wait'' then wait else retrieve)
      | wait \<Rightarrow> retrieve
      | retrieve \<Rightarrow> decide
      | decide \<Rightarrow> (if should_escalate state = ''escalate'' then END else update)
      | update \<Rightarrow> create
      | create \<Rightarrow> do
      | do \<Rightarrow> complete
      | complete \<Rightarrow> END
      | END \<Rightarrow> END)"

definition node_rank :: "node \<Rightarrow> nat" where
  "node_rank n =
     (case n of intake \<Rightarrow> 11 | understand \<Rightarrow> 10 | prepare \<Rightarrow> 9 | ask \<Rightarrow> 8 | wait \<Rightarrow> 7
      | retrieve \<Rightarrow> 6 | decide \<Rightarrow> 5 | update \<Rightarrow> 4 | create \<Rightarrow> 3 | do \<Rightarrow> 2
      | complete \<Rightarrow> 1 | END \<Rightarrow> 0)"

text \<open>
  The edge that a run follows out of a node that has returned \<open>state\<close>. After ASK and
  after DECIDE the graph calls the branch function, on the state as the schema reads it;
  a state that the schema refuses raises there.
\<close>

definition route :: "env \<Rightarrow> node \<Rightarrow> CustomerSupportState \<Rightarrow> exn + node" where
  "route ev n state =
     (if n = ask \<or> n = decide then
        (case CustomerSupportState_validate ev state of
           Inl e \<Rightarrow> Inl e
         | Inr seen \<Rightarrow> Inr (next_node n seen))
      else Inr (next_node n state))"

text \<open>
  Running the compiled graph from a node: the node is given the state as the schema
  reads it, its function returns the state with the values it has assigned, and the run
  follows the edge out of the node, until the edge leads to \<open>END\<close>. The result is the
  state that the last node returned, or the validation error that the run raised.
\<close>

function run_from ::
  "env \<Rightarrow> MCPManager \<Rightarrow> node \<Rightarrow> CustomerSupportState \<Rightarrow> exn + CustomerSupportState" where
  "run_from ev mgr n state =
     (if n = END then Inr state
      else (case CustomerSupportState_validate ev state of
              Inl e \<Rightarrow> Inl e
            | Inr seen \<Rightarrow>
                (case route ev n (node_function ev mgr n seen) of
                   Inl e \<Rightarrow> Inl e
                 | Inr next \<Rightarrow> run_from ev mgr next (node_function ev mgr n seen))))"
  by pat_completeness auto
termination
  by (relation "measure (\<lambda>(ev, mgr, n, state). node_rank n)")
     (auto simp: route_def next_node_def node_rank_def split: node.splits sum.splits if_splits)

declare run_from.simps [simp del]

definition workflow_ainvoke ::
  "env \<Rightarrow> MCPManager \<Rightarrow> CustomerSupportState \<Rightarrow> exn + CustomerSupportState" where
  "workflow_ainvoke ev mgr initial_state = run_from ev mgr intake initial_state"

subsection \<open>The run entry point\<close>

text \<open>
  \<^verbatim>\<open>OutputPayload(...)\<close> validates its fields in the same way: the response and the
  escalation reason as \<^verbatim>\<open>Optional[str]\<close>, the confidence score as \<^verbatim>\<open>float\<close>. A refused
  field raises a validation error.
\<close>

definition OutputPayload_init ::
  "env \<Rightarrow> string \<Rightarrow> Status \<Rightarrow> json \<Rightarrow> json \<Rightarrow> json \<Rightarrow> StageLog list \<Rightarrow> CustomerSupportState
   \<Rightarrow> exn + OutputPayload" where
  "OutputPayload_init ev tid st resp score reason logs payload =
     (case (validate_optional_str ev resp, validate_float ev score,
            validate_optional_str ev reason) of
        (Some resp', Some score', Some reason') \<Rightarrow>
          Inr \<lparr>out_ticket_id = tid, out_status = st, response = resp',
               out_confidence_score = score', out_escalation_reason = reason',
               out_stage_logs = logs, final_payload = payload,
               agent_name = ''Langie'', agent_version = ''1.0.0''\<rparr>
      | _ \<Rightarrow> Inl (Exn ''ValidationError'' ''validation error for OutputPayload''))"

text \<open>
  \<^verbatim>\<open>process_ticket\<close>: the initial state, then inside \<^verbatim>\<open>try\<close> the run of the graph and
  the construction of the output; \<^verbatim>\<open>except\<close> logs the exception and raises it again;
  \<^verbatim>\<open>finally\<close> closes the manager. The result is the output or the exception that
  reaches the caller, and the manager as the call leaves it.
\<close>

definition process_ticket ::
  "env \<Rightarrow> MCPManager \<Rightarrow> InputPayload \<Rightarrow> (exn + OutputPayload) \<times> MCPManager" where
  "process_ticket ev mcp_manager payload =
     (let initial_state = CustomerSupportState_init payload;
          outcome =
            (case workflow_ainvoke ev mcp_manager initial_state of
               Inl e \<Rightarrow> Inl e
             | Inr final_state \<Rightarrow>
                 OutputPayload_init ev (ticket_id payload) (ticket_status final_state)
                   (generated_response final_state) (confidence_score final_state)
                   (escalation_reason final_state) (stage_logs final_state) final_state)
      in (outcome, MCPManager_close mcp_manager))"

subsection \<open>Points of a run\<close>

text \<open>
  A node of the run, from the state that the node before it returned; and one result
  after another, unless the first is an exception.
\<close>

definition node_step ::
  "env \<Rightarrow> MCPManager \<Rightarrow> node \<Rightarrow> CustomerSupportState \<Rightarrow> exn + CustomerSupportState" where
  "node_step ev mgr n state =
     (case CustomerSupportState_validate ev state of
        Inl e \<Rightarrow> Inl e
      | Inr seen \<Rightarrow> Inr (node_function ev mgr n seen))"

definition on_return :: "exn + 'a \<Rightarrow> ('a \<Rightarrow> exn + 'b) \<Rightarrow> exn + 'b" where
  "on_return r f = (case r of Inl e \<Rightarrow> Inl e | Inr x \<Rightarrow> f x)"

text \<open>
  The state at the two branch points of a run: as ASK has returned it, and as DECIDE has
  returned it; and the state at the end of the run.
\<close>

definition state_after_ask ::
  "env \<Rightarrow> MCPManager \<Rightarrow> InputPayload \<Rightarrow> exn + CustomerSupportState" where
  "state_after_ask ev mgr payload =
     on_return (on_return (on_return
       (node_step ev mgr intake (CustomerSupportState_init payload))
       (node_step ev mgr understand)) (node_step ev mgr prepare)) (node_step ev mgr ask)"

definition state_before_decide ::
  "env \<Rightarrow> MCPManager \<Rightarrow> InputPayload \<Rightarrow> exn + CustomerSupportState" where
  "state_before_decide ev mgr payload =
     on_return (state_after_ask ev mgr payload) (\<lambda>s4.
       on_return (CustomerSupportState_validate ev s4) (\<lambda>seen.
         on_return (if should_wait seen = ''wait'' then node_step ev mgr wait s4 else Inr s4)
           (node_step ev mgr retrieve)))"

definition state_after_decide ::
  "env \<Rightarrow> MCPManager \<Rightarrow> InputPayload \<Rightarrow> exn + CustomerSupportState" where
  "state_after_decide ev mgr payload =
     on_return (state_before_decide ev mgr payload) (node_step ev mgr decide)"

definition final_state ::
  "env \<Rightarrow> MCPManager \<Rightarrow> InputPayload \<Rightarrow> exn + CustomerSupportState" where
  "final_state ev mgr payload = workflow_ainvoke ev mgr (CustomerSupportState_init payload)"

section \<open>The simplified agent (simple\_agent.py)\<close>

text \<open>
  \<^verbatim>\<open>_simulate_ability\<close>: one table for both servers, built anew on every call. \<open>hash_of\<close>
  is Python's \<^verbatim>\<open>hash\<close> on strings and \<open>now\<close> the reading of the clock in ISO format.
\<close>

type_synonym ability = "string \<Rightarrow> string \<Rightarrow> InputPayload \<Rightarrow> dict"

definition simple_response_text :: "InputPayload \<Rightarrow> string" where
  "simple_response_text payload = join_lines
    [''Dear '' @ payload_get payload ''customer_name'' ''Customer'' @ '','',
     [],
     ''Thank you for contacting support regarding your login issue. '',
     [],
     ''I'' @ [CHR 0x27] @ ''ve identified that your account was temporarily locked due to ''
       @ ''multiple failed login attempts. I'' @ [CHR 0x27] @ ''ve unlocked your account and ''
       @ ''sent a password reset email to your registered address.'',
     [],
     ''Please check your inbox (and spam folder) for the reset email. If you don'' @ [CHR 0x27]
       @ ''t receive it within 10 minutes, please let us know.'',
     [],
     ''Best regards,'',
     ''Langie - Customer Support Agent'',
     ''Ticket: '' @ payload_get payload ''ticket_id'' ''N/A'']"

definition simple_responses ::
  "(string \<Rightarrow> int) \<Rightarrow> string \<Rightarrow> InputPayload \<Rightarrow> (string \<times> dict) list" where
  "simple_responses hash_of now payload =
   [(''parse_request_text'',
       [(''structured_data'', obj
           [(''issue_category'', JStr ''Authentication''),
            (''priority_level'', JStr ''High''),
            (''keywords'', JList [JStr ''login'', JStr ''password'', JStr ''incorrect'',
                                  JStr ''urgent'']),
            (''sentiment'', JStr ''frustrated'')])]),
    (''extract_entities'',
       [(''entities'', obj
           [(''product'', JStr ''User Account''),
            (''issue_type'', JStr ''Authentication''),
            (''urgency'', JStr ''High''),
            (''account_id'',
               JStr (''user_'' @ str_int (hash_of (payload_get payload ''email'' []) mod 10000)))])]),
    (''normalize_fields'',
       [(''normalized'', obj
           [(''email'', JStr (str_strip (str_lower (payload_get payload ''email'' [])))),
            (''priority'', JStr (str_upper (payload_get payload ''priority'' []))),
            (''timestamp'', JStr now)])]),
    (''enrich_records'',
       [(''sla_info'', obj [(''response_time'', JStr ''2 hours''),
                            (''resolution_time'', JStr ''24 hours'')]),
        (''historical_tickets'', JList
           [obj [(''ticket_id'', JStr ''T-001''), (''issue'', JStr ''Password reset''),
                 (''resolved'', JBool True)]])]),
    (''add_flags_calculations'',
       [(''flags'', obj [(''high_priority'', JBool True), (''sla_risk'', JBool False),
                         (''escalation_score'', JInt 25)])]),
    (''knowledge_base_search'',
       [(''results'', JList
           [obj [(''title'', JStr ''Password reset troubleshooting''),
                 (''content'', JStr ''Common solutions for password issues''),
                 (''relevance'', JFloat (92 / 100))]])]),
    (''solution_evaluation'',
       [(''solutions'', JList
           [obj [(''solution'', JStr ''Password reset email''), (''score'', JInt 85)],
            obj [(''solution'', JStr ''Account unlock''), (''score'', JInt 92)],
            obj [(''solution'', JStr ''Escalate to security''), (''score'', JInt 40)]]),
        (''best_score'', JInt 92)]),
    (''response_generation'', [(''response'', JStr (simple_response_text payload))])]"

definition simulate_ability :: "(string \<Rightarrow> int) \<Rightarrow> string \<Rightarrow> ability" where
  "simulate_ability hash_of now name server payload =
     (case map_of (simple_responses hash_of now payload) name of
        None \<Rightarrow> [(''status'', JStr ''simulated''), (''ability'', JStr name)]
      | Some r \<Rightarrow> r)"

text \<open>
  \<^verbatim>\<open>SimpleLangGraphAgent.process_ticket\<close> runs the stages inline inside one \<^verbatim>\<open>try\<close>. A stage
  makes its log, runs its statements, completes the log and appends it to the local
  list \<^verbatim>\<open>stage_logs\<close>; when a statement raises, the rest of the \<^verbatim>\<open>try\<close> block is skipped,
  the log of the running stage is never appended, and the handler sets the status to
  pending. A run is the state and the local list of logs; the model is over any ability
  function, of which \<open>simulate_ability\<close> is the one of the source.
\<close>

type_synonym simple_run = "CustomerSupportState \<times> StageLog list"

definition executed :: "string \<Rightarrow> string \<Rightarrow> dict \<Rightarrow> AbilityExecution" where
  "executed name server r =
     \<lparr>ability_name = name, server_used = server, status = ''success'', result = Some r,
      error = None\<rparr>"

text \<open>
  The end of a stage: \<open>r\<close> is what its statements made of the state, \<open>execs\<close> the
  executions it writes into its log.
\<close>

definition simple_stage ::
  "string \<Rightarrow> nat \<Rightarrow> StageMode \<Rightarrow> AbilityExecution list \<Rightarrow> CustomerSupportState \<times> exn option
   \<Rightarrow> StageLog list \<Rightarrow> simple_run \<times> exn option" where
  "simple_stage name sid m execs r logs =
     (case r of
        (state, None) \<Rightarrow>
          ((state, logs @ [\<lparr>stage_name = name, stage_id = sid, mode = m,
                             abilities_executed = execs, ended = True, success = True,
                             log_error = None\<rparr>]), None)
      | (state, Some e) \<Rightarrow> ((state, logs), Some e))"

definition simple_then ::
  "simple_run \<times> exn option \<Rightarrow> (simple_run \<Rightarrow> simple_run \<times> exn option) \<Rightarrow> simple_run \<times> exn option" where
  "simple_then r f = (case r of (run, None) \<Rightarrow> f run | (run, Some e) \<Rightarrow> (run, Some e))"

definition update_from ::
  "dict \<Rightarrow> string \<Rightarrow> pydict \<Rightarrow> pydict \<times> exn option" where
  "update_from r key d = dict_update d (dict_get r key (JDict []))"

definition simple_intake :: "InputPayload \<Rightarrow> simple_run \<Rightarrow> simple_run \<times> exn option" where
  "simple_intake payload run =
     simple_stage ''INTAKE'' 1 ENTRY_ONLY
       [executed ''accept_payload'' ''internal''
          [(''status'', JStr ''payload_accepted''), (''ticket_id'', JStr (ticket_id payload))]]
       (fst run, None) (snd run)"

definition simple_understand ::
  "ability \<Rightarrow> InputPayload \<Rightarrow> simple_run \<Rightarrow> simple_run \<times> exn option" where
  "simple_understand sim payload run =
     (let parse_result = sim ''parse_request_text'' ''COMMON'' payload;
          entity_result = sim ''extract_entities'' ''ATLAS'' payload
      in simple_stage ''UNDERSTAND'' 2 DETERMINISTIC
           [executed ''parse_request_text'' ''COMMON'' parse_result,
            executed ''extract_entities'' ''ATLAS'' entity_result]
           (and_then
              (let (d, err) = update_from parse_result ''structured_data'' (extracted_entities (fst run))
               in ((fst run)\<lparr>extracted_entities := d\<rparr>, err))
              (\<lambda>state. let (d, err) = update_from entity_result ''entities'' (extracted_entities state)
                       in (state\<lparr>extracted_entities := d\<rparr>, err)))
           (snd run))"

definition simple_prepare ::
  "ability \<Rightarrow> InputPayload \<Rightarrow> simple_run \<Rightarrow> simple_run \<times> exn option" where
  "simple_prepare sim payload run =
     (let norm_result = sim ''normalize_fields'' ''COMMON'' payload;
          enrich_result = sim ''enrich_records'' ''ATLAS'' payload;
          flags_result = sim ''add_flags_calculations'' ''COMMON'' payload
      in simple_stage ''PREPARE'' 3 DETERMINISTIC
           [executed ''normalize_fields'' ''COMMON'' norm_result,
            executed ''enrich_records'' ''ATLAS'' enrich_result,
            executed ''add_flags_calculations'' ''COMMON'' flags_result]
           (and_then
              (and_then
                 (let (d, err) = update_from norm_result ''normalized'' (normalized_fields (fst run))
                  in ((fst run)\<lparr>normalized_fields := d\<rparr>, err))
                 (\<lambda>state. let (d, err) = dict_update (enriched_data state) (obj enrich_result)
                          in (state\<lparr>enriched_data := d\<rparr>, err)))
              (\<lambda>state. let (d, err) = update_from flags_result ''flags'' (enriched_data state)
                       in (state\<lparr>enriched_data := d\<rparr>, err)))
           (snd run))"

definition simple_ask :: "InputPayload \<Rightarrow> simple_run \<Rightarrow> simple_run \<times> exn option" where
  "simple_ask payload run =
     (let clarification_needed = (priority payload \<notin> set [HIGH, CRITICAL]);
          state = (if clarification_needed
                   then (fst run)\<lparr>clarification_requested := True,
                                  clarification_question :=
                                    JStr ''Could you provide more details about when this issue started?''\<rparr>
                   else fst run)
      in simple_stage ''ASK'' 4 HUMAN_INTERACTION [] (state, None) (snd run))"

definition simple_wait :: "simple_run \<Rightarrow> simple_run \<times> exn option" where
  "simple_wait run =
     (if clarification_requested (fst run) then
        simple_stage ''WAIT'' 5 DETERMINISTIC []
          ((fst run)\<lparr>human_response :=
             JStr (''The issue started this morning when I tried to login for an ''
                   @ ''important transaction.'')\<rparr>, None)
          (snd run)
      else (run, None))"

definition simple_retrieve ::
  "ability \<Rightarrow> InputPayload \<Rightarrow> simple_run \<Rightarrow> simple_run \<times> exn option" where
  "simple_retrieve sim payload run =
     (let kb_result = sim ''knowledge_base_search'' ''ATLAS'' payload
      in simple_stage ''RETRIEVE'' 6 DETERMINISTIC
           [executed ''knowledge_base_search'' ''ATLAS'' kb_result]
           ((fst run)\<lparr>knowledge_base_results := dict_get kb_result ''results'' (JList [])\<rparr>, None)
           (snd run))"

text \<open>
  DECIDE of the simplified agent: the rule has an \<^verbatim>\<open>else\<close> branch that resolves the
  ticket, and the reason ends in a percent sign.
\<close>

definition simple_decide_apply ::
  "env \<Rightarrow> dict \<Rightarrow> CustomerSupportState \<Rightarrow> CustomerSupportState \<times> exn option" where
  "simple_decide_apply ev solution_result state =
     (let state = state\<lparr>confidence_score := dict_get solution_result ''best_score'' (JInt 0)\<rparr>
      in case scores_of (dict_get solution_result ''solutions'' (JList [])) of
           Inl e \<Rightarrow> (state, Some e)
         | Inr scores \<Rightarrow>
             (let state = state\<lparr>solution_scores := scores\<rparr>
              in case py_lt (confidence_score state) 90 of
                   Inl e \<Rightarrow> (state, Some e)
                 | Inr low \<Rightarrow>
                     (if low then
                        (state\<lparr>escalation_needed := JBool True,
                               escalation_reason :=
                                 JStr (''Low confidence score: ''
                                       @ format_score ev (confidence_score state) @ ''%''),
                               ticket_status := ESCALATED\<rparr>, None)
                      else (state\<lparr>ticket_status := RESOLVED\<rparr>, None))))"

definition simple_decide ::
  "env \<Rightarrow> ability \<Rightarrow> InputPayload \<Rightarrow> simple_run \<Rightarrow> simple_run \<times> exn option" where
  "simple_decide ev sim payload run =
     (let solution_result = sim ''solution_evaluation'' ''COMMON'' payload
      in simple_stage ''DECIDE'' 7 NON_DETERMINISTIC
           [executed ''solution_evaluation'' ''COMMON'' solution_result]
           (simple_decide_apply ev solution_result (fst run)) (snd run))"

definition simple_update :: "simple_run \<Rightarrow> simple_run \<times> exn option" where
  "simple_update run = simple_stage ''UPDATE'' 8 DETERMINISTIC [] (fst run, None) (snd run)"

definition simple_create ::
  "ability \<Rightarrow> InputPayload \<Rightarrow> simple_run \<Rightarrow> simple_run \<times> exn option" where
  "simple_create sim payload run =
     (let response_result = sim ''response_generation'' ''COMMON'' payload
      in simple_stage ''CREATE'' 9 DETERMINISTIC
           [executed ''response_generation'' ''COMMON'' response_result]
           ((fst run)\<lparr>generated_response := dict_get response_result ''response'' (JStr [])\<rparr>, None)
           (snd run))"

definition simple_do :: "InputPayload \<Rightarrow> simple_run \<Rightarrow> simple_run \<times> exn option" where
  "simple_do payload run =
     simple_stage ''DO'' 10 DETERMINISTIC []
       ((fst run)\<lparr>api_calls_executed :=
                    JList [obj [(''api'', JStr ''unlock_account''), (''status'', JStr ''success'')],
                           obj [(''api'', JStr ''send_reset_email''), (''status'', JStr ''sent'')]],
                  notifications_sent :=
                    JList [obj [(''type'', JStr ''email''), (''recipient'', JStr (email payload)),
                                (''status'', JStr ''sent'')]]\<rparr>, None)
       (snd run)"

definition simple_complete :: "simple_run \<Rightarrow> simple_run \<times> exn option" where
  "simple_complete run =
     simple_stage ''COMPLETE'' 11 OUTPUT_ONLY [] ((fst run)\<lparr>processing_complete := True\<rparr>, None)
       (snd run)"

text \<open>The \<^verbatim>\<open>try\<close> block up to the end of DECIDE, and the whole of it.\<close>

definition simple_through_decide ::
  "env \<Rightarrow> ability \<Rightarrow> InputPayload \<Rightarrow> simple_run \<times> exn option" where
  "simple_through_decide ev sim payload =
     simple_then (simple_then (simple_then (simple_then (simple_then (simple_then
       (simple_intake payload (CustomerSupportState_init payload, []))
       (simple_understand sim payload)) (simple_prepare sim payload)) (simple_ask payload))
       simple_wait) (simple_retrieve sim payload)) (simple_decide ev sim payload)"

definition simple_try_block ::
  "env \<Rightarrow> ability \<Rightarrow> InputPayload \<Rightarrow> simple_run \<times> exn option" where
  "simple_try_block ev sim payload =
     simple_then
       (simple_then (simple_through_decide ev sim payload)
          (\<lambda>run. if \<not> truthy (escalation_needed (fst run))
                 then simple_then (simple_then (simple_update run) (simple_create sim payload))
                        (simple_do payload)
                 else (run, None)))
       simple_complete"

definition simple_process_ticket :: "env \<Rightarrow> ability \<Rightarrow> InputPayload \<Rightarrow> exn + OutputPayload" where
  "simple_process_ticket ev sim payload =
     (let ((state, logs), err) = simple_try_block ev sim payload;
          state = (case err of None \<Rightarrow> state | Some e \<Rightarrow> state\<lparr>ticket_status := PENDING\<rparr>)
      in OutputPayload_init ev (ticket_id payload) (ticket_status state) (generated_response state)
           (confidence_score state) (escalation_reason state) logs state)"

section \<open>Notions used in the properties\<close>

text \<open>The stage logs of a state as the indices and names of their stages, in order.\<close>

definition labels :: "CustomerSupportState \<Rightarrow> (nat \<times> string) list" where
  "labels s = map (\<lambda>l. (stage_id l, stage_name l)) (stage_logs s)"

text \<open>
  What every statement and every stage body leaves alone: the list of stage logs and the
  input payload, and for all but DECIDE and UPDATE the ticket status; of the log of the
  running stage a body changes the executions only.
\<close>

definition stmt_ok ::
  "bool \<Rightarrow> (CustomerSupportState \<Rightarrow> CustomerSupportState \<times> exn option) \<Rightarrow> bool" where
  "stmt_ok keeps_status f \<longleftrightarrow>
     (\<forall>st. stage_logs (fst (f st)) = stage_logs st \<and> input_payload (fst (f st)) = input_payload st
        \<and> (keeps_status \<longrightarrow> ticket_status (fst (f st)) = ticket_status st))"

definition body_ok :: "bool \<Rightarrow> stage_body \<Rightarrow> bool" where
  "body_ok keeps_status body \<longleftrightarrow>
     (\<forall>st lg. case body st lg of (st', lg', r) \<Rightarrow>
        stage_logs st' = stage_logs st \<and> input_payload st' = input_payload st
        \<and> (keeps_status \<longrightarrow> ticket_status st' = ticket_status st)
        \<and> lg' = lg\<lparr>abilities_executed := abilities_executed lg'\<rparr>)"

text \<open>
  The stage functions seen through their nodes: the name, index and mode a node logs, and
  the body of its stage.
\<close>

definition node_name :: "node \<Rightarrow> string" where
  "node_name n =
     (case n of intake \<Rightarrow> ''INTAKE'' | understand \<Rightarrow> ''UNDERSTAND'' | prepare \<Rightarrow> ''PREPARE''
      | ask \<Rightarrow> ''ASK'' | wait \<Rightarrow> ''WAIT'' | retrieve \<Rightarrow> ''RETRIEVE'' | decide \<Rightarrow> ''DECIDE''
      | update \<Rightarrow> ''UPDATE'' | create \<Rightarrow> ''CREATE'' | do \<Rightarrow> ''DO'' | complete \<Rightarrow> ''COMPLETE''
      | END \<Rightarrow> [])"

definition node_id :: "node \<Rightarrow> nat" where
  "node_id n =
     (case n of intake \<Rightarrow> 1 | understand \<Rightarrow> 2 | prepare \<Rightarrow> 3 | ask \<Rightarrow> 4 | wait \<Rightarrow> 5
      | retrieve \<Rightarrow> 6 | decide \<Rightarrow> 7 | update \<Rightarrow> 8 | create \<Rightarrow> 9 | do \<Rightarrow> 10
      | complete \<Rightarrow> 11 | END \<Rightarrow> 0)"

definition node_mode :: "node \<Rightarrow> StageMode" where
  "node_mode n =
     (case n of intake \<Rightarrow> ENTRY_ONLY | ask \<Rightarrow> HUMAN_INTERACTION | decide \<Rightarrow> NON_DETERMINISTIC
      | complete \<Rightarrow> OUTPUT_ONLY | _ \<Rightarrow> DETERMINISTIC)"

definition node_body :: "env \<Rightarrow> MCPManager \<Rightarrow> node \<Rightarrow> stage_body" where
  "node_body ev mgr n =
     (case n of
        intake \<Rightarrow> intake_body ev mgr | understand \<Rightarrow> understand_body ev mgr
      | prepare \<Rightarrow> prepare_body ev mgr | ask \<Rightarrow> ask_body ev mgr
      | wait \<Rightarrow> wait_body ev mgr | retrieve \<Rightarrow> retrieve_body ev mgr
      | decide \<Rightarrow> decide_body ev mgr | update \<Rightarrow> update_body ev mgr
      | create \<Rightarrow> create_body ev mgr | do \<Rightarrow> do_body ev mgr
      | complete \<Rightarrow> complete_body ev mgr
      | END \<Rightarrow> (\<lambda>state stage_log. (state, stage_log, None)))"



text \<open>What the output record validates of a final state.\<close>

definition output_fields_valid :: "env \<Rightarrow> CustomerSupportState \<Rightarrow> bool" where
  "output_fields_valid ev s \<longleftrightarrow>
     validate_optional_str ev (generated_response s) \<noteq> None
     \<and> validate_float ev (confidence_score s) \<noteq> None
     \<and> validate_optional_str ev (escalation_reason s) \<noteq> None"

text \<open>
  What the properties look at in a state of the engine, in a run of the simplified agent
  and in an output.
\<close>

fun state_summary ::
  "exn + CustomerSupportState
   \<Rightarrow> exn + (nat \<times> string) list \<times> bool list \<times> Status \<times> json \<times> json \<times> json \<times> bool" where
  "state_summary (Inl e) = Inl e"
| "state_summary (Inr s) =
     Inr (labels s, map success (stage_logs s), ticket_status s, confidence_score s,
          escalation_needed s, escalation_reason s, processing_complete s)"


text \<open>
  What a state that DECIDE has returned holds, and what the branch after DECIDE reads in
  it.
\<close>

fun branch_summary ::
  "env \<Rightarrow> exn + CustomerSupportState
   \<Rightarrow> exn + json \<times> Status \<times> bool \<times> json \<times> json \<times> (exn + json \<times> json)" where
  "branch_summary ev (Inl e) = Inl e"
| "branch_summary ev (Inr s) =
     Inr (confidence_score s, ticket_status s, success (last (stage_logs s)),
          escalation_needed s, escalation_reason s,
          (case CustomerSupportState_validate ev s of
             Inl e \<Rightarrow> Inl e
           | Inr seen \<Rightarrow> Inr (confidence_score seen, escalation_needed seen)))"


fun run_summary ::
  "simple_run \<times> exn option \<Rightarrow> string list \<times> Status \<times> json \<times> json \<times> exn option" where
  "run_summary ((state, logs), err) =
     (map stage_name logs, ticket_status state, confidence_score state, escalation_needed state, err)"

fun output_summary ::
  "exn + OutputPayload \<Rightarrow> (string list \<times> Status \<times> string option \<times> bool) option" where
  "output_summary (Inl e) = None"
| "output_summary (Inr out) =
     Some (map stage_name (out_stage_logs out), out_status out, out_escalation_reason out,
           processing_complete (final_payload out))"

subsection \<open>Sample runs\<close>

definition sample_input :: InputPayload where
  "sample_input = \<lparr>customer_name = ''John Smith'', email = ''john.smith@example.com'',
     query = ''I cannot login'', priority = HIGH, ticket_id = ''T-100''\<rparr>"

definition sample_manager :: MCPManager where
  "sample_manager =
     MCPManager_init (''http://localhost:8001'', ''atlas-key'') (''http://localhost:8002'', ''common-key'')"

text \<open>A server that never answers in time.\<close>

definition timing_out :: server_call where
  "timing_out server name payload = Inl (Exn ''TimeoutError'' ''timed out'')"

text \<open>The servers of \<open>base\<close>, except that \<open>server\<close> answers \<open>a\<close> to the ability \<open>name\<close>.\<close>

definition answering :: "string \<Rightarrow> string \<Rightarrow> exn + dict \<Rightarrow> server_call \<Rightarrow> server_call" where
  "answering server name a base =
     (\<lambda>srv n payload. if srv = server \<and> n = name then a else base srv n payload)"

definition simulated :: server_call where
  "simulated = simulate_server_call ''2024-01-01T00:00:00''"

definition env_of :: "server_call \<Rightarrow> string \<Rightarrow> env" where
  "env_of call reply =
     \<lparr>provider = call, llm = (\<lambda>p. Inr reply), float_repr = (\<lambda>r. []),
      lax_float = (\<lambda>v. None), lax_str = (\<lambda>v. None)\<rparr>"

definition low_solutions :: dict where
  "low_solutions =
     [(''solutions'', JList [obj [(''solution'', JStr ''Escalate to security team''), (''score'', JInt 40)]]),
      (''best_score'', JInt 40)]"

definition canned_env :: env where
  "canned_env = env_of simulated ''NO, the request is clear''"

definition low_score_env :: env where
  "low_score_env =
     env_of (answering ''COMMON'' ''solution_evaluation'' (Inr low_solutions) simulated)
       ''NO, the request is clear''"

definition flaky_escalation_env :: env where
  "flaky_escalation_env =
     env_of (answering ''ATLAS'' ''escalation_decision'' (Inl (Exn ''TimeoutError'' ''timed out''))
               (answering ''COMMON'' ''solution_evaluation'' (Inr low_solutions) simulated))
       ''NO, the request is clear''"

definition escalating_env :: env where
  "escalating_env =
     env_of (answering ''ATLAS'' ''escalation_decision''
               (Inr [(''escalate'', JBool True), (''reason'', JStr ''Security review required'')])
               simulated)
       ''NO, the request is clear''"

definition sample_ability :: ability where
  "sample_ability = simulate_ability (\<lambda>s. 12345) ''2024-01-01T00:00:00''"

definition low_score_ability :: ability where
  "low_score_ability name server payload =
     (if name = ''solution_evaluation'' then low_solutions else sample_ability name server payload)"



definition null_score_env :: env where
  "null_score_env =
     env_of (answering ''COMMON'' ''solution_evaluation''
               (Inr [(''solutions'', JList []), (''best_score'', JNull)]) simulated)
       ''NO, the request is clear''"

text \<open>A server whose calls raise an exception without a message, as \<^verbatim>\<open>TimeoutError()\<close>.\<close>

definition silent_timeout :: server_call where
  "silent_timeout server name payload = Inl (Exn ''TimeoutError'' [])"

definition list_reason_env :: env where
  "list_reason_env =
     env_of (answering ''ATLAS'' ''escalation_decision''
               (Inr [(''escalate'', JBool True),
                     (''reason'', JList [JStr ''fraud'', JStr ''chargeback''])])
               simulated)
       ''NO, the request is clear''"

section \<open>Properties of the providers\<close>

lemma atlas_keys: "map fst (atlas_responses p) = [''extract_entities'', ''enrich_records'',
  ''clarify_question'', ''extract_answer'', ''knowledge_base_search'', ''escalation_decision'',
  ''update_ticket'', ''close_ticket'', ''execute_api_calls'', ''trigger_notifications'']"
  by (simp add: atlas_responses_def)

lemma common_keys: "map fst (common_responses now p) = [''parse_request_text'', ''normalize_fields'',
  ''add_flags_calculations'', ''solution_evaluation'', ''response_generation'']"
  by (simp add: common_responses_def)

text \<open>
  C5, as stated, fails in one point: the error of the record is \<^verbatim>\<open>str(e)\<close>, whatever it
  is. A call that raises an exception without a message, as \<^verbatim>\<open>TimeoutError()\<close>, is
  returned as an error record whose error string is empty.
\<close>

theorem silent_failure_has_empty_error:
  "MCPManager_execute_ability silent_timeout sample_manager ''ATLAS'' ''extract_entities'' sample_input =
     \<lparr>ability_name = ''extract_entities'', server_used = ''ATLAS'', status = ''error'',
      result = None, error = Some []\<rparr>"
  by (simp add: MCPManager_execute_ability_def MCPClient_execute_ability_def sample_manager_def
      MCPManager_init_def MCPClient_init_def silent_timeout_def)

text \<open>
  C5, amended. Executing an ability through the manager never raises: for an unknown
  server the result is an error record whose error is \<open>Unknown server: \<close> followed by the
  name of the server; when the call to a known server raises, the exception is caught
  and the result is an error record whose error is the message of the exception (empty
  when the exception has none); and when the call returns, the result is a success record
  with the response.
\<close>

theorem execute_ability_never_raises:
  "(server \<noteq> ''ATLAS'' \<and> server \<noteq> ''COMMON'' \<longrightarrow>
      MCPManager_execute_ability call (MCPManager_init a c) server name payload =
        \<lparr>ability_name = name, server_used = server, status = ''error'', result = None,
         error = Some (''Unknown server: '' @ server)\<rparr>)
   \<and> (\<forall>e. (server = ''ATLAS'' \<or> server = ''COMMON'') \<and> call server name payload = Inl e \<longrightarrow>
      MCPManager_execute_ability call (MCPManager_init a c) server name payload =
        \<lparr>ability_name = name, server_used = server, status = ''error'', result = None,
         error = Some (exn_msg e)\<rparr>)
   \<and> (\<forall>r. (server = ''ATLAS'' \<or> server = ''COMMON'') \<and> call server name payload = Inr r \<longrightarrow>
      MCPManager_execute_ability call (MCPManager_init a c) server name payload =
        \<lparr>ability_name = name, server_used = server, status = ''success'', result = Some r,
         error = None\<rparr>)"
  by (auto simp: MCPManager_execute_ability_def MCPManager_init_def MCPClient_execute_ability_def
      MCPClient_init_def)

theorem execute_ability_never_raises_witness:
  "MCPManager_execute_ability timing_out sample_manager ''BILLING'' ''refund'' sample_input =
     \<lparr>ability_name = ''refund'', server_used = ''BILLING'', status = ''error'', result = None,
      error = Some ''Unknown server: BILLING''\<rparr>
   \<and> MCPManager_execute_ability timing_out sample_manager ''ATLAS'' ''extract_entities'' sample_input =
     \<lparr>ability_name = ''extract_entities'', server_used = ''ATLAS'', status = ''error'', result = None,
      error = Some ''timed out''\<rparr>"
  using execute_ability_never_raises [of "''BILLING''" timing_out "(''http://localhost:8001'', ''atlas-key'')"
      "(''http://localhost:8002'', ''common-key'')" "''refund''" sample_input]
    execute_ability_never_raises [of "''ATLAS''" timing_out "(''http://localhost:8001'', ''atlas-key'')"
      "(''http://localhost:8002'', ''common-key'')" "''extract_entities''" sample_input]
  by (simp add: sample_manager_def timing_out_def)

text \<open>
  C7. An ability name that a simulated server does not know is answered with the
  structured result \<open>not_found\<close>, as a successful execution, and asking again (at any
  later reading of the clock) gives the same record.
\<close>

theorem unknown_ability_not_found:
  assumes "(server = ''ATLAS'' \<and> name \<notin> fst ` set (atlas_responses payload))
         \<or> (server = ''COMMON'' \<and> name \<notin> fst ` set (common_responses now payload))"
  shows "MCPManager_execute_ability (simulate_server_call now) (MCPManager_init a c) server name payload =
           \<lparr>ability_name = name, server_used = server, status = ''success'',
            result = Some not_found, error = None\<rparr>
       \<and> MCPManager_execute_ability (simulate_server_call now') (MCPManager_init a c) server name payload =
           MCPManager_execute_ability (simulate_server_call now) (MCPManager_init a c) server name payload"
proof -
  from assms consider
      (atlas) "server = ''ATLAS''" "map_of (atlas_responses payload) name = None"
    | (common) "server = ''COMMON''" "map_of (common_responses now payload) name = None"
    by (auto simp: map_of_eq_None_iff)
  then show ?thesis
  proof cases
    case atlas
    then show ?thesis
      by (simp add: MCPManager_execute_ability_def MCPManager_init_def
          MCPClient_execute_ability_def MCPClient_init_def simulate_server_call_def
          atlas_ability_response_def)
  next
    case common
    then have "name \<notin> set (map fst (common_responses now payload))"
      by (simp add: map_of_eq_None_iff)
    then have "name \<notin> set (map fst (common_responses now' payload))"
      by (simp add: common_keys)
    then have "map_of (common_responses now' payload) name = None"
      by (simp add: map_of_eq_None_iff)
    with common show ?thesis
      by (simp add: MCPManager_execute_ability_def MCPManager_init_def
          MCPClient_execute_ability_def MCPClient_init_def simulate_server_call_def
          common_ability_response_def)
  qed
qed

theorem unknown_ability_not_found_witness:
  "MCPManager_execute_ability (simulate_server_call ''2024-01-01T00:00:00'') sample_manager
       ''COMMON'' ''translate_text'' sample_input =
     \<lparr>ability_name = ''translate_text'', server_used = ''COMMON'', status = ''success'',
      result = Some [(''status'', JStr ''ability_not_found''), (''result'', JNull)], error = None\<rparr>
   \<and> MCPManager_execute_ability (simulate_server_call ''2024-01-01T00:00:05'') sample_manager
       ''COMMON'' ''translate_text'' sample_input =
     MCPManager_execute_ability (simulate_server_call ''2024-01-01T00:00:00'') sample_manager
       ''COMMON'' ''translate_text'' sample_input"
proof -
  have "''translate_text'' \<notin> fst ` set (common_responses ''2024-01-01T00:00:00'' sample_input)"
    by (simp add: common_responses_def)
  then show ?thesis
    using unknown_ability_not_found [of "''COMMON''" "''translate_text''" sample_input
        "''2024-01-01T00:00:00''" "(''http://localhost:8001'', ''atlas-key'')"
        "(''http://localhost:8002'', ''common-key'')" "''2024-01-01T00:00:05''"]
    by (simp add: sample_manager_def not_found_def)
qed

section \<open>Properties of the stages\<close>

lemma execute_abilities_loop_log:
  "snd (execute_abilities_loop ev mgr state abilities (results, stage_log)) =
     stage_log\<lparr>abilities_executed := abilities_executed stage_log @
       map (\<lambda>(name, server). MCPManager_execute_ability (provider ev) mgr server name (input_payload state))
         (filter (\<lambda>(name, server). server \<noteq> ''internal'') abilities)\<rparr>"
proof (induction abilities arbitrary: results stage_log)
  case Nil
  then show ?case by simp
next
  case (Cons a abilities)
  obtain name server where a: "a = (name, server)" by (cases a)
  show ?case
    by (simp add: a Cons.IH Let_def)
qed

lemma execute_abilities_log:
  "snd (execute_abilities ev mgr state stage_log abilities) =
     stage_log\<lparr>abilities_executed := abilities_executed stage_log @
       map (\<lambda>(name, server). MCPManager_execute_ability (provider ev) mgr server name (input_payload state))
         (filter (\<lambda>(name, server). server \<noteq> ''internal'') abilities)\<rparr>"
  by (simp add: execute_abilities_def execute_abilities_loop_log)

lemma stmt_ok_and_then:
  assumes "stmt_ok b f" and "stmt_ok b g"
  shows "stmt_ok b (\<lambda>st. and_then (f st) g)"
  unfolding stmt_ok_def
proof (intro allI)
  fix st
  obtain x err where fx: "f st = (x, err)" by (cases "f st")
  from assms(1) fx have x: "stage_logs x = stage_logs st" "input_payload x = input_payload st"
      "b \<longrightarrow> ticket_status x = ticket_status st"
    by (auto simp: stmt_ok_def dest: spec [of _ st])
  from assms(2) have g: "stage_logs (fst (g x)) = stage_logs x" "input_payload (fst (g x)) = input_payload x"
      "b \<longrightarrow> ticket_status (fst (g x)) = ticket_status x"
    by (auto simp: stmt_ok_def)
  show "stage_logs (fst (and_then (f st) g)) = stage_logs st \<and>
        input_payload (fst (and_then (f st) g)) = input_payload st \<and>
        (b \<longrightarrow> ticket_status (fst (and_then (f st) g)) = ticket_status st)"
    using x g by (cases err) (simp_all add: and_then_def fx)
qed

lemma stmt_ok_weaken: "stmt_ok True f \<Longrightarrow> stmt_ok b f"
  by (simp add: stmt_ok_def)

lemma update_entities_ok: "stmt_ok True (update_entities results name key)"
  by (simp add: stmt_ok_def update_entities_def split: option.splits sum.splits prod.splits)

lemma understand_apply_ok: "stmt_ok True (understand_apply results)"
  unfolding understand_apply_def by (intro stmt_ok_and_then update_entities_ok)

lemma prepare_item_ok: "stmt_ok True (prepare_item ability r)"
  by (simp add: stmt_ok_def prepare_item_def split: option.splits sum.splits prod.splits)

lemma prepare_loop_ok: "stmt_ok True (prepare_loop results)"
proof (induction results)
  case Nil
  then show ?case by (simp add: stmt_ok_def)
next
  case (Cons a results)
  obtain ability r where a: "a = (ability, r)" by (cases a)
  have "prepare_loop (a # results) = (\<lambda>st. and_then (prepare_item ability r st) (prepare_loop results))"
    by (simp add: a fun_eq_iff)
  then show ?case
    using stmt_ok_and_then [OF prepare_item_ok Cons.IH] by simp
qed

lemma wait_apply_ok: "stmt_ok True (wait_apply results)"
  by (simp add: stmt_ok_def wait_apply_def split: option.splits sum.splits)

lemma retrieve_apply_ok: "stmt_ok True (retrieve_apply results)"
  by (simp add: stmt_ok_def retrieve_apply_def split: option.splits sum.splits)

lemma decide_solutions_ok: "stmt_ok True (decide_solutions results)"
  by (simp add: stmt_ok_def decide_solutions_def Let_def split: option.splits sum.splits)

lemma decide_escalation_ok: "stmt_ok True (decide_escalation results)"
  by (simp add: stmt_ok_def decide_escalation_def Let_def split: option.splits sum.splits)

lemma escalation_rule_ok: "stmt_ok False (escalation_rule ev)"
  by (simp add: stmt_ok_def escalation_rule_def split: sum.splits)

lemma decide_apply_ok: "stmt_ok False (decide_apply ev results)"
  unfolding decide_apply_def
  by (intro stmt_ok_and_then stmt_ok_weaken [OF decide_solutions_ok]
      stmt_ok_weaken [OF decide_escalation_ok] escalation_rule_ok)

lemma update_apply_ok: "stmt_ok False update_apply"
  by (simp add: stmt_ok_def update_apply_def split: sum.splits)

lemma create_apply_ok: "stmt_ok True (create_apply results)"
  by (simp add: stmt_ok_def create_apply_def split: option.splits sum.splits)

lemma do_api_calls_ok: "stmt_ok True (do_api_calls results)"
  by (simp add: stmt_ok_def do_api_calls_def split: option.splits sum.splits)

lemma do_notifications_ok: "stmt_ok True (do_notifications results)"
  by (simp add: stmt_ok_def do_notifications_def split: option.splits sum.splits)

lemma do_apply_ok: "stmt_ok True (do_apply results)"
  unfolding do_apply_def by (intro stmt_ok_and_then do_api_calls_ok do_notifications_ok)

lemma execute_abilities_shape:
  "execute_abilities ev mgr st lg abilities = (results, lg') \<Longrightarrow>
     lg' = lg\<lparr>abilities_executed := abilities_executed lg'\<rparr>"
  using execute_abilities_log [of ev mgr st lg abilities] by auto

text \<open>A body that runs its abilities and then applies the results.\<close>

lemma body_okI:
  assumes "\<And>results. stmt_ok b (f results)"
    and "\<And>st lg. body st lg =
      (case execute_abilities ev mgr st lg abilities of
         (results, lg') \<Rightarrow> (case f results st of (st', err) \<Rightarrow> (st', lg', err)))"
  shows "body_ok b body"
  unfolding body_ok_def
proof (intro allI)
  fix st lg
  obtain results lg' where ex: "execute_abilities ev mgr st lg abilities = (results, lg')"
    by (cases "execute_abilities ev mgr st lg abilities")
  obtain st' err where fr: "f results st = (st', err)" by (cases "f results st")
  from assms(1) [of results] have
    "stage_logs (fst (f results st)) = stage_logs st"
    "input_payload (fst (f results st)) = input_payload st"
    "b \<longrightarrow> ticket_status (fst (f results st)) = ticket_status st"
    by (simp_all add: stmt_ok_def)
  with fr have
    "stage_logs st' = stage_logs st" "input_payload st' = input_payload st"
    "b \<longrightarrow> ticket_status st' = ticket_status st"
    by simp_all
  moreover note execute_abilities_shape [OF ex]
  ultimately show "case body st lg of (st', lg', r) \<Rightarrow>
        stage_logs st' = stage_logs st \<and> input_payload st' = input_payload st
        \<and> (b \<longrightarrow> ticket_status st' = ticket_status st)
        \<and> lg' = lg\<lparr>abilities_executed := abilities_executed lg'\<rparr>"
    by (simp add: assms(2) ex fr)
qed

lemma intake_body_ok: "body_ok True (intake_body ev mgr)"
  by (rule body_okI [where ev = ev and mgr = mgr and f = "\<lambda>results st. (st, None)"
        and abilities = "[(''accept_payload'', ''internal'')]"])
     (simp_all add: stmt_ok_def intake_body_def)

lemma understand_body_ok: "body_ok True (understand_body ev mgr)"
  by (rule body_okI [where ev = ev and mgr = mgr and f = understand_apply
        and abilities = "[(''parse_request_text'', ''COMMON''), (''extract_entities'', ''ATLAS'')]"])
     (simp_all add: understand_apply_ok understand_body_def)

lemma prepare_body_ok: "body_ok True (prepare_body ev mgr)"
  by (rule body_okI [where ev = ev and mgr = mgr and f = prepare_loop
        and abilities = "[(''normalize_fields'', ''COMMON''), (''enrich_records'', ''ATLAS''),
               (''add_flags_calculations'', ''COMMON'')]"])
     (simp_all add: prepare_loop_ok prepare_body_def)

lemma body_okI2:
  assumes "\<And>st lg. stage_logs (fst (body st lg)) = stage_logs st"
    and "\<And>st lg. input_payload (fst (body st lg)) = input_payload st"
    and "\<And>st lg. b \<longrightarrow> ticket_status (fst (body st lg)) = ticket_status st"
    and "\<And>st lg. fst (snd (body st lg)) = lg\<lparr>abilities_executed := abilities_executed (fst (snd (body st lg)))\<rparr>"
  shows "body_ok b body"
  unfolding body_ok_def
proof (intro allI)
  fix st lg
  obtain st' lg' r where eq: "body st lg = (st', lg', r)" by (cases "body st lg")
  show "case body st lg of (st', lg', r) \<Rightarrow>
        stage_logs st' = stage_logs st \<and> input_payload st' = input_payload st
        \<and> (b \<longrightarrow> ticket_status st' = ticket_status st)
        \<and> lg' = lg\<lparr>abilities_executed := abilities_executed lg'\<rparr>"
    using assms(1) [of st lg] assms(2) [of st lg] assms(3) [of st lg] assms(4) [of st lg]
    by (simp add: eq)
qed

lemma ask_body_ok: "body_ok True (ask_body ev mgr)"
proof (rule body_okI2)
  fix st :: CustomerSupportState and lg :: StageLog
  let ?p = "AskPrompt (customer_name (input_payload st)) (query (input_payload st))
              (priority (input_payload st)) (extracted_entities st)"
  obtain results lg' where ex:
    "execute_abilities ev mgr st lg [(''clarify_question'', ''ATLAS'')] = (results, lg')"
    by (cases "execute_abilities ev mgr st lg [(''clarify_question'', ''ATLAS'')]")
  note sh = execute_abilities_shape [OF ex]
  show "stage_logs (fst (ask_body ev mgr st lg)) = stage_logs st"
    by (cases "llm ev ?p") (simp_all add: ask_body_def ex Let_def split: sum.splits)
  show "input_payload (fst (ask_body ev mgr st lg)) = input_payload st"
    by (cases "llm ev ?p") (simp_all add: ask_body_def ex Let_def split: sum.splits)
  show "True \<longrightarrow> ticket_status (fst (ask_body ev mgr st lg)) = ticket_status st"
    by (cases "llm ev ?p") (simp_all add: ask_body_def ex Let_def split: sum.splits)
  show "fst (snd (ask_body ev mgr st lg)) =
          lg\<lparr>abilities_executed := abilities_executed (fst (snd (ask_body ev mgr st lg)))\<rparr>"
    using sh by (cases "llm ev ?p") (simp_all add: ask_body_def ex Let_def split: sum.splits)
qed

lemma wait_body_ok: "body_ok True (wait_body ev mgr)"
  by (rule body_okI [where ev = ev and mgr = mgr and f = wait_apply
        and abilities = "[(''extract_answer'', ''ATLAS''), (''store_answer'', ''internal'')]"])
     (simp_all add: wait_apply_ok wait_body_def)

lemma retrieve_body_ok: "body_ok True (retrieve_body ev mgr)"
  by (rule body_okI [where ev = ev and mgr = mgr and f = retrieve_apply
        and abilities = "[(''knowledge_base_search'', ''ATLAS''), (''store_data'', ''internal'')]"])
     (simp_all add: retrieve_apply_ok retrieve_body_def)

lemma decide_body_ok: "body_ok False (decide_body ev mgr)"
proof (rule body_okI2)
  fix st :: CustomerSupportState and lg :: StageLog
  let ?abs = "[(''solution_evaluation'', ''COMMON''), (''escalation_decision'', ''ATLAS''),
               (''update_payload'', ''internal'')]"
  obtain results lg' where ex: "execute_abilities ev mgr st lg ?abs = (results, lg')"
    by (cases "execute_abilities ev mgr st lg ?abs")
  note sh = execute_abilities_shape [OF ex]
  obtain st' err where r: "decide_apply ev results st = (st', err)"
    by (cases "decide_apply ev results st")
  from decide_apply_ok [of ev results] have
    "stage_logs (fst (decide_apply ev results st)) = stage_logs st"
    "input_payload (fst (decide_apply ev results st)) = input_payload st"
    by (simp_all add: stmt_ok_def)
  with r have fr: "stage_logs st' = stage_logs st" "input_payload st' = input_payload st"
    by simp_all
  show "stage_logs (fst (decide_body ev mgr st lg)) = stage_logs st"
    using fr by (simp add: decide_body_def ex r split: sum.splits)
  show "input_payload (fst (decide_body ev mgr st lg)) = input_payload st"
    using fr by (simp add: decide_body_def ex r split: sum.splits)
  show "False \<longrightarrow> ticket_status (fst (decide_body ev mgr st lg)) = ticket_status st"
    by simp
  show "fst (snd (decide_body ev mgr st lg)) =
          lg\<lparr>abilities_executed := abilities_executed (fst (snd (decide_body ev mgr st lg)))\<rparr>"
    using sh by (simp add: decide_body_def ex r split: sum.splits)
qed

lemma update_body_ok: "body_ok False (update_body ev mgr)"
  by (rule body_okI [where ev = ev and mgr = mgr and f = "\<lambda>results. update_apply"
        and abilities = "[(''update_ticket'', ''ATLAS''), (''close_ticket'', ''ATLAS'')]"])
     (simp_all add: update_apply_ok update_body_def)

lemma create_body_ok: "body_ok True (create_body ev mgr)"
  by (rule body_okI [where ev = ev and mgr = mgr and f = create_apply
        and abilities = "[(''response_generation'', ''COMMON'')]"])
     (simp_all add: create_apply_ok create_body_def)

lemma do_body_ok: "body_ok True (do_body ev mgr)"
  by (rule body_okI [where ev = ev and mgr = mgr and f = do_apply
        and abilities = "[(''execute_api_calls'', ''ATLAS''), (''trigger_notifications'', ''ATLAS'')]"])
     (simp_all add: do_apply_ok do_body_def)

lemma complete_body_ok: "body_ok True (complete_body ev mgr)"
  by (rule body_okI [where ev = ev and mgr = mgr
        and f = "\<lambda>results st. (st\<lparr>processing_complete := True\<rparr>, None)"
        and abilities = "[(''output_payload'', ''internal'')]"])
     (simp_all add: stmt_ok_def complete_body_def)

text \<open>What a stage leaves behind, whatever its body does.\<close>

lemma run_stage_eq:
  assumes "body_ok b body"
    and "body (snd (log_stage_start s name sid m)) (fst (log_stage_start s name sid m)) = (s', lg', r)"
  shows "run_stage name sid m body s =
           s'\<lparr>stage_logs := stage_logs s @
                [lg'\<lparr>ended := True, success := (r = None),
                     log_error := (case r of None \<Rightarrow> None
                                   | Some e \<Rightarrow> if exn_msg e \<noteq> [] then Some (exn_msg e) else None)\<rparr>]\<rparr>"
proof -
  let ?lg0 = "fst (log_stage_start s name sid m)" and ?s0 = "snd (log_stage_start s name sid m)"
  from assms(1) have h: "\<forall>st lg. case body st lg of (st', lg', r) \<Rightarrow>
        stage_logs st' = stage_logs st \<and> input_payload st' = input_payload st
        \<and> (b \<longrightarrow> ticket_status st' = ticket_status st)
        \<and> lg' = lg\<lparr>abilities_executed := abilities_executed lg'\<rparr>"
    by (simp add: body_ok_def)
  from h [rule_format, of ?s0 ?lg0] assms(2) have ok: "stage_logs s' = stage_logs ?s0"
      "lg' = ?lg0\<lparr>abilities_executed := abilities_executed lg'\<rparr>"
    by simp_all
  have logs0: "stage_logs ?s0 = stage_logs s @ [?lg0]" and err0: "log_error ?lg0 = None"
    by (simp_all add: log_stage_start_def Let_def)
  from ok(2) err0 have err: "log_error lg' = None"
    by (metis StageLog.select_convs(7) StageLog.surjective StageLog.update_convs(4))
  show ?thesis
    using assms(2) ok(1) logs0 err
    by (cases r) (simp_all add: run_stage_def case_prod_unfold log_stage_complete_def sync_log_def)
qed

lemma run_stage_logs:
  assumes "body_ok b body"
  shows "\<exists>l. stage_logs (run_stage name sid m body s) = stage_logs s @ [l]
           \<and> stage_name l = name \<and> stage_id l = sid \<and> ended l"
proof -
  let ?lg0 = "fst (log_stage_start s name sid m)" and ?s0 = "snd (log_stage_start s name sid m)"
  obtain s' lg' r where eq: "body ?s0 ?lg0 = (s', lg', r)" by (cases "body ?s0 ?lg0")
  from assms have h: "\<forall>st lg. case body st lg of (st', lg', r) \<Rightarrow>
        stage_logs st' = stage_logs st \<and> input_payload st' = input_payload st
        \<and> (b \<longrightarrow> ticket_status st' = ticket_status st)
        \<and> lg' = lg\<lparr>abilities_executed := abilities_executed lg'\<rparr>"
    by (simp add: body_ok_def)
  from h [rule_format, of ?s0 ?lg0] eq
  have "lg' = ?lg0\<lparr>abilities_executed := abilities_executed lg'\<rparr>" by simp
  then have "stage_name lg' = stage_name ?lg0 \<and> stage_id lg' = stage_id ?lg0"
    by (metis StageLog.select_convs(1,2) StageLog.surjective StageLog.update_convs(4))
  then have "stage_name lg' = name \<and> stage_id lg' = sid"
    by (simp add: log_stage_start_def Let_def)
  then show ?thesis
    by (simp add: run_stage_eq [OF assms eq])
qed

lemma run_stage_payload:
  assumes "body_ok b body"
  shows "input_payload (run_stage name sid m body s) = input_payload s"
proof -
  let ?lg0 = "fst (log_stage_start s name sid m)" and ?s0 = "snd (log_stage_start s name sid m)"
  obtain s' lg' r where eq: "body ?s0 ?lg0 = (s', lg', r)" by (cases "body ?s0 ?lg0")
  from assms have h: "\<forall>st lg. case body st lg of (st', lg', r) \<Rightarrow>
        stage_logs st' = stage_logs st \<and> input_payload st' = input_payload st
        \<and> (b \<longrightarrow> ticket_status st' = ticket_status st)
        \<and> lg' = lg\<lparr>abilities_executed := abilities_executed lg'\<rparr>"
    by (simp add: body_ok_def)
  from h [rule_format, of ?s0 ?lg0] eq have "input_payload s' = input_payload ?s0" by simp
  then show ?thesis
    by (simp add: run_stage_eq [OF assms eq] log_stage_start_def Let_def)
qed

lemma run_stage_status:
  assumes "body_ok True body"
  shows "ticket_status (run_stage name sid m body s) = ticket_status s"
proof -
  let ?lg0 = "fst (log_stage_start s name sid m)" and ?s0 = "snd (log_stage_start s name sid m)"
  obtain s' lg' r where eq: "body ?s0 ?lg0 = (s', lg', r)" by (cases "body ?s0 ?lg0")
  from assms have h: "\<forall>st lg. case body st lg of (st', lg', r) \<Rightarrow>
        stage_logs st' = stage_logs st \<and> input_payload st' = input_payload st
        \<and> (True \<longrightarrow> ticket_status st' = ticket_status st)
        \<and> lg' = lg\<lparr>abilities_executed := abilities_executed lg'\<rparr>"
    by (simp add: body_ok_def)
  from h [rule_format, of ?s0 ?lg0] eq have "ticket_status s' = ticket_status ?s0" by simp
  then show ?thesis
    by (simp add: run_stage_eq [OF assms eq] log_stage_start_def Let_def)
qed

section \<open>Properties of the graph\<close>

lemmas stage_defs = stage_01_intake_def stage_02_understand_def stage_03_prepare_def
  stage_04_ask_def stage_05_wait_def stage_06_retrieve_def stage_07_decide_def
  stage_08_update_def stage_09_create_def stage_10_do_def stage_11_complete_def

lemmas body_oks = intake_body_ok understand_body_ok prepare_body_ok ask_body_ok wait_body_ok
  retrieve_body_ok decide_body_ok update_body_ok create_body_ok do_body_ok complete_body_ok

lemma node_function_eq:
  "n \<noteq> END \<Longrightarrow>
     node_function ev mgr n = run_stage (node_name n) (node_id n) (node_mode n) (node_body ev mgr n)"
  by (cases n)
     (simp_all add: node_function_def node_name_def node_id_def node_mode_def node_body_def stage_defs)

lemma body_ok_weaken: "body_ok True body \<Longrightarrow> body_ok b body"
  by (simp add: body_ok_def case_prod_unfold)

lemma node_body_ok: "n \<noteq> END \<Longrightarrow> body_ok False (node_body ev mgr n)"
  by (cases n) (simp_all add: node_body_def body_oks body_ok_weaken)

lemma node_body_keeps_status:
  "n \<noteq> END \<Longrightarrow> n \<noteq> decide \<Longrightarrow> n \<noteq> update \<Longrightarrow> body_ok True (node_body ev mgr n)"
  by (cases n) (simp_all add: node_body_def body_oks)

text \<open>What the schema leaves alone, and what it makes of the fields it validates.\<close>

lemma validate_kept:
  assumes "CustomerSupportState_validate ev s = Inr v"
  shows "stage_logs v = stage_logs s" and "input_payload v = input_payload s"
    and "ticket_status v = ticket_status s"
    and "clarification_requested v = clarification_requested s"
    and "processing_complete v = processing_complete s"
  using assms by (auto simp: CustomerSupportState_validate_def Let_def split: if_splits)

lemma validate_read:
  assumes "CustomerSupportState_validate ev s = Inr v"
  shows "\<exists>b. validate_bool (escalation_needed s) = Some b \<and> escalation_needed v = JBool b"
    and "\<exists>r. validate_float ev (confidence_score s) = Some r \<and> confidence_score v = JFloat r"
    and "\<exists>x. validate_optional_str ev (escalation_reason s) = Some x
             \<and> escalation_reason v = opt_str_json x"
    and "\<exists>x. validate_optional_str ev (human_response s) = Some x
             \<and> human_response v = opt_str_json x"
    and "\<exists>x. validate_optional_str ev (generated_response s) = Some x
             \<and> generated_response v = opt_str_json x"
  using assms by (auto simp: CustomerSupportState_validate_def Let_def split: if_splits)

lemma validate_labels: "CustomerSupportState_validate ev s = Inr v \<Longrightarrow> labels v = labels s"
  by (simp add: labels_def validate_kept)

lemma validate_optional_str_again:
  "validate_optional_str ev (opt_str_json x) = Some x"
  by (cases x) (simp_all add: validate_optional_str_def opt_str_json_def)

lemma validate_output_fields:
  assumes "CustomerSupportState_validate ev s = Inr v"
  shows "output_fields_valid ev s" and "output_fields_valid ev v"
proof -
  from validate_read [OF assms] show "output_fields_valid ev s"
    by (auto simp: output_fields_valid_def)
  from validate_read [OF assms] show "output_fields_valid ev v"
    by (auto simp: output_fields_valid_def validate_optional_str_again validate_float_def)
qed


lemma validate_bool_True: "validate_bool (JBool True) = Some True"
  by (simp add: validate_bool_def)


lemma validate_flag_True:
  assumes "CustomerSupportState_validate ev s = Inr v" and "escalation_needed s = JBool True"
  shows "truthy (escalation_needed v)"
  using validate_read(1) [OF assms(1)] assms(2)
  by (auto simp: truthy_def validate_bool_def)

text \<open>A field that the body of a stage leaves alone is left alone by the stage.\<close>

lemma run_stage_keeps:
  assumes "\<And>st lg. g (fst (body st lg)) = g st"
    and "\<And>st x. g (st\<lparr>stage_logs := x\<rparr>) = g st"
    and "\<And>st x. g (st\<lparr>current_stage := x\<rparr>) = g st"
  shows "g (run_stage name sid m body s) = g s"
proof -
  let ?lg0 = "fst (log_stage_start s name sid m)" and ?s0 = "snd (log_stage_start s name sid m)"
  obtain s' lg' r where eq: "body ?s0 ?lg0 = (s', lg', r)" by (cases "body ?s0 ?lg0")
  from assms(1) [of ?s0 ?lg0] eq have "g s' = g ?s0" by simp
  also have "g ?s0 = g s"
    by (simp add: log_stage_start_def Let_def assms(2,3))
  finally have "g s' = g s" .
  then show ?thesis
    using eq
    by (cases r)
       (simp_all add: run_stage_def case_prod_unfold log_stage_complete_def sync_log_def Let_def assms(2))
qed


lemma and_then_keeps:
  assumes "\<And>st. g (fst (f1 st)) = g st" and "\<And>st. g (fst (f2 st)) = g st"
  shows "g (fst (and_then (f1 st) f2)) = g st"
proof (cases "f1 st")
  case (Pair x err)
  from assms(1) [of st] Pair have "g x = g st" by simp
  with assms(2) [of x] Pair show ?thesis
    by (cases err) (simp_all add: and_then_def)
qed

lemma body_keeps:
  assumes "\<And>results st. g (fst (f results st)) = g st"
    and "\<And>st lg. body st lg =
      (case execute_abilities ev mgr st lg abilities of
         (results, lg') \<Rightarrow> (case f results st of (st', err) \<Rightarrow> (st', lg', err)))"
  shows "g (fst (body st lg)) = g st"
  using assms(1) [of "fst (execute_abilities ev mgr st lg abilities)" st]
  by (simp add: assms(2) case_prod_unfold)

text \<open>No stage before WAIT assigns the human response.\<close>

lemma update_entities_answer:
  "human_response (fst (update_entities results name key st)) = human_response st"
  by (simp add: update_entities_def split: option.splits sum.splits prod.splits)

lemma understand_apply_answer:
  "human_response (fst (understand_apply results st)) = human_response st"
  unfolding understand_apply_def
  by (rule and_then_keeps [where g = human_response]) (rule update_entities_answer)+

lemma prepare_item_answer:
  "human_response (fst (prepare_item ability r st)) = human_response st"
  by (simp add: prepare_item_def split: option.splits sum.splits prod.splits)

lemma prepare_loop_answer:
  "human_response (fst (prepare_loop results st)) = human_response st"
proof (induction results arbitrary: st)
  case Nil
  then show ?case by simp
next
  case (Cons a results)
  obtain ability r where a: "a = (ability, r)" by (cases a)
  show ?case
    unfolding a prepare_loop.simps
    by (rule and_then_keeps [where g = human_response]) (rule prepare_item_answer, rule Cons.IH)
qed

lemma ask_body_answer:
  "human_response (fst (ask_body ev mgr st lg)) = human_response st"
  by (simp add: ask_body_def case_prod_unfold Let_def split: sum.splits)

lemma early_stages_keep_answer:
  "human_response (stage_01_intake ev mgr s) = human_response s"
  "human_response (stage_02_understand ev mgr s) = human_response s"
  "human_response (stage_03_prepare ev mgr s) = human_response s"
  "human_response (stage_04_ask ev mgr s) = human_response s"
proof -
  show "human_response (stage_01_intake ev mgr s) = human_response s"
    unfolding stage_01_intake_def
    by (rule run_stage_keeps) (simp_all add: intake_body_def case_prod_unfold Let_def)
  show "human_response (stage_02_understand ev mgr s) = human_response s"
    unfolding stage_02_understand_def
    by (rule run_stage_keeps)
       (simp_all add: understand_body_def case_prod_unfold Let_def understand_apply_answer)
  show "human_response (stage_03_prepare ev mgr s) = human_response s"
    unfolding stage_03_prepare_def
    by (rule run_stage_keeps)
       (simp_all add: prepare_body_def case_prod_unfold Let_def prepare_loop_answer)
  show "human_response (stage_04_ask ev mgr s) = human_response s"
    unfolding stage_04_ask_def
    by (rule run_stage_keeps) (simp_all add: ask_body_answer)
qed

text \<open>COMPLETE leaves alone what the output record validates.\<close>

lemma complete_keeps_output:
  "output_fields_valid ev (stage_11_complete ev' mgr s) = output_fields_valid ev s"
proof -
  have "generated_response (stage_11_complete ev' mgr s) = generated_response s"
    unfolding stage_11_complete_def
    by (rule run_stage_keeps) (simp_all add: complete_body_def case_prod_unfold Let_def)
  moreover have "confidence_score (stage_11_complete ev' mgr s) = confidence_score s"
    unfolding stage_11_complete_def
    by (rule run_stage_keeps) (simp_all add: complete_body_def case_prod_unfold Let_def)
  moreover have "escalation_reason (stage_11_complete ev' mgr s) = escalation_reason s"
    unfolding stage_11_complete_def
    by (rule run_stage_keeps) (simp_all add: complete_body_def case_prod_unfold Let_def)
  ultimately show ?thesis by (simp add: output_fields_valid_def)
qed

text \<open>The run of the graph, node by node.\<close>

lemma on_return_Inr [simp]: "on_return (Inr x) f = f x"
  by (simp add: on_return_def)

lemma on_return_Inl [simp]: "on_return (Inl e) f = Inl e"
  by (simp add: on_return_def)

lemma on_return_eq_Inr:
  "on_return r f = Inr y \<longleftrightarrow> (\<exists>x. r = Inr x \<and> f x = Inr y)"
  by (cases r) simp_all

lemma on_return_assoc:
  "on_return (on_return r f) g = on_return r (\<lambda>x. on_return (f x) g)"
  by (cases r) simp_all

lemma run_from_END: "run_from ev mgr END s = Inr s"
  by (subst run_from.simps) simp

lemma run_from_step:
  "n \<noteq> END \<Longrightarrow> run_from ev mgr n s =
     on_return (node_step ev mgr n s)
       (\<lambda>s'. on_return (route ev n s') (\<lambda>next. run_from ev mgr next s'))"
  by (subst run_from.simps) (simp add: on_return_def node_step_def split: sum.splits)

lemma route_plain:
  "n \<noteq> ask \<Longrightarrow> n \<noteq> decide \<Longrightarrow> route ev n s = Inr (next_node n s)"
  by (simp add: route_def)

lemma route_branch:
  "n = ask \<or> n = decide \<Longrightarrow>
     route ev n s = on_return (CustomerSupportState_validate ev s) (\<lambda>seen. Inr (next_node n seen))"
  by (auto simp: route_def on_return_def split: sum.splits)

lemma run_from_complete: "run_from ev mgr complete s = node_step ev mgr complete s"
  by (cases "node_step ev mgr complete s")
     (simp_all add: run_from_step route_plain next_node_def run_from_END)

lemma run_from_do:
  "run_from ev mgr do s = on_return (node_step ev mgr do s) (node_step ev mgr complete)"
  by (simp add: run_from_step [of do] route_plain next_node_def run_from_complete)

lemma run_from_create:
  "run_from ev mgr create s =
     on_return (on_return (node_step ev mgr create s) (node_step ev mgr do))
       (node_step ev mgr complete)"
  by (simp add: run_from_step [of create] route_plain next_node_def run_from_do on_return_assoc)

lemma run_from_update:
  "run_from ev mgr update s = on_return (node_step ev mgr update s) (run_from ev mgr create)"
  by (simp add: run_from_step [of update] route_plain next_node_def)

lemma run_from_decide:
  "run_from ev mgr decide s =
     on_return (node_step ev mgr decide s) (\<lambda>s7.
       on_return (CustomerSupportState_validate ev s7) (\<lambda>seen.
         if truthy (escalation_needed seen) then Inr s7 else run_from ev mgr update s7))"
proof -
  have "on_return (route ev decide s7) (\<lambda>next. run_from ev mgr next s7) =
        on_return (CustomerSupportState_validate ev s7) (\<lambda>seen.
          if truthy (escalation_needed seen) then Inr s7 else run_from ev mgr update s7)" for s7
    by (cases "CustomerSupportState_validate ev s7")
       (simp_all add: route_branch next_node_def should_escalate_def run_from_END)
  then show ?thesis by (simp add: run_from_step [of decide])
qed

lemma run_from_retrieve:
  "run_from ev mgr retrieve s = on_return (node_step ev mgr retrieve s) (run_from ev mgr decide)"
  by (simp add: run_from_step [of retrieve] route_plain next_node_def)

lemma run_from_wait:
  "run_from ev mgr wait s = on_return (node_step ev mgr wait s) (run_from ev mgr retrieve)"
  by (simp add: run_from_step [of wait] route_plain next_node_def)

lemma run_from_ask:
  "run_from ev mgr ask s =
     on_return (node_step ev mgr ask s) (\<lambda>s4.
       on_return (CustomerSupportState_validate ev s4) (\<lambda>seen.
         on_return (if should_wait seen = ''wait'' then node_step ev mgr wait s4 else Inr s4)
           (run_from ev mgr retrieve)))"
proof -
  have "on_return (route ev ask s4) (\<lambda>next. run_from ev mgr next s4) =
        on_return (CustomerSupportState_validate ev s4) (\<lambda>seen.
          on_return (if should_wait seen = ''wait'' then node_step ev mgr wait s4 else Inr s4)
            (run_from ev mgr retrieve))" for s4
    by (cases "CustomerSupportState_validate ev s4")
       (simp_all add: route_branch next_node_def run_from_wait)
  then show ?thesis by (simp add: run_from_step [of ask])
qed

lemma run_from_intake:
  "run_from ev mgr intake s =
     on_return (on_return (on_return (node_step ev mgr intake s) (node_step ev mgr understand))
       (node_step ev mgr prepare)) (run_from ev mgr ask)"
  by (simp add: run_from_step [of intake] run_from_step [of understand] run_from_step [of prepare]
      route_plain next_node_def on_return_assoc)

lemma final_state_eq:
  "final_state ev mgr p =
     on_return (state_after_decide ev mgr p) (\<lambda>s7.
       on_return (CustomerSupportState_validate ev s7) (\<lambda>seen.
         if truthy (escalation_needed seen) then Inr s7 else run_from ev mgr update s7))"
  by (simp add: final_state_def workflow_ainvoke_def run_from_intake run_from_ask [abs_def]
      run_from_retrieve [abs_def] run_from_decide [abs_def] state_after_decide_def
      state_before_decide_def state_after_ask_def on_return_assoc)

lemma run_stage_labels:
  assumes "body_ok b body"
  shows "labels (run_stage name sid m body s) = labels s @ [(sid, name)]"
  using run_stage_logs [OF assms, of name sid m s] by (auto simp: labels_def)

lemma stage_labels:
  "labels (stage_01_intake ev mgr s) = labels s @ [(1, ''INTAKE'')]"
  "labels (stage_02_understand ev mgr s) = labels s @ [(2, ''UNDERSTAND'')]"
  "labels (stage_03_prepare ev mgr s) = labels s @ [(3, ''PREPARE'')]"
  "labels (stage_04_ask ev mgr s) = labels s @ [(4, ''ASK'')]"
  "labels (stage_05_wait ev mgr s) = labels s @ [(5, ''WAIT'')]"
  "labels (stage_06_retrieve ev mgr s) = labels s @ [(6, ''RETRIEVE'')]"
  "labels (stage_07_decide ev mgr s) = labels s @ [(7, ''DECIDE'')]"
  "labels (stage_08_update ev mgr s) = labels s @ [(8, ''UPDATE'')]"
  "labels (stage_09_create ev mgr s) = labels s @ [(9, ''CREATE'')]"
  "labels (stage_10_do ev mgr s) = labels s @ [(10, ''DO'')]"
  "labels (stage_11_complete ev mgr s) = labels s @ [(11, ''COMPLETE'')]"
  by (simp_all only: stage_defs run_stage_labels [OF body_oks(1)] run_stage_labels [OF body_oks(2)]
      run_stage_labels [OF body_oks(3)] run_stage_labels [OF body_oks(4)]
      run_stage_labels [OF body_oks(5)] run_stage_labels [OF body_oks(6)]
      run_stage_labels [OF body_oks(7)] run_stage_labels [OF body_oks(8)]
      run_stage_labels [OF body_oks(9)] run_stage_labels [OF body_oks(10)]
      run_stage_labels [OF body_oks(11)])

lemma stage_payload:
  "input_payload (stage_01_intake ev mgr s) = input_payload s"
  "input_payload (stage_02_understand ev mgr s) = input_payload s"
  "input_payload (stage_03_prepare ev mgr s) = input_payload s"
  "input_payload (stage_04_ask ev mgr s) = input_payload s"
  "input_payload (stage_05_wait ev mgr s) = input_payload s"
  "input_payload (stage_06_retrieve ev mgr s) = input_payload s"
  "input_payload (stage_07_decide ev mgr s) = input_payload s"
  by (simp_all only: stage_defs run_stage_payload [OF body_oks(1)] run_stage_payload [OF body_oks(2)]
      run_stage_payload [OF body_oks(3)] run_stage_payload [OF body_oks(4)]
      run_stage_payload [OF body_oks(5)] run_stage_payload [OF body_oks(6)]
      run_stage_payload [OF body_oks(7)])

lemma stage_status:
  "ticket_status (stage_01_intake ev mgr s) = ticket_status s"
  "ticket_status (stage_02_understand ev mgr s) = ticket_status s"
  "ticket_status (stage_03_prepare ev mgr s) = ticket_status s"
  "ticket_status (stage_04_ask ev mgr s) = ticket_status s"
  "ticket_status (stage_05_wait ev mgr s) = ticket_status s"
  "ticket_status (stage_06_retrieve ev mgr s) = ticket_status s"
  "ticket_status (stage_09_create ev mgr s) = ticket_status s"
  "ticket_status (stage_10_do ev mgr s) = ticket_status s"
  "ticket_status (stage_11_complete ev mgr s) = ticket_status s"
  by (simp_all only: stage_defs run_stage_status [OF body_oks(1)] run_stage_status [OF body_oks(2)]
      run_stage_status [OF body_oks(3)] run_stage_status [OF body_oks(4)]
      run_stage_status [OF body_oks(5)] run_stage_status [OF body_oks(6)]
      run_stage_status [OF body_oks(9)] run_stage_status [OF body_oks(10)]
      run_stage_status [OF body_oks(11)])

lemma labels_init: "labels (CustomerSupportState_init p) = []"
  by (simp add: labels_def CustomerSupportState_init_def)


lemma node_function_labels:
  "n \<noteq> END \<Longrightarrow> labels (node_function ev mgr n s) = labels s @ [(node_id n, node_name n)]"
  by (simp add: node_function_eq run_stage_labels [OF node_body_ok])

lemma node_function_payload:
  "n \<noteq> END \<Longrightarrow> input_payload (node_function ev mgr n s) = input_payload s"
  by (simp add: node_function_eq run_stage_payload [OF node_body_ok])

lemma node_function_status:
  "n \<noteq> END \<Longrightarrow> n \<noteq> decide \<Longrightarrow> n \<noteq> update \<Longrightarrow>
     ticket_status (node_function ev mgr n s) = ticket_status s"
  by (simp add: node_function_eq run_stage_status [OF node_body_keeps_status])

lemma node_step_eq_Inr:
  "node_step ev mgr n s = Inr s' \<longleftrightarrow>
     (\<exists>seen. CustomerSupportState_validate ev s = Inr seen \<and> s' = node_function ev mgr n seen)"
  by (cases "CustomerSupportState_validate ev s") (auto simp: node_step_def)

lemma node_step_facts:
  assumes "node_step ev mgr n s = Inr s'" and "n \<noteq> END"
  shows "labels s' = labels s @ [(node_id n, node_name n)]"
    and "input_payload s' = input_payload s"
    and "n \<noteq> decide \<Longrightarrow> n \<noteq> update \<Longrightarrow> ticket_status s' = ticket_status s"
proof -
  from assms(1) obtain seen where
    v: "CustomerSupportState_validate ev s = Inr seen" and s': "s' = node_function ev mgr n seen"
    by (auto simp: node_step_eq_Inr)
  show "labels s' = labels s @ [(node_id n, node_name n)]"
    by (simp add: s' node_function_labels [OF assms(2)] validate_labels [OF v])
  show "input_payload s' = input_payload s"
    by (simp add: s' node_function_payload [OF assms(2)] validate_kept [OF v])
  show "n \<noteq> decide \<Longrightarrow> n \<noteq> update \<Longrightarrow> ticket_status s' = ticket_status s"
    by (simp add: s' node_function_status [OF assms(2)] validate_kept [OF v])
qed

lemma validate_no_answer:
  assumes "CustomerSupportState_validate ev s = Inr seen" and "human_response s = JNull"
  shows "human_response seen = JNull"
  using validate_read(4) [OF assms(1)] assms(2)
  by (auto simp: validate_optional_str_def opt_str_json_def)

lemma node_step_no_answer:
  assumes "node_step ev mgr n s = Inr s'" and "n = intake \<or> n = understand \<or> n = prepare \<or> n = ask"
    and "human_response s = JNull"
  shows "human_response s' = JNull"
proof -
  from assms(1) obtain seen where
    v: "CustomerSupportState_validate ev s = Inr seen" and s': "s' = node_function ev mgr n seen"
    by (auto simp: node_step_eq_Inr)
  from validate_no_answer [OF v assms(3)] assms(2) show ?thesis
    by (auto simp: s' node_function_def early_stages_keep_answer)
qed

text \<open>The points of a run.\<close>

lemma after_ask:
  assumes "state_after_ask ev mgr p = Inr s4"
  shows "labels s4 = [(1, ''INTAKE''), (2, ''UNDERSTAND''), (3, ''PREPARE''), (4, ''ASK'')]"
    and "input_payload s4 = p" and "ticket_status s4 = PENDING" and "human_response s4 = JNull"
proof -
  let ?s0 = "CustomerSupportState_init p"
  from assms obtain s1 s2 s3 where
    1: "node_step ev mgr intake ?s0 = Inr s1" and 2: "node_step ev mgr understand s1 = Inr s2"
    and 3: "node_step ev mgr prepare s2 = Inr s3" and 4: "node_step ev mgr ask s3 = Inr s4"
    by (auto simp: state_after_ask_def on_return_eq_Inr)
  have 0: "labels ?s0 = []" "input_payload ?s0 = p" "ticket_status ?s0 = PENDING"
    "human_response ?s0 = JNull"
    by (simp_all add: labels_def CustomerSupportState_init_def)
  show "labels s4 = [(1, ''INTAKE''), (2, ''UNDERSTAND''), (3, ''PREPARE''), (4, ''ASK'')]"
    using node_step_facts(1) [OF 1] node_step_facts(1) [OF 2] node_step_facts(1) [OF 3]
      node_step_facts(1) [OF 4] 0(1)
    by (simp add: node_id_def node_name_def)
  show "input_payload s4 = p"
    using node_step_facts(2) [OF 1] node_step_facts(2) [OF 2] node_step_facts(2) [OF 3]
      node_step_facts(2) [OF 4] 0(2)
    by simp
  show "ticket_status s4 = PENDING"
    using node_step_facts(3) [OF 1] node_step_facts(3) [OF 2] node_step_facts(3) [OF 3]
      node_step_facts(3) [OF 4] 0(3)
    by simp
  have "human_response s1 = JNull" by (rule node_step_no_answer [OF 1]) (simp_all add: 0)
  then have "human_response s2 = JNull" by (intro node_step_no_answer [OF 2]) simp_all
  then have "human_response s3 = JNull" by (intro node_step_no_answer [OF 3]) simp_all
  then show "human_response s4 = JNull" by (intro node_step_no_answer [OF 4]) simp_all
qed

lemma before_decide:
  assumes "state_before_decide ev mgr p = Inr s6"
  obtains s4 seen4 where "state_after_ask ev mgr p = Inr s4"
    and "CustomerSupportState_validate ev s4 = Inr seen4"
    and "labels s6 = [(1, ''INTAKE''), (2, ''UNDERSTAND''), (3, ''PREPARE''), (4, ''ASK'')]
           @ (if should_wait seen4 = ''wait'' then [(5, ''WAIT'')] else [])
           @ [(6, ''RETRIEVE'')]"
    and "input_payload s6 = p" and "ticket_status s6 = PENDING"
proof -
  from assms obtain s4 seen4 s5 where
    4: "state_after_ask ev mgr p = Inr s4"
    and v: "CustomerSupportState_validate ev s4 = Inr seen4"
    and 5: "(if should_wait seen4 = ''wait'' then node_step ev mgr wait s4 else Inr s4) = Inr s5"
    and 6: "node_step ev mgr retrieve s5 = Inr s6"
    by (auto simp: state_before_decide_def on_return_eq_Inr)
  note a = after_ask [OF 4]
  have s5: "labels s5 = labels s4 @ (if should_wait seen4 = ''wait'' then [(5, ''WAIT'')] else [])
      \<and> input_payload s5 = p \<and> ticket_status s5 = PENDING"
  proof (cases "should_wait seen4 = ''wait''")
    case True
    with 5 have w: "node_step ev mgr wait s4 = Inr s5" by simp
    from node_step_facts [OF w] a True show ?thesis
      by (simp add: node_id_def node_name_def)
  next
    case False
    with 5 a show ?thesis by simp
  qed
  from node_step_facts [OF 6] s5 a(1)
  have "labels s6 = [(1, ''INTAKE''), (2, ''UNDERSTAND''), (3, ''PREPARE''), (4, ''ASK'')]
           @ (if should_wait seen4 = ''wait'' then [(5, ''WAIT'')] else [])
           @ [(6, ''RETRIEVE'')]"
    and "input_payload s6 = p" and "ticket_status s6 = PENDING"
    by (simp_all add: node_id_def node_name_def)
  with 4 v show thesis by (rule that)
qed

lemma after_decide:
  assumes "state_after_decide ev mgr p = Inr s7"
  obtains s4 seen4 seen6 where "state_after_ask ev mgr p = Inr s4"
    and "CustomerSupportState_validate ev s4 = Inr seen4"
    and "s7 = stage_07_decide ev mgr seen6"
    and "input_payload seen6 = p" and "ticket_status seen6 = PENDING"
    and "labels s7 = [(1, ''INTAKE''), (2, ''UNDERSTAND''), (3, ''PREPARE''), (4, ''ASK'')]
           @ (if should_wait seen4 = ''wait'' then [(5, ''WAIT'')] else [])
           @ [(6, ''RETRIEVE''), (7, ''DECIDE'')]"
    and "input_payload s7 = p"
proof -
  from assms obtain s6 where 6: "state_before_decide ev mgr p = Inr s6"
    and 7: "node_step ev mgr decide s6 = Inr s7"
    by (auto simp: state_after_decide_def on_return_eq_Inr)
  from 7 obtain seen6 where v6: "CustomerSupportState_validate ev s6 = Inr seen6"
    and s7: "s7 = stage_07_decide ev mgr seen6"
    by (auto simp: node_step_eq_Inr node_function_def)
  from 6 obtain s4 seen4 where 4: "state_after_ask ev mgr p = Inr s4"
    and v4: "CustomerSupportState_validate ev s4 = Inr seen4"
    and l6: "labels s6 = [(1, ''INTAKE''), (2, ''UNDERSTAND''), (3, ''PREPARE''), (4, ''ASK'')]
           @ (if should_wait seen4 = ''wait'' then [(5, ''WAIT'')] else [])
           @ [(6, ''RETRIEVE'')]"
    and p6: "input_payload s6 = p" and t6: "ticket_status s6 = PENDING"
    by (rule before_decide)
  from node_step_facts(1,2) [OF 7] l6 p6
  have "labels s7 = [(1, ''INTAKE''), (2, ''UNDERSTAND''), (3, ''PREPARE''), (4, ''ASK'')]
           @ (if should_wait seen4 = ''wait'' then [(5, ''WAIT'')] else [])
           @ [(6, ''RETRIEVE''), (7, ''DECIDE'')]"
    and "input_payload s7 = p"
    by (simp_all add: node_id_def node_name_def)
  moreover have "input_payload seen6 = p" "ticket_status seen6 = PENDING"
    by (simp_all add: validate_kept [OF v6] p6 t6)
  ultimately show thesis using 4 v4 s7 by (intro that)
qed

text \<open>From UPDATE to the end of the graph.\<close>

lemma from_update:
  assumes "run_from ev mgr update s = Inr f"
  obtains seen seen10 where "CustomerSupportState_validate ev s = Inr seen"
    and "labels f = labels s @ [(8, ''UPDATE''), (9, ''CREATE''), (10, ''DO''), (11, ''COMPLETE'')]"
    and "ticket_status f = ticket_status (stage_08_update ev mgr seen)"
    and "f = stage_11_complete ev mgr seen10" and "output_fields_valid ev seen10"
proof -
  from assms obtain s8 s9 s10 where
    8: "node_step ev mgr update s = Inr s8" and 9: "node_step ev mgr create s8 = Inr s9"
    and 10: "node_step ev mgr do s9 = Inr s10" and 11: "node_step ev mgr complete s10 = Inr f"
    by (auto simp: run_from_update run_from_create on_return_eq_Inr)
  from 8 obtain seen where v: "CustomerSupportState_validate ev s = Inr seen"
    and s8: "s8 = stage_08_update ev mgr seen"
    by (auto simp: node_step_eq_Inr node_function_def)
  from 11 obtain seen10 where v10: "CustomerSupportState_validate ev s10 = Inr seen10"
    and f: "f = stage_11_complete ev mgr seen10"
    by (auto simp: node_step_eq_Inr node_function_def)
  have "labels f = labels s @ [(8, ''UPDATE''), (9, ''CREATE''), (10, ''DO''), (11, ''COMPLETE'')]"
    using node_step_facts(1) [OF 8] node_step_facts(1) [OF 9] node_step_facts(1) [OF 10]
      node_step_facts(1) [OF 11]
    by (simp add: node_id_def node_name_def)
  moreover have "ticket_status f = ticket_status (stage_08_update ev mgr seen)"
    using node_step_facts(3) [OF 9] node_step_facts(3) [OF 10] node_step_facts(3) [OF 11]
    by (simp add: s8)
  ultimately show thesis
    using v f validate_output_fields(2) [OF v10] by (intro that)
qed

text \<open>The two ways in which a run ends.\<close>

lemma final_cases:
  assumes "final_state ev mgr p = Inr f"
  obtains s7 seen7 where "state_after_decide ev mgr p = Inr s7"
    and "CustomerSupportState_validate ev s7 = Inr seen7"
    and "(truthy (escalation_needed seen7) \<and> f = s7)
         \<or> (\<not> truthy (escalation_needed seen7) \<and> run_from ev mgr update s7 = Inr f)"
proof -
  from assms obtain s7 seen7 where 7: "state_after_decide ev mgr p = Inr s7"
    and v: "CustomerSupportState_validate ev s7 = Inr seen7"
    and f: "(if truthy (escalation_needed seen7) then Inr s7 else run_from ev mgr update s7) = Inr f"
    by (auto simp: final_state_eq on_return_eq_Inr)
  from f have "(truthy (escalation_needed seen7) \<and> f = s7)
         \<or> (\<not> truthy (escalation_needed seen7) \<and> run_from ev mgr update s7 = Inr f)"
    by (auto split: if_splits)
  with 7 v show thesis by (rule that)
qed

lemma final_labels:
  assumes "final_state ev mgr p = Inr f"
  obtains s4 seen4 s7 seen7 where "state_after_ask ev mgr p = Inr s4"
    and "CustomerSupportState_validate ev s4 = Inr seen4"
    and "state_after_decide ev mgr p = Inr s7"
    and "CustomerSupportState_validate ev s7 = Inr seen7"
    and "labels f = [(1, ''INTAKE''), (2, ''UNDERSTAND''), (3, ''PREPARE''), (4, ''ASK'')]
           @ (if should_wait seen4 = ''wait'' then [(5, ''WAIT'')] else [])
           @ [(6, ''RETRIEVE''), (7, ''DECIDE'')]
           @ (if truthy (escalation_needed seen7) then []
              else [(8, ''UPDATE''), (9, ''CREATE''), (10, ''DO''), (11, ''COMPLETE'')])"
    and "output_fields_valid ev f"
proof -
  from assms obtain s7 seen7 where 7: "state_after_decide ev mgr p = Inr s7"
    and v7: "CustomerSupportState_validate ev s7 = Inr seen7"
    and f: "(truthy (escalation_needed seen7) \<and> f = s7)
         \<or> (\<not> truthy (escalation_needed seen7) \<and> run_from ev mgr update s7 = Inr f)"
    by (rule final_cases)
  from 7 obtain s4 seen4 where 4: "state_after_ask ev mgr p = Inr s4"
    and v4: "CustomerSupportState_validate ev s4 = Inr seen4"
    and l7: "labels s7 = [(1, ''INTAKE''), (2, ''UNDERSTAND''), (3, ''PREPARE''), (4, ''ASK'')]
           @ (if should_wait seen4 = ''wait'' then [(5, ''WAIT'')] else [])
           @ [(6, ''RETRIEVE''), (7, ''DECIDE'')]"
    by (rule after_decide)
  from f have "labels f = labels s7
           @ (if truthy (escalation_needed seen7) then []
              else [(8, ''UPDATE''), (9, ''CREATE''), (10, ''DO''), (11, ''COMPLETE'')])
        \<and> output_fields_valid ev f"
  proof
    assume "truthy (escalation_needed seen7) \<and> f = s7"
    then show ?thesis using validate_output_fields(1) [OF v7] by simp
  next
    assume a: "\<not> truthy (escalation_needed seen7) \<and> run_from ev mgr update s7 = Inr f"
    then have "run_from ev mgr update s7 = Inr f" by simp
    then obtain seen10 where
      "labels f = labels s7 @ [(8, ''UPDATE''), (9, ''CREATE''), (10, ''DO''), (11, ''COMPLETE'')]"
      and "f = stage_11_complete ev mgr seen10" and "output_fields_valid ev seen10"
      by (rule from_update)
    with a show ?thesis by (simp add: complete_keeps_output)
  qed
  with l7 have "labels f = [(1, ''INTAKE''), (2, ''UNDERSTAND''), (3, ''PREPARE''), (4, ''ASK'')]
           @ (if should_wait seen4 = ''wait'' then [(5, ''WAIT'')] else [])
           @ [(6, ''RETRIEVE''), (7, ''DECIDE'')]
           @ (if truthy (escalation_needed seen7) then []
              else [(8, ''UPDATE''), (9, ''CREATE''), (10, ''DO''), (11, ''COMPLETE'')])"
    and "output_fields_valid ev f"
    by simp_all
  with 4 v4 7 v7 show thesis by (rule that)
qed

text \<open>A run of the graph that returns gives an output record.\<close>

lemma process_ticket_eq:
  "fst (process_ticket ev mgr p) =
     on_return (final_state ev mgr p) (\<lambda>f.
       OutputPayload_init ev (ticket_id p) (ticket_status f) (generated_response f)
         (confidence_score f) (escalation_reason f) (stage_logs f) f)"
  by (simp add: process_ticket_def final_state_def on_return_def Let_def)


lemma process_ticket_raises:
  "final_state ev mgr p = Inl e \<Longrightarrow> fst (process_ticket ev mgr p) = Inl e"
  by (simp add: process_ticket_eq)

lemma process_ticket_output:
  assumes "final_state ev mgr p = Inr f"
  obtains out where "fst (process_ticket ev mgr p) = Inr out"
    and "out_stage_logs out = stage_logs f" and "out_status out = ticket_status f"
    and "final_payload out = f"
    and "validate_optional_str ev (escalation_reason f) = Some (out_escalation_reason out)"
proof -
  from assms have "output_fields_valid ev f" by (rule final_labels)
  then obtain r c e where "validate_optional_str ev (generated_response f) = Some r"
    "validate_float ev (confidence_score f) = Some c"
    "validate_optional_str ev (escalation_reason f) = Some e"
    by (auto simp: output_fields_valid_def)
  with assms show thesis
    by (intro that [of "\<lparr>out_ticket_id = ticket_id p, out_status = ticket_status f, response = r,
               out_confidence_score = c, out_escalation_reason = e,
               out_stage_logs = stage_logs f, final_payload = f,
               agent_name = ''Langie'', agent_version = ''1.0.0''\<rparr>"])
       (simp_all add: process_ticket_eq OutputPayload_init_def)
qed

lemma and_then_None:
  assumes "and_then r f = (s', None)"
  obtains x where "r = (x, None)" and "f x = (s', None)"
  using assms by (cases r; cases "snd r") (auto simp: and_then_def)

lemma py_ge_not_lt: "py_ge v n = Inr True \<Longrightarrow> py_lt v n = Inr False"
  by (auto simp: py_ge_def py_lt_def split: option.splits)

lemma escalation_rule_None:
  assumes "escalation_rule ev st = (s', None)"
  shows "confidence_score s' = confidence_score st"
    and "py_lt (confidence_score st) 90 = Inr True \<Longrightarrow>
           s' = st\<lparr>escalation_needed := JBool True,
                   escalation_reason := JStr (''Low confidence score: '' @ format_score ev (confidence_score st)),
                   ticket_status := ESCALATED\<rparr>"
    and "py_lt (confidence_score st) 90 = Inr False \<Longrightarrow> s' = st"
  using assms by (auto simp: escalation_rule_def split: sum.splits if_splits)

lemma escalation_rule_any:
  assumes "escalation_rule ev st = (s', r)"
  shows "confidence_score s' = confidence_score st"
    and "ticket_status s' = ticket_status st \<or> py_lt (confidence_score st) 90 = Inr True"
  using assms by (auto simp: escalation_rule_def split: sum.splits if_splits)

lemma decide_solutions_fields:
  "ticket_status (fst (decide_solutions results st)) = ticket_status st"
  by (simp add: decide_solutions_def Let_def split: option.splits sum.splits)

lemma decide_escalation_fields:
  "ticket_status (fst (decide_escalation results st)) = ticket_status st"
  "confidence_score (fst (decide_escalation results st)) = confidence_score st"
  by (simp_all add: decide_escalation_def Let_def split: option.splits sum.splits)

lemma decide_escalation_None:
  assumes "decide_escalation results st = (s', None)"
    and "map_of results ''escalation_decision'' = Some (Some d)"
  shows "s' = st\<lparr>escalation_needed := dict_get d ''escalate'' (JBool False),
                 escalation_reason := dict_get d ''reason'' (JStr [])\<rparr>"
  using assms by (auto simp: decide_escalation_def opt_get_def Let_def)

text \<open>When the rule does not fire, or DECIDE raises, the status is as it was.\<close>

lemma decide_apply_status:
  assumes "decide_apply ev results st = (s', r)"
  shows "ticket_status s' = ticket_status st \<or> py_lt (confidence_score s') 90 = Inr True"
proof -
  let ?a = "and_then (decide_solutions results st) (decide_escalation results)"
  obtain st2 r2 where a: "?a = (st2, r2)" by (cases ?a)
  have st2: "ticket_status st2 = ticket_status st"
  proof (cases "decide_solutions results st")
    case (Pair x err)
    have x: "ticket_status x = ticket_status st"
      using decide_solutions_fields [of results st] Pair by simp
    show ?thesis
      using a Pair x decide_escalation_fields(1) [of results x]
      by (cases err) (auto simp: and_then_def)
  qed
  show ?thesis
  proof (cases r2)
    case None
    with assms a have "escalation_rule ev st2 = (s', r)"
      by (simp add: decide_apply_def and_then_def)
    from escalation_rule_any [OF this] st2 show ?thesis by auto
  next
    case (Some e)
    with assms a have "s' = st2" by (simp add: decide_apply_def and_then_def)
    with st2 show ?thesis by simp
  qed
qed

lemma decide_body_cases:
  assumes "decide_body ev mgr st lg = (s', lg', r)"
  shows "(s' = st \<and> r \<noteq> None) \<or>
         decide_apply ev (fst (execute_abilities ev mgr st lg
            [(''solution_evaluation'', ''COMMON''), (''escalation_decision'', ''ATLAS''),
             (''update_payload'', ''internal'')])) st = (s', r)"
  using assms
  by (auto simp: decide_body_def case_prod_unfold Let_def split: sum.splits)

lemma stage_07_decide_eq:
  obtains s' lg' r where
    "decide_body ev mgr (snd (log_stage_start s ''DECIDE'' 7 NON_DETERMINISTIC))
       (fst (log_stage_start s ''DECIDE'' 7 NON_DETERMINISTIC)) = (s', lg', r)"
    and "stage_07_decide ev mgr s =
           s'\<lparr>stage_logs := stage_logs s @
                [lg'\<lparr>ended := True, success := (r = None),
                     log_error := (case r of None \<Rightarrow> None
                                   | Some e \<Rightarrow> if exn_msg e \<noteq> [] then Some (exn_msg e) else None)\<rparr>]\<rparr>"
proof -
  let ?B = "decide_body ev mgr (snd (log_stage_start s ''DECIDE'' 7 NON_DETERMINISTIC))
       (fst (log_stage_start s ''DECIDE'' 7 NON_DETERMINISTIC))"
  obtain s' lg' r where eq: "?B = (s', lg', r)" by (cases ?B)
  from run_stage_eq [OF decide_body_ok eq] eq that show thesis
    by (simp add: stage_07_decide_def)
qed

lemma log_stage_start_fields:
  "ticket_status (snd (log_stage_start s name sid m)) = ticket_status s"
  "input_payload (snd (log_stage_start s name sid m)) = input_payload s"
  "confidence_score (snd (log_stage_start s name sid m)) = confidence_score s"
  "escalation_needed (snd (log_stage_start s name sid m)) = escalation_needed s"
  by (simp_all add: log_stage_start_def Let_def)

text \<open>The status after DECIDE: as before, unless the score is below the threshold.\<close>

lemma stage_07_status:
  "ticket_status (stage_07_decide ev mgr s) = ticket_status s
   \<or> py_lt (confidence_score (stage_07_decide ev mgr s)) 90 = Inr True"
proof -
  obtain s' lg' r where
    b: "decide_body ev mgr (snd (log_stage_start s ''DECIDE'' 7 NON_DETERMINISTIC))
       (fst (log_stage_start s ''DECIDE'' 7 NON_DETERMINISTIC)) = (s', lg', r)"
    and eq: "stage_07_decide ev mgr s =
           s'\<lparr>stage_logs := stage_logs s @
                [lg'\<lparr>ended := True, success := (r = None),
                     log_error := (case r of None \<Rightarrow> None
                                   | Some e \<Rightarrow> if exn_msg e \<noteq> [] then Some (exn_msg e) else None)\<rparr>]\<rparr>"
    by (rule stage_07_decide_eq)
  from decide_body_cases [OF b]
  have "ticket_status s' = ticket_status (snd (log_stage_start s ''DECIDE'' 7 NON_DETERMINISTIC))
        \<or> py_lt (confidence_score s') 90 = Inr True"
  proof
    assume "s' = snd (log_stage_start s ''DECIDE'' 7 NON_DETERMINISTIC) \<and> r \<noteq> None"
    then show ?thesis by simp
  next
    assume "decide_apply ev (fst (execute_abilities ev mgr
        (snd (log_stage_start s ''DECIDE'' 7 NON_DETERMINISTIC))
        (fst (log_stage_start s ''DECIDE'' 7 NON_DETERMINISTIC))
        [(''solution_evaluation'', ''COMMON''), (''escalation_decision'', ''ATLAS''),
         (''update_payload'', ''internal'')]))
      (snd (log_stage_start s ''DECIDE'' 7 NON_DETERMINISTIC)) = (s', r)"
    then show ?thesis by (rule decide_apply_status)
  qed
  then show ?thesis by (simp add: eq log_stage_start_fields)
qed












section \<open>Abilities and the stage log\<close>

text \<open>
  C9. The executions that a stage appends to its log are those of its abilities on a
  server other than \<open>internal\<close>, in the declared order; internal abilities leave the log
  as it is, so a stage whose abilities are all internal ends with the log it started
  with, and the log of COMPLETE has no executions.
\<close>

theorem internal_abilities_not_logged:
  "abilities_executed (snd (execute_abilities ev mgr state stage_log abilities)) =
     abilities_executed stage_log @
       map (\<lambda>(name, server). MCPManager_execute_ability (provider ev) mgr server name (input_payload state))
         (filter (\<lambda>(name, server). server \<noteq> ''internal'') abilities)
   \<and> ((\<forall>a \<in> set abilities. snd a = ''internal'') \<longrightarrow>
        snd (execute_abilities ev mgr state stage_log abilities) = stage_log)
   \<and> abilities_executed (last (stage_logs (stage_11_complete ev mgr state))) = []"
proof (intro conjI impI)
  show "abilities_executed (snd (execute_abilities ev mgr state stage_log abilities)) =
     abilities_executed stage_log @
       map (\<lambda>(name, server). MCPManager_execute_ability (provider ev) mgr server name (input_payload state))
         (filter (\<lambda>(name, server). server \<noteq> ''internal'') abilities)"
    by (simp add: execute_abilities_log)
next
  assume "\<forall>a \<in> set abilities. snd a = ''internal''"
  then have "filter (\<lambda>(name, server). server \<noteq> ''internal'') abilities = []"
    by (auto simp: filter_empty_conv)
  then show "snd (execute_abilities ev mgr state stage_log abilities) = stage_log"
    by (simp add: execute_abilities_log)
next
  let ?lg0 = "fst (log_stage_start state ''COMPLETE'' 11 OUTPUT_ONLY)"
  let ?s0 = "snd (log_stage_start state ''COMPLETE'' 11 OUTPUT_ONLY)"
  obtain s' lg' r where eq: "complete_body ev mgr ?s0 ?lg0 = (s', lg', r)"
    by (cases "complete_body ev mgr ?s0 ?lg0")
  then have "lg' = snd (execute_abilities ev mgr ?s0 ?lg0 [(''output_payload'', ''internal'')])"
    by (auto simp: complete_body_def case_prod_unfold Let_def)
  then have "abilities_executed lg' = []"
    by (simp add: execute_abilities_log log_stage_start_def Let_def)
  then show "abilities_executed (last (stage_logs (stage_11_complete ev mgr state))) = []"
    by (simp add: stage_11_complete_def run_stage_eq [OF complete_body_ok eq])
qed

theorem internal_abilities_not_logged_witness:
  "map ability_name (abilities_executed (snd (execute_abilities canned_env sample_manager
       (CustomerSupportState_init sample_input)
       \<lparr>stage_name = ''WAIT'', stage_id = 5, mode = DETERMINISTIC, abilities_executed = [],
        ended = False, success = True, log_error = None\<rparr>
       [(''extract_answer'', ''ATLAS''), (''store_answer'', ''internal'')]))) = [''extract_answer'']
   \<and> snd (execute_abilities canned_env sample_manager (CustomerSupportState_init sample_input)
       \<lparr>stage_name = ''INTAKE'', stage_id = 1, mode = ENTRY_ONLY, abilities_executed = [],
        ended = False, success = True, log_error = None\<rparr>
       [(''accept_payload'', ''internal'')]) =
       \<lparr>stage_name = ''INTAKE'', stage_id = 1, mode = ENTRY_ONLY, abilities_executed = [],
        ended = False, success = True, log_error = None\<rparr>
   \<and> abilities_executed (last (stage_logs (stage_11_complete canned_env sample_manager
         (CustomerSupportState_init sample_input)))) = []"
  using internal_abilities_not_logged [of canned_env sample_manager
      "CustomerSupportState_init sample_input"
      "\<lparr>stage_name = ''WAIT'', stage_id = 5, mode = DETERMINISTIC, abilities_executed = [],
        ended = False, success = True, log_error = None\<rparr>"
      "[(''extract_answer'', ''ATLAS''), (''store_answer'', ''internal'')]"]
    internal_abilities_not_logged [of canned_env sample_manager
      "CustomerSupportState_init sample_input"
      "\<lparr>stage_name = ''INTAKE'', stage_id = 1, mode = ENTRY_ONLY, abilities_executed = [],
        ended = False, success = True, log_error = None\<rparr>"
      "[(''accept_payload'', ''internal'')]"]
  by (simp add: MCPManager_execute_ability_def MCPClient_execute_ability_def sample_manager_def
      MCPManager_init_def MCPClient_init_def split: sum.splits)

section \<open>The escalation rule\<close>

lemma stage_07_success:
  assumes "success (last (stage_logs (stage_07_decide ev mgr s)))"
  obtains st2 where
    "escalation_rule ev st2 = (stage_07_decide ev mgr s\<lparr>stage_logs := stage_logs st2\<rparr>, None)"
proof -
  obtain s' lg' r where
    b: "decide_body ev mgr (snd (log_stage_start s ''DECIDE'' 7 NON_DETERMINISTIC))
       (fst (log_stage_start s ''DECIDE'' 7 NON_DETERMINISTIC)) = (s', lg', r)"
    and eq: "stage_07_decide ev mgr s =
           s'\<lparr>stage_logs := stage_logs s @
                [lg'\<lparr>ended := True, success := (r = None),
                     log_error := (case r of None \<Rightarrow> None
                                   | Some e \<Rightarrow> if exn_msg e \<noteq> [] then Some (exn_msg e) else None)\<rparr>]\<rparr>"
    by (rule stage_07_decide_eq)
  from assms eq have r: "r = None" by simp
  with decide_body_cases [OF b] obtain results where
    "decide_apply ev results (snd (log_stage_start s ''DECIDE'' 7 NON_DETERMINISTIC)) = (s', None)"
    by auto
  then obtain st2 where st2: "escalation_rule ev st2 = (s', None)"
    unfolding decide_apply_def by (rule and_then_None)
  from escalation_rule_ok [of ev] have "stage_logs (fst (escalation_rule ev st2)) = stage_logs st2"
    by (simp add: stmt_ok_def)
  with st2 have "stage_logs s' = stage_logs st2" by simp
  with st2 eq have "escalation_rule ev st2 = (stage_07_decide ev mgr s\<lparr>stage_logs := stage_logs st2\<rparr>, None)"
    by simp
  then show thesis by (rule that)
qed

lemma stage_08_update_resolves:
  assumes "py_ge (confidence_score s) 90 = Inr True" and "\<not> truthy (escalation_needed s)"
  shows "ticket_status (stage_08_update ev mgr s) = RESOLVED"
proof -
  let ?lg0 = "fst (log_stage_start s ''UPDATE'' 8 DETERMINISTIC)"
  let ?s0 = "snd (log_stage_start s ''UPDATE'' 8 DETERMINISTIC)"
  obtain s' lg' r where eq: "update_body ev mgr ?s0 ?lg0 = (s', lg', r)"
    by (cases "update_body ev mgr ?s0 ?lg0")
  from assms have "update_apply ?s0 = (?s0\<lparr>ticket_status := RESOLVED\<rparr>, None)"
    by (simp add: update_apply_def log_stage_start_fields)
  with eq have "s' = ?s0\<lparr>ticket_status := RESOLVED\<rparr>"
    by (auto simp: update_body_def case_prod_unfold Let_def)
  then show ?thesis
    by (simp add: stage_08_update_def run_stage_eq [OF update_body_ok eq])
qed

lemma decide_results:
  "map_of (fst (execute_abilities ev (MCPManager_init a c) st lg
      [(''solution_evaluation'', ''COMMON''), (''escalation_decision'', ''ATLAS''),
       (''update_payload'', ''internal'')])) ''escalation_decision'' =
     Some (case provider ev ''ATLAS'' ''escalation_decision'' (input_payload st) of
             Inl e \<Rightarrow> None | Inr d \<Rightarrow> Some d)"
  by (simp add: execute_abilities_def MCPManager_execute_ability_def MCPClient_execute_ability_def
      MCPManager_init_def MCPClient_init_def Let_def split: sum.splits)

text \<open>When DECIDE changes the status, it has set the escalation flag.\<close>

lemma escalation_rule_flag:
  assumes "escalation_rule ev st = (s', r)"
  shows "ticket_status s' = ticket_status st \<or> escalation_needed s' = JBool True"
  using assms by (auto simp: escalation_rule_def split: sum.splits if_splits)

lemma decide_apply_flag:
  assumes "decide_apply ev results st = (s', r)"
  shows "ticket_status s' = ticket_status st \<or> escalation_needed s' = JBool True"
proof -
  let ?a = "and_then (decide_solutions results st) (decide_escalation results)"
  obtain st2 r2 where a: "?a = (st2, r2)" by (cases ?a)
  have st2: "ticket_status st2 = ticket_status st"
  proof (cases "decide_solutions results st")
    case (Pair x err)
    have x: "ticket_status x = ticket_status st"
      using decide_solutions_fields [of results st] Pair by simp
    show ?thesis
      using a Pair x decide_escalation_fields(1) [of results x]
      by (cases err) (auto simp: and_then_def)
  qed
  show ?thesis
  proof (cases r2)
    case None
    with assms a have "escalation_rule ev st2 = (s', r)"
      by (simp add: decide_apply_def and_then_def)
    from escalation_rule_flag [OF this] st2 show ?thesis by auto
  next
    case (Some e)
    with assms a have "s' = st2" by (simp add: decide_apply_def and_then_def)
    with st2 show ?thesis by simp
  qed
qed

lemma stage_07_flag:
  "ticket_status (stage_07_decide ev mgr s) = ticket_status s
   \<or> escalation_needed (stage_07_decide ev mgr s) = JBool True"
proof -
  obtain s' lg' r where
    b: "decide_body ev mgr (snd (log_stage_start s ''DECIDE'' 7 NON_DETERMINISTIC))
       (fst (log_stage_start s ''DECIDE'' 7 NON_DETERMINISTIC)) = (s', lg', r)"
    and eq: "stage_07_decide ev mgr s =
           s'\<lparr>stage_logs := stage_logs s @
                [lg'\<lparr>ended := True, success := (r = None),
                     log_error := (case r of None \<Rightarrow> None
                                   | Some e \<Rightarrow> if exn_msg e \<noteq> [] then Some (exn_msg e) else None)\<rparr>]\<rparr>"
    by (rule stage_07_decide_eq)
  from decide_body_cases [OF b]
  have "ticket_status s' = ticket_status (snd (log_stage_start s ''DECIDE'' 7 NON_DETERMINISTIC))
        \<or> escalation_needed s' = JBool True"
  proof
    assume "s' = snd (log_stage_start s ''DECIDE'' 7 NON_DETERMINISTIC) \<and> r \<noteq> None"
    then show ?thesis by simp
  next
    assume "decide_apply ev (fst (execute_abilities ev mgr
        (snd (log_stage_start s ''DECIDE'' 7 NON_DETERMINISTIC))
        (fst (log_stage_start s ''DECIDE'' 7 NON_DETERMINISTIC))
        [(''solution_evaluation'', ''COMMON''), (''escalation_decision'', ''ATLAS''),
         (''update_payload'', ''internal'')]))
      (snd (log_stage_start s ''DECIDE'' 7 NON_DETERMINISTIC)) = (s', r)"
    then show ?thesis by (rule decide_apply_flag)
  qed
  then show ?thesis by (simp add: eq log_stage_start_fields)
qed

text \<open>
  Where DECIDE ends without raising, the rule has run: a score below 90 has set the
  flag, the reason and the status.
\<close>

lemma decide_rule_when_reached:
  assumes "success (last (stage_logs (stage_07_decide ev mgr s)))"
    and "py_lt (confidence_score (stage_07_decide ev mgr s)) 90 = Inr True"
  shows "escalation_needed (stage_07_decide ev mgr s) = JBool True"
    and "escalation_reason (stage_07_decide ev mgr s) =
           JStr (''Low confidence score: ''
                 @ format_score ev (confidence_score (stage_07_decide ev mgr s)))"
    and "ticket_status (stage_07_decide ev mgr s) = ESCALATED"
proof -
  let ?s7 = "stage_07_decide ev mgr s"
  from assms(1) obtain st2 where
    rule: "escalation_rule ev st2 = (?s7\<lparr>stage_logs := stage_logs st2\<rparr>, None)"
    by (rule stage_07_success)
  from escalation_rule_None(1) [OF rule] have c: "confidence_score st2 = confidence_score ?s7"
    by simp
  with assms(2) have "py_lt (confidence_score st2) 90 = Inr True" by simp
  from escalation_rule_None(2) [OF rule this]
  have eq: "?s7\<lparr>stage_logs := stage_logs st2\<rparr> =
      st2\<lparr>escalation_needed := JBool True,
          escalation_reason := JStr (''Low confidence score: '' @ format_score ev (confidence_score st2)),
          ticket_status := ESCALATED\<rparr>" .
  have "escalation_needed ?s7 = escalation_needed (?s7\<lparr>stage_logs := stage_logs st2\<rparr>)"
    "escalation_reason ?s7 = escalation_reason (?s7\<lparr>stage_logs := stage_logs st2\<rparr>)"
    "ticket_status ?s7 = ticket_status (?s7\<lparr>stage_logs := stage_logs st2\<rparr>)"
    by simp_all
  then show "escalation_needed ?s7 = JBool True"
    "escalation_reason ?s7 = JStr (''Low confidence score: '' @ format_score ev (confidence_score ?s7))"
    "ticket_status ?s7 = ESCALATED"
    unfolding eq by (simp_all add: c)
qed

text \<open>
  The run in which the provider of \<open>solution_evaluation\<close> reports the best score 40 and
  the provider of \<open>escalation_decision\<close> times out.
\<close>

lemma flaky_after_decide:
  "state_summary (state_after_decide flaky_escalation_env sample_manager sample_input) =
     Inr ([(1, ''INTAKE''), (2, ''UNDERSTAND''), (3, ''PREPARE''), (4, ''ASK''), (6, ''RETRIEVE''),
           (7, ''DECIDE'')],
          [True, True, True, True, True, False], PENDING, JInt 40, JBool False, JNull, False)"
  by code_simp

lemma flaky_run:
  "state_summary (final_state flaky_escalation_env sample_manager sample_input) =
     Inr ([(1, ''INTAKE''), (2, ''UNDERSTAND''), (3, ''PREPARE''), (4, ''ASK''), (6, ''RETRIEVE''),
           (7, ''DECIDE''), (8, ''UPDATE''), (9, ''CREATE''), (10, ''DO''), (11, ''COMPLETE'')],
          [True, True, True, True, True, False, True, True, True, True], PENDING, JFloat 40,
          JBool False, JNull, True)"
  by code_simp

lemma flaky_output:
  "output_summary (fst (process_ticket flaky_escalation_env sample_manager sample_input)) =
     Some ([''INTAKE'', ''UNDERSTAND'', ''PREPARE'', ''ASK'', ''RETRIEVE'', ''DECIDE'', ''UPDATE'',
            ''CREATE'', ''DO'', ''COMPLETE''],
           PENDING, None, True)"
  by code_simp

text \<open>
  C1. The claim is right and DECIDE is not. The rule is the last statement of the
  \<^verbatim>\<open>try\<close> block of DECIDE, after the lines that read the result of \<open>escalation_decision\<close>;
  when that provider fails its result is \<^verbatim>\<open>None\<close>, the read raises, and the rule is
  skipped. In this run the best score is 40 and the provider times out: DECIDE is logged
  as failed, after DECIDE the score is 40 with no escalation, no reason and the status
  pending, the run goes on through UPDATE, CREATE, DO and COMPLETE, and the output says
  that the ticket is pending, without an escalation reason.
\<close>

theorem low_confidence_without_escalation:
  "(case state_after_decide flaky_escalation_env sample_manager sample_input of
      Inl e \<Rightarrow> False
    | Inr s7 \<Rightarrow>
        py_lt (confidence_score s7) 90 = Inr True
        \<and> confidence_score s7 = JInt 40
        \<and> escalation_needed s7 = JBool False
        \<and> escalation_reason s7 = JNull
        \<and> ticket_status s7 = PENDING
        \<and> map success (stage_logs s7) = [True, True, True, True, True, False])
   \<and> (case final_state flaky_escalation_env sample_manager sample_input of
         Inl e \<Rightarrow> False
       | Inr f \<Rightarrow>
           labels f =
             [(1, ''INTAKE''), (2, ''UNDERSTAND''), (3, ''PREPARE''), (4, ''ASK''),
              (6, ''RETRIEVE''), (7, ''DECIDE''), (8, ''UPDATE''), (9, ''CREATE''), (10, ''DO''),
              (11, ''COMPLETE'')]
           \<and> escalation_needed f = JBool False
           \<and> ticket_status f = PENDING)
   \<and> (case fst (process_ticket flaky_escalation_env sample_manager sample_input) of
         Inl e \<Rightarrow> False
       | Inr out \<Rightarrow> out_status out = PENDING \<and> out_escalation_reason out = None)"
proof -
  have "case state_after_decide flaky_escalation_env sample_manager sample_input of
      Inl e \<Rightarrow> False
    | Inr s7 \<Rightarrow>
        py_lt (confidence_score s7) 90 = Inr True
        \<and> confidence_score s7 = JInt 40
        \<and> escalation_needed s7 = JBool False
        \<and> escalation_reason s7 = JNull
        \<and> ticket_status s7 = PENDING
        \<and> map success (stage_logs s7) = [True, True, True, True, True, False]"
    using flaky_after_decide
    by (cases "state_after_decide flaky_escalation_env sample_manager sample_input")
       (simp_all add: py_lt_def num_value_def)
  moreover have "case final_state flaky_escalation_env sample_manager sample_input of
         Inl e \<Rightarrow> False
       | Inr f \<Rightarrow>
           labels f =
             [(1, ''INTAKE''), (2, ''UNDERSTAND''), (3, ''PREPARE''), (4, ''ASK''),
              (6, ''RETRIEVE''), (7, ''DECIDE''), (8, ''UPDATE''), (9, ''CREATE''), (10, ''DO''),
              (11, ''COMPLETE'')]
           \<and> escalation_needed f = JBool False
           \<and> ticket_status f = PENDING"
    using flaky_run
    by (cases "final_state flaky_escalation_env sample_manager sample_input") simp_all
  moreover have "case fst (process_ticket flaky_escalation_env sample_manager sample_input) of
         Inl e \<Rightarrow> False
       | Inr out \<Rightarrow> out_status out = PENDING \<and> out_escalation_reason out = None"
    using flaky_output
    by (cases "fst (process_ticket flaky_escalation_env sample_manager sample_input)") simp_all
  ultimately show ?thesis by simp
qed

text \<open>Two runs of the simplified agent.\<close>

lemma simple_sample_run:
  "run_summary (simple_through_decide canned_env sample_ability sample_input) =
     ([''INTAKE'', ''UNDERSTAND'', ''PREPARE'', ''ASK'', ''RETRIEVE'', ''DECIDE''],
      RESOLVED, JInt 92, JBool False, None)"
  by code_simp

lemma simple_agent_completes_escalated_run:
  "output_summary (simple_process_ticket canned_env low_score_ability sample_input) =
     Some ([''INTAKE'', ''UNDERSTAND'', ''PREPARE'', ''ASK'', ''RETRIEVE'', ''DECIDE'', ''COMPLETE''],
           ESCALATED, Some ''Low confidence score: 40%'', True)"
  by code_simp

text \<open>
  C2, as stated, fails on the simplified agent: with the score 92 of its simulated
  provider and no escalation, its DECIDE stage has itself set the status to resolved
  before any UPDATE stage runs.
\<close>

theorem simple_agent_resolves_in_decide:
  "py_ge (confidence_score (fst (fst (simple_through_decide canned_env sample_ability sample_input)))) 90
     = Inr True
   \<and> \<not> truthy (escalation_needed (fst (fst (simple_through_decide canned_env sample_ability sample_input))))
   \<and> map stage_name (snd (fst (simple_through_decide canned_env sample_ability sample_input))) =
       [''INTAKE'', ''UNDERSTAND'', ''PREPARE'', ''ASK'', ''RETRIEVE'', ''DECIDE'']
   \<and> snd (simple_through_decide canned_env sample_ability sample_input) = None
   \<and> ticket_status (fst (fst (simple_through_decide canned_env sample_ability sample_input))) = RESOLVED"
proof -
  obtain state logs err where
    r: "simple_through_decide canned_env sample_ability sample_input = ((state, logs), err)"
    by (metis prod.collapse)
  from simple_sample_run show ?thesis
    unfolding r by (simp add: py_ge_def num_value_def truthy_def)
qed

text \<open>
  C2, amended. In every run of the LangGraph engine in which the state that DECIDE has
  returned passes the state schema and, as the schema reads it, has a confidence score
  of at least 90 and no escalation requested: the ticket is still pending when DECIDE has
  returned, the run goes on to UPDATE, UPDATE sets the status to resolved, and the ticket
  is resolved at the end of every such run that returns.
\<close>

theorem high_confidence_resolved_by_update:
  assumes "state_after_decide ev mgr p = Inr s7"
    and "CustomerSupportState_validate ev s7 = Inr seen"
    and "py_ge (confidence_score seen) 90 = Inr True"
    and "\<not> truthy (escalation_needed seen)"
  shows "ticket_status s7 = PENDING
       \<and> route ev decide s7 = Inr update
       \<and> ticket_status (stage_08_update ev mgr seen) = RESOLVED
       \<and> final_state ev mgr p = run_from ev mgr create (stage_08_update ev mgr seen)
       \<and> (\<forall>f. final_state ev mgr p = Inr f \<longrightarrow> ticket_status f = RESOLVED)"
proof -
  from assms(1) obtain seen6 where s7: "s7 = stage_07_decide ev mgr seen6"
    and t6: "ticket_status seen6 = PENDING"
    by (rule after_decide)
  have "escalation_needed s7 \<noteq> JBool True"
    using validate_flag_True [OF assms(2)] assms(4) by auto
  with stage_07_flag [of ev mgr seen6] have pending: "ticket_status s7 = PENDING"
    by (simp add: s7 t6)
  have route: "route ev decide s7 = Inr update"
    using assms(4) by (simp add: route_branch assms(2) next_node_def should_escalate_def)
  have resolved: "ticket_status (stage_08_update ev mgr seen) = RESOLVED"
    using assms(3,4) by (rule stage_08_update_resolves)
  have step: "node_step ev mgr update s7 = Inr (stage_08_update ev mgr seen)"
    by (simp add: node_step_def assms(2) node_function_def)
  have final: "final_state ev mgr p = run_from ev mgr create (stage_08_update ev mgr seen)"
    using assms(4) by (simp add: final_state_eq assms(1,2) run_from_update step)
  have "ticket_status f = RESOLVED" if "final_state ev mgr p = Inr f" for f
  proof -
    from that final have "run_from ev mgr create (stage_08_update ev mgr seen) = Inr f" by simp
    then obtain s9 s10 where 9: "node_step ev mgr create (stage_08_update ev mgr seen) = Inr s9"
      and 10: "node_step ev mgr do s9 = Inr s10" and 11: "node_step ev mgr complete s10 = Inr f"
      by (auto simp: run_from_create on_return_eq_Inr)
    from node_step_facts(3) [OF 9] node_step_facts(3) [OF 10] node_step_facts(3) [OF 11] resolved
    show ?thesis by simp
  qed
  with pending route resolved final show ?thesis by blast
qed

lemma canned_after_decide:
  "branch_summary canned_env (state_after_decide canned_env sample_manager sample_input) =
     Inr (JInt 92, PENDING, True, JBool False, JStr ''Standard troubleshooting available'',
          Inr (JFloat 92, JBool False))"
  by code_simp

lemma canned_run:
  "state_summary (final_state canned_env sample_manager sample_input) =
     Inr ([(1, ''INTAKE''), (2, ''UNDERSTAND''), (3, ''PREPARE''), (4, ''ASK''), (6, ''RETRIEVE''),
           (7, ''DECIDE''), (8, ''UPDATE''), (9, ''CREATE''), (10, ''DO''), (11, ''COMPLETE'')],
          [True, True, True, True, True, True, True, True, True, True], RESOLVED, JFloat 92,
          JBool False, JStr ''Standard troubleshooting available'', True)"
  by code_simp

theorem high_confidence_resolved_by_update_witness:
  "(case state_after_decide canned_env sample_manager sample_input of
      Inl e \<Rightarrow> False
    | Inr s7 \<Rightarrow> confidence_score s7 = JInt 92 \<and> ticket_status s7 = PENDING
        \<and> route canned_env decide s7 = Inr update)
   \<and> (case final_state canned_env sample_manager sample_input of
         Inl e \<Rightarrow> False
       | Inr f \<Rightarrow> ticket_status f = RESOLVED)"
proof -
  obtain s7 seen where 7: "state_after_decide canned_env sample_manager sample_input = Inr s7"
    and c: "confidence_score s7 = JInt 92"
    and v: "CustomerSupportState_validate canned_env s7 = Inr seen"
    and h: "confidence_score seen = JFloat 92" "escalation_needed seen = JBool False"
    using canned_after_decide
    by (cases "state_after_decide canned_env sample_manager sample_input";
        cases "CustomerSupportState_validate canned_env
                 (projr (state_after_decide canned_env sample_manager sample_input))")
       auto
  obtain f where f: "final_state canned_env sample_manager sample_input = Inr f"
    using canned_run by (cases "final_state canned_env sample_manager sample_input") simp_all
  have "py_ge (confidence_score seen) 90 = Inr True" "\<not> truthy (escalation_needed seen)"
    by (simp_all add: h py_ge_def num_value_def truthy_def)
  from high_confidence_resolved_by_update [OF 7 v this] f
  have "ticket_status s7 = PENDING" "route canned_env decide s7 = Inr update"
    "ticket_status f = RESOLVED"
    by blast+
  with c show ?thesis by (simp add: 7 f)
qed

text \<open>
  C10, as stated, fails: the state that DECIDE returns has to pass the state schema
  before the branch is taken. In this run the score is 92 and the provider of
  \<open>escalation_decision\<close> returns \<^verbatim>\<open>escalate = true\<close> with a list as the reason: DECIDE
  stores both, the schema refuses the reason, and the run raises the validation error
  instead of taking the escalation exit.
\<close>

theorem ill_typed_reason_raises:
  "branch_summary list_reason_env (state_after_decide list_reason_env sample_manager sample_input) =
     Inr (JInt 92, PENDING, True, JBool True, JList [JStr ''fraud'', JStr ''chargeback''],
          Inl (Exn ''ValidationError'' ''validation error for CustomerSupportState''))
   \<and> provider list_reason_env ''ATLAS'' ''escalation_decision'' sample_input =
       Inr [(''escalate'', JBool True), (''reason'', JList [JStr ''fraud'', JStr ''chargeback''])]
   \<and> fst (process_ticket list_reason_env sample_manager sample_input) =
       Inl (Exn ''ValidationError'' ''validation error for CustomerSupportState'')"
  by code_simp

text \<open>
  C10, amended. In every run in which DECIDE ends without raising with a confidence
  score of at least 90, the provider of \<open>escalation_decision\<close> has returned
  \<^verbatim>\<open>escalate = true\<close>, and the state that DECIDE returns passes the state schema, the run
  takes the escalation exit: it ends with the state that DECIDE returned, whose last log
  is that of DECIDE (after the logs of the stages before it, with or without WAIT), the
  ticket is pending, the flag is set, the reason is the provider's, and the output record
  says so.
\<close>

theorem provider_escalation_takes_exit:
  assumes "state_after_decide ev (MCPManager_init a c) p = Inr s7"
    and "success (last (stage_logs s7))"
    and "py_ge (confidence_score s7) 90 = Inr True"
    and "provider ev ''ATLAS'' ''escalation_decision'' p = Inr d"
    and "dict_get d ''escalate'' (JBool False) = JBool True"
    and "CustomerSupportState_validate ev s7 = Inr seen"
  shows "final_state ev (MCPManager_init a c) p = Inr s7
       \<and> route ev decide s7 = Inr END
       \<and> (\<exists>w. (w = [] \<or> w = [(5, ''WAIT'')])
              \<and> labels s7 = [(1, ''INTAKE''), (2, ''UNDERSTAND''), (3, ''PREPARE''), (4, ''ASK'')]
                   @ w @ [(6, ''RETRIEVE''), (7, ''DECIDE'')])
       \<and> ticket_status s7 = PENDING
       \<and> escalation_needed s7 = JBool True
       \<and> escalation_reason s7 = dict_get d ''reason'' (JStr [])
       \<and> (\<exists>out. fst (process_ticket ev (MCPManager_init a c) p) = Inr out
              \<and> out_status out = PENDING \<and> out_stage_logs out = stage_logs s7
              \<and> validate_optional_str ev (dict_get d ''reason'' (JStr [])) =
                  Some (out_escalation_reason out))"
proof -
  let ?M = "MCPManager_init a c"
  from assms(1) obtain s4 seen4 seen6 where s7: "s7 = stage_07_decide ev ?M seen6"
    and p6: "input_payload seen6 = p" and t6: "ticket_status seen6 = PENDING"
    and l7: "labels s7 = [(1, ''INTAKE''), (2, ''UNDERSTAND''), (3, ''PREPARE''), (4, ''ASK'')]
           @ (if should_wait seen4 = ''wait'' then [(5, ''WAIT'')] else [])
           @ [(6, ''RETRIEVE''), (7, ''DECIDE'')]"
    by (rule after_decide)
  let ?s0 = "snd (log_stage_start seen6 ''DECIDE'' 7 NON_DETERMINISTIC)"
  let ?lg0 = "fst (log_stage_start seen6 ''DECIDE'' 7 NON_DETERMINISTIC)"
  let ?results = "fst (execute_abilities ev ?M ?s0 ?lg0
      [(''solution_evaluation'', ''COMMON''), (''escalation_decision'', ''ATLAS''),
       (''update_payload'', ''internal'')])"
  obtain s' lg' r where
    b: "decide_body ev ?M ?s0 ?lg0 = (s', lg', r)"
    and eq: "stage_07_decide ev ?M seen6 =
           s'\<lparr>stage_logs := stage_logs seen6 @
                [lg'\<lparr>ended := True, success := (r = None),
                     log_error := (case r of None \<Rightarrow> None
                                   | Some e \<Rightarrow> if exn_msg e \<noteq> [] then Some (exn_msg e) else None)\<rparr>]\<rparr>"
    by (rule stage_07_decide_eq)
  from assms(2) eq have r: "r = None" by (simp add: s7)
  with decide_body_cases [OF b] have ap: "decide_apply ev ?results ?s0 = (s', None)"
    by auto
  then obtain st2 where
    a2: "and_then (decide_solutions ?results ?s0) (decide_escalation ?results) = (st2, None)"
    and rule: "escalation_rule ev st2 = (s', None)"
    unfolding decide_apply_def by (rule and_then_None)
  from a2 obtain st1 where
    sol: "decide_solutions ?results ?s0 = (st1, None)"
    and esc: "decide_escalation ?results st1 = (st2, None)"
    by (rule and_then_None)
  have payload: "input_payload ?s0 = p"
    by (simp add: log_stage_start_fields p6)
  have "map_of ?results ''escalation_decision'' = Some (Some d)"
    using assms(4) by (simp add: decide_results payload)
  from decide_escalation_None [OF esc this]
  have st2: "st2 = st1\<lparr>escalation_needed := dict_get d ''escalate'' (JBool False),
                        escalation_reason := dict_get d ''reason'' (JStr [])\<rparr>" .
  have conf: "confidence_score s7 = confidence_score st2"
    using escalation_rule_None(1) [OF rule] by (simp add: s7 eq)
  with assms(3) have "py_lt (confidence_score st2) 90 = Inr False"
    by (simp add: py_ge_not_lt)
  from escalation_rule_None(3) [OF rule this] have s': "s' = st2" .
  have st1: "ticket_status st1 = PENDING"
    using decide_solutions_fields [of ?results ?s0] sol
    by (simp add: log_stage_start_fields t6)
  have f: "escalation_needed s7 = JBool True"
    "escalation_reason s7 = dict_get d ''reason'' (JStr [])"
    "ticket_status s7 = PENDING"
    using st1 assms(5) by (simp_all add: s7 eq s' st2)
  have flag: "truthy (escalation_needed seen)"
    using assms(6) f(1) by (rule validate_flag_True)
  then have final: "final_state ev ?M p = Inr s7"
    by (simp add: final_state_eq assms(1,6))
  have route: "route ev decide s7 = Inr END"
    using flag by (simp add: route_branch assms(6) next_node_def should_escalate_def)
  from final obtain out where "fst (process_ticket ev ?M p) = Inr out"
    and "out_stage_logs out = stage_logs s7" and "out_status out = ticket_status s7"
    and "validate_optional_str ev (escalation_reason s7) = Some (out_escalation_reason out)"
    by (rule process_ticket_output)
  then have out: "\<exists>out. fst (process_ticket ev ?M p) = Inr out
              \<and> out_status out = PENDING \<and> out_stage_logs out = stage_logs s7
              \<and> validate_optional_str ev (dict_get d ''reason'' (JStr [])) =
                  Some (out_escalation_reason out)"
    by (auto simp: f)
  have "\<exists>w. (w = [] \<or> w = [(5, ''WAIT'')])
              \<and> labels s7 = [(1, ''INTAKE''), (2, ''UNDERSTAND''), (3, ''PREPARE''), (4, ''ASK'')]
                   @ w @ [(6, ''RETRIEVE''), (7, ''DECIDE'')]"
    using l7 by (cases "should_wait seen4 = ''wait''") simp_all
  with final route f out show ?thesis by blast
qed

lemma escalating_after_decide:
  "branch_summary escalating_env (state_after_decide escalating_env sample_manager sample_input) =
     Inr (JInt 92, PENDING, True, JBool True, JStr ''Security review required'',
          Inr (JFloat 92, JBool True))"
  by code_simp

lemma escalating_run:
  "state_summary (final_state escalating_env sample_manager sample_input) =
     Inr ([(1, ''INTAKE''), (2, ''UNDERSTAND''), (3, ''PREPARE''), (4, ''ASK''), (6, ''RETRIEVE''),
           (7, ''DECIDE'')],
          [True, True, True, True, True, True], PENDING, JInt 92, JBool True,
          JStr ''Security review required'', False)"
  by code_simp

theorem provider_escalation_takes_exit_witness:
  "(case final_state escalating_env sample_manager sample_input of
      Inl e \<Rightarrow> False
    | Inr f \<Rightarrow>
        labels f =
          [(1, ''INTAKE''), (2, ''UNDERSTAND''), (3, ''PREPARE''), (4, ''ASK''), (6, ''RETRIEVE''),
           (7, ''DECIDE'')]
        \<and> confidence_score f = JInt 92
        \<and> ticket_status f = PENDING
        \<and> escalation_needed f = JBool True
        \<and> escalation_reason f = JStr ''Security review required'')
   \<and> (case fst (process_ticket escalating_env sample_manager sample_input) of
         Inl e \<Rightarrow> False
       | Inr out \<Rightarrow> out_status out = PENDING
           \<and> out_escalation_reason out = Some ''Security review required'')"
proof -
  let ?d = "[(''escalate'', JBool True), (''reason'', JStr ''Security review required'')]"
  obtain s7 seen where 7: "state_after_decide escalating_env sample_manager sample_input = Inr s7"
    and c: "confidence_score s7 = JInt 92" and ok: "success (last (stage_logs s7))"
    and v: "CustomerSupportState_validate escalating_env s7 = Inr seen"
    using escalating_after_decide
    by (cases "state_after_decide escalating_env sample_manager sample_input";
        cases "CustomerSupportState_validate escalating_env
                 (projr (state_after_decide escalating_env sample_manager sample_input))")
       auto
  have hi: "py_ge (confidence_score s7) 90 = Inr True"
    by (simp add: c py_ge_def num_value_def)
  have d: "provider escalating_env ''ATLAS'' ''escalation_decision'' sample_input = Inr ?d"
    by (simp add: escalating_env_def env_of_def answering_def)
  have e: "dict_get ?d ''escalate'' (JBool False) = JBool True"
    and rs: "dict_get ?d ''reason'' (JStr []) = JStr ''Security review required''"
    by (simp_all add: dict_get_def)
  note exit = provider_escalation_takes_exit [of escalating_env
      "(''http://localhost:8001'', ''atlas-key'')" "(''http://localhost:8002'', ''common-key'')"
      sample_input s7 ?d seen, folded sample_manager_def, OF 7 ok hi d e v]
  from exit have f: "final_state escalating_env sample_manager sample_input = Inr s7"
    and t: "ticket_status s7 = PENDING" and n: "escalation_needed s7 = JBool True"
    and reason: "escalation_reason s7 = dict_get ?d ''reason'' (JStr [])"
    by blast+
  from exit obtain out where
    o: "fst (process_ticket escalating_env sample_manager sample_input) = Inr out"
    and os: "out_status out = PENDING"
    and r: "validate_optional_str escalating_env (dict_get ?d ''reason'' (JStr [])) =
                  Some (out_escalation_reason out)"
    by blast
  from r have "out_escalation_reason out = Some ''Security review required''"
    by (simp add: rs validate_optional_str_def)
  moreover have "labels s7 =
          [(1, ''INTAKE''), (2, ''UNDERSTAND''), (3, ''PREPARE''), (4, ''ASK''), (6, ''RETRIEVE''),
           (7, ''DECIDE'')]"
    using escalating_run by (simp add: f)
  ultimately show ?thesis
    using c t n reason rs os by (simp add: f o)
qed

section \<open>The path of a run and its output\<close>



text \<open>The run in which the best score is 40.\<close>

lemma low_score_run:
  "state_summary (final_state low_score_env sample_manager sample_input) =
     Inr ([(1, ''INTAKE''), (2, ''UNDERSTAND''), (3, ''PREPARE''), (4, ''ASK''), (6, ''RETRIEVE''),
           (7, ''DECIDE'')],
          [True, True, True, True, True, True], ESCALATED, JInt 40, JBool True,
          JStr ''Low confidence score: 40'', False)"
  by code_simp

lemma low_score_output:
  "output_summary (fst (process_ticket low_score_env sample_manager sample_input)) =
     Some ([''INTAKE'', ''UNDERSTAND'', ''PREPARE'', ''ASK'', ''RETRIEVE'', ''DECIDE''],
           ESCALATED, Some ''Low confidence score: 40'', False)"
  by code_simp

text \<open>
  C3. The claim is right and the graph is not: on the escalation exit the conditional
  edge out of DECIDE leads to \<open>END\<close>, so COMPLETE and its \<open>output_payload\<close> never run. In
  this run (best score 40) the last log is that of DECIDE and the final payload still
  says that processing is not complete; the output record is built all the same.
\<close>

theorem escalation_exit_skips_complete:
  "(case final_state low_score_env sample_manager sample_input of
      Inl e \<Rightarrow> False
    | Inr f \<Rightarrow>
        labels f =
          [(1, ''INTAKE''), (2, ''UNDERSTAND''), (3, ''PREPARE''), (4, ''ASK''), (6, ''RETRIEVE''),
           (7, ''DECIDE'')]
        \<and> \<not> processing_complete f)
   \<and> (case fst (process_ticket low_score_env sample_manager sample_input) of
         Inl e \<Rightarrow> False
       | Inr out \<Rightarrow> out_status out = ESCALATED
           \<and> out_escalation_reason out = Some ''Low confidence score: 40''
           \<and> \<not> processing_complete (final_payload out))"
proof -
  have "case final_state low_score_env sample_manager sample_input of
      Inl e \<Rightarrow> False
    | Inr f \<Rightarrow>
        labels f =
          [(1, ''INTAKE''), (2, ''UNDERSTAND''), (3, ''PREPARE''), (4, ''ASK''), (6, ''RETRIEVE''),
           (7, ''DECIDE'')]
        \<and> \<not> processing_complete f"
    using low_score_run
    by (cases "final_state low_score_env sample_manager sample_input") simp_all
  moreover have "case fst (process_ticket low_score_env sample_manager sample_input) of
         Inl e \<Rightarrow> False
       | Inr out \<Rightarrow> out_status out = ESCALATED
           \<and> out_escalation_reason out = Some ''Low confidence score: 40''
           \<and> \<not> processing_complete (final_payload out)"
    using low_score_output
    by (cases "fst (process_ticket low_score_env sample_manager sample_input)") simp_all
  ultimately show ?thesis by simp
qed








lemma null_score_raises:
  "final_state null_score_env sample_manager sample_input =
     Inl (Exn ''ValidationError'' ''validation error for CustomerSupportState'')"
  by code_simp






text \<open>
  C8. When the run entry point returns, with an output or with an exception, every
  client of the manager has had \<^verbatim>\<open>aclose\<close> called on it exactly once more than before; for
  a manager as the agent constructs it, exactly once.
\<close>

theorem providers_closed_once:
  "map fst (clients (snd (process_ticket ev mgr p))) = map fst (clients mgr)
   \<and> map (aclose_calls \<circ> snd) (clients (snd (process_ticket ev mgr p))) =
       map (Suc \<circ> aclose_calls \<circ> snd) (clients mgr)
   \<and> map (\<lambda>(k, c). (k, aclose_calls c)) (clients (snd (process_ticket ev (MCPManager_init a c) p))) =
       [(''ATLAS'', 1), (''COMMON'', 1)]"
  by (simp add: process_ticket_def MCPManager_close_def MCPManager_init_def MCPClient_init_def
      Let_def case_prod_unfold comp_def)

theorem providers_closed_once_witness:
  "\<not> isl (fst (process_ticket canned_env sample_manager sample_input))
   \<and> map (\<lambda>(k, c). (k, aclose_calls c)) (clients (snd (process_ticket canned_env sample_manager sample_input))) =
       [(''ATLAS'', 1), (''COMMON'', 1)]
   \<and> isl (fst (process_ticket null_score_env sample_manager sample_input))
   \<and> map (\<lambda>(k, c). (k, aclose_calls c)) (clients (snd (process_ticket null_score_env sample_manager sample_input))) =
       [(''ATLAS'', 1), (''COMMON'', 1)]"
proof -
  have "\<not> isl (fst (process_ticket canned_env sample_manager sample_input))"
    by code_simp
  moreover have "isl (fst (process_ticket null_score_env sample_manager sample_input))"
    by (simp add: process_ticket_raises [OF null_score_raises])
  ultimately show ?thesis
    using providers_closed_once [of canned_env sample_manager sample_input
        "(''http://localhost:8001'', ''atlas-key'')" "(''http://localhost:8002'', ''common-key'')"]
      providers_closed_once [of null_score_env sample_manager sample_input
        "(''http://localhost:8001'', ''atlas-key'')" "(''http://localhost:8002'', ''common-key'')"]
    by (simp add: sample_manager_def)
qed

end
